theory Spec2Isabelle
  imports Main
begin

unbundle bit_operations_syntax

section \<open>Decoded JSON values\<close>

text \<open>
  The inline parser receives what Go's \<^verbatim>\<open>encoding/json\<close> produces for an
  \<^verbatim>\<open>interface{}\<close>: nil, bool, float64, string, \<^verbatim>\<open>[]interface{}\<close> or
  \<^verbatim>\<open>map[string]interface{}\<close>. The parser never looks inside a number, so
  float64 stays an uninterpreted type.
\<close>

typedecl float64

datatype json =
    JNull
  | JBool bool
  | JNumber float64
  | JString string
  | JArray "json list"
  | JObject "(string \<times> json) list"

section \<open>Inline parser (package notionapi, inline block parsing)\<close>

text \<open>
  \<^verbatim>\<open>AttrFlag\<close> is a Go \<^verbatim>\<open>int\<close> used as a bit set; the constants are
  \<^verbatim>\<open>1 << iota\<close> in declaration order.
\<close>

definition AttrBold :: int where "AttrBold = 1"
definition AttrCode :: int where "AttrCode = 2"
definition AttrItalic :: int where "AttrItalic = 4"
definition AttrStrikeThrought :: int where "AttrStrikeThrought = 8"
definition AttrComment :: int where "AttrComment = 16"

record 'd InlineBlock =
  Text :: string
  AttrFlags :: int
  Link :: string
  UserID :: string
  CommentID :: string
  Date :: "'d option"

text \<open>\<^verbatim>\<open>&InlineBlock{Text: s}\<close>: every other field has Go's zero value.\<close>

definition newInlineBlock :: "string \<Rightarrow> 'd InlineBlock" where
  "newInlineBlock s =
     \<lparr>Text = s, AttrFlags = 0, Link = [], UserID = [], CommentID = [], Date = None\<rparr>"

definition IsPlain :: "'d InlineBlock \<Rightarrow> bool" where
  "IsPlain b \<longleftrightarrow> AttrFlags b = 0 \<and> Link b = [] \<and> UserID b = [] \<and> Date b = None"

text \<open>
  One constructor per \<^verbatim>\<open>fmt.Errorf\<close> site of the parser. The message text
  (with its \<^verbatim>\<open>%T\<close> and \<^verbatim>\<open>%#v\<close> renderings) is not modelled; the offending
  value is kept where the message prints it.
\<close>

datatype decode_error =
    AttributeArrayEmpty
  | AttrCodeNotString json
  | UnexpectedAttribute string
  | AttrLenNot2 nat
  | AttrValueNotString
  | RawAttrNotArray json
  | SpanEmpty
  | SpanLen1NotString json
  | SpanLenNot2 "json list"
  | SpanTextNotString json
  | SpanAttrsNotArray json
  | RawNotArray json
  | RawEmpty
  | SpanNotArray json

text \<open>
  The ways the parser can leave by a Go panic instead of returning:
  the unchecked type assertion \<^verbatim>\<open>a[1].(map[string]interface{})\<close>, the two
  \<^verbatim>\<open>panic(err.Error())\<close> calls around the date payload, and the index
  \<^verbatim>\<open>a[1]\<close> into a nil slice in \<^verbatim>\<open>parseInlineBlock\<close>.
\<close>

datatype parse_panic =
    InterfaceConversion json
  | DateMarshalPanic
  | DateUnmarshalPanic
  | SpanAttrsIndexOutOfRange

datatype 'a parse_result =
    Ok 'a
  | Error decode_error
  | Panic parse_panic

text \<open>
  The \<^verbatim>\<open>Date\<close> struct is declared outside the files at hand. The parser
  re-marshals the payload map and unmarshals it into a \<^verbatim>\<open>Date\<close>; that step is
  the parameter \<open>decodeDate\<close>, which answers \<open>None\<close> where
  \<^verbatim>\<open>json.Unmarshal\<close> reports an error. Marshalling a map that came out of the
  JSON decoder does not fail, so \<open>DateMarshalPanic\<close> is never produced.
\<close>

type_synonym 'd date_decoder = "(string \<times> json) list \<Rightarrow> 'd option"

definition parseAttribute ::
  "'d date_decoder \<Rightarrow> 'd InlineBlock \<Rightarrow> json list \<Rightarrow> 'd InlineBlock parse_result" where
  "parseAttribute decodeDate b a =
     (if length a = 0 then Error AttributeArrayEmpty
      else case a ! 0 of
        JString s \<Rightarrow>
          if length a = 1 then
            (if s = ''b'' then Ok (b\<lparr>AttrFlags := AttrFlags b OR AttrBold\<rparr>)
             else if s = ''i'' then Ok (b\<lparr>AttrFlags := AttrFlags b OR AttrItalic\<rparr>)
             else if s = ''s'' then Ok (b\<lparr>AttrFlags := AttrFlags b OR AttrStrikeThrought\<rparr>)
             else if s = ''c'' then Ok (b\<lparr>AttrFlags := AttrFlags b OR AttrCode\<rparr>)
             else Error (UnexpectedAttribute s))
          else if length a \<noteq> 2 then Error (AttrLenNot2 (length a))
          else if s = ''a'' \<or> s = ''u'' \<or> s = ''m'' then
            (case a ! 1 of
               JString v \<Rightarrow>
                 if s = ''a'' then Ok (b\<lparr>Link := v\<rparr>)
                 else if s = ''u'' then Ok (b\<lparr>UserID := v\<rparr>)
                 else Ok (b\<lparr>CommentID := v\<rparr>)
             | _ \<Rightarrow> Error AttrValueNotString)
          else if s = ''d'' then
            (case a ! 1 of
               JObject v \<Rightarrow>
                 (case decodeDate v of
                    None \<Rightarrow> Panic DateUnmarshalPanic
                  | Some d \<Rightarrow> Ok (b\<lparr>Date := Some d\<rparr>))
             | other \<Rightarrow> Panic (InterfaceConversion other))
          else Error (UnexpectedAttribute s)
      | other \<Rightarrow> Error (AttrCodeNotString other))"

fun parseAttributes ::
  "'d date_decoder \<Rightarrow> 'd InlineBlock \<Rightarrow> json list \<Rightarrow> 'd InlineBlock parse_result" where
  "parseAttributes decodeDate b [] = Ok b"
| "parseAttributes decodeDate b (rawAttr # rest) =
     (case rawAttr of
        JArray attrList \<Rightarrow>
          (case parseAttribute decodeDate b attrList of
             Ok b' \<Rightarrow> parseAttributes decodeDate b' rest
           | Error e \<Rightarrow> Error e
           | Panic p \<Rightarrow> Panic p)
      | other \<Rightarrow> Error (RawAttrNotArray other))"

text \<open>
  In \<^verbatim>\<open>a, ok = a[1].([]interface{})\<close> a failed assertion sets \<^verbatim>\<open>a\<close> itself to
  nil, so the \<^verbatim>\<open>a[1]\<close> among the arguments of the \<^verbatim>\<open>fmt.Errorf\<close> that
  follows indexes a nil slice: the function panics there and the error
  \<open>SpanAttrsNotArray\<close> is never built.
\<close>

definition parseInlineBlock ::
  "'d date_decoder \<Rightarrow> json list \<Rightarrow> 'd InlineBlock parse_result" where
  "parseInlineBlock decodeDate a =
     (if length a = 0 then Error SpanEmpty
      else if length a = 1 then
        (case a ! 0 of
           JString s \<Rightarrow> Ok (newInlineBlock s)
         | other \<Rightarrow> Error (SpanLen1NotString other))
      else if length a \<noteq> 2 then Error (SpanLenNot2 a)
      else case a ! 0 of
        JString s \<Rightarrow>
          (case a ! 1 of
             JArray attrs \<Rightarrow> parseAttributes decodeDate (newInlineBlock s) attrs
           | other \<Rightarrow> Panic SpanAttrsIndexOutOfRange)
      | other \<Rightarrow> Error (SpanTextNotString other))"

text \<open>The loop of \<^verbatim>\<open>parseInlineBlocks\<close>: \<open>res\<close> is the slice built so far.\<close>

fun parseInlineBlocksLoop ::
  "'d date_decoder \<Rightarrow> 'd InlineBlock list \<Rightarrow> json list \<Rightarrow> 'd InlineBlock list parse_result" where
  "parseInlineBlocksLoop decodeDate res [] = Ok res"
| "parseInlineBlocksLoop decodeDate res (v # rest) =
     (case v of
        JArray a2 \<Rightarrow>
          (case parseInlineBlock decodeDate a2 of
             Ok block \<Rightarrow> parseInlineBlocksLoop decodeDate (res @ [block]) rest
           | Error e \<Rightarrow> Error e
           | Panic p \<Rightarrow> Panic p)
      | other \<Rightarrow> Error (SpanNotArray other))"

definition parseInlineBlocks ::
  "'d date_decoder \<Rightarrow> json \<Rightarrow> 'd InlineBlock list parse_result" where
  "parseInlineBlocks decodeDate raw =
     (case raw of
        JArray a \<Rightarrow>
          if length a = 0 then Error RawEmpty
          else parseInlineBlocksLoop decodeDate [] a
      | other \<Rightarrow> Error (RawNotArray other))"


section \<open>Go string functions used by the HTML converter\<close>

text \<open>
  Go strings are byte sequences and so are HOL strings. The functions below are the
  byte-level behaviour of the standard library on the arguments the converter passes.
\<close>

definition HasPrefix :: "string \<Rightarrow> string \<Rightarrow> bool" where
  "HasPrefix s pre \<longleftrightarrow> take (length pre) s = pre"

fun Contains :: "string \<Rightarrow> string \<Rightarrow> bool" where
  "Contains [] sub = (sub = [])"
| "Contains (c # cs) sub = (HasPrefix (c # cs) sub \<or> Contains cs sub)"

text \<open>
  \<^verbatim>\<open>strings.Replace(s, old, new, -1)\<close>: every non-overlapping occurrence of
  \<open>old\<close>, leftmost first. The converter only passes a non-empty \<open>old\<close>; for an
  empty one Go inserts \<open>new\<close> before every character and at the end.
\<close>

function Replace :: "string \<Rightarrow> string \<Rightarrow> string \<Rightarrow> string" where
  "Replace s [] new = new @ concat (map (\<lambda>c. c # new) s)"
| "Replace [] (x # old) new = []"
| "Replace (c # cs) (x # old) new =
     (if HasPrefix (c # cs) (x # old)
      then new @ Replace (drop (length (x # old)) (c # cs)) (x # old) new
      else c # Replace cs (x # old) new)"
  by pat_completeness auto
termination
  by (relation "measure (\<lambda>(s, old, new). length s)") auto

text \<open>\<^verbatim>\<open>strings.Split(s, sep)\<close> for a separator of one byte.\<close>

fun Split :: "string \<Rightarrow> char \<Rightarrow> string list" where
  "Split [] sep = [[]]"
| "Split (c # cs) sep =
     (if c = sep then [] # Split cs sep
      else case Split cs sep of
             [] \<Rightarrow> [[c]]
           | p # ps \<Rightarrow> (c # p) # ps)"

text \<open>\<^verbatim>\<open>strings.TrimLeft(s, " ")\<close> and \<^verbatim>\<open>strings.TrimRight(s, " ")\<close>.\<close>

definition TrimLeft :: "string \<Rightarrow> char \<Rightarrow> string" where
  "TrimLeft s cutset = dropWhile (\<lambda>c. c = cutset) s"

definition TrimRight :: "string \<Rightarrow> char \<Rightarrow> string" where
  "TrimRight s cutset = rev (dropWhile (\<lambda>c. c = cutset) (rev s))"

text \<open>
  \<^verbatim>\<open>strings.TrimSpace\<close> on the one-byte white space characters
  (tab, line feed, vertical tab, form feed, carriage return, space).
\<close>

definition isSpace :: "char \<Rightarrow> bool" where
  "isSpace c \<longleftrightarrow> c \<in> set [CHR 0x09, CHR 0x0A, CHR 0x0B, CHR 0x0C, CHR 0x0D, CHR 0x20]"

definition TrimSpace :: "string \<Rightarrow> string" where
  "TrimSpace s = rev (dropWhile isSpace (rev (dropWhile isSpace s)))"

text \<open>\<^verbatim>\<open>fmt.Sprintf("%d", n)\<close> for a Go \<^verbatim>\<open>int\<close>.\<close>

fun natToDecimal :: "nat \<Rightarrow> string" where
  "natToDecimal n =
     (if n < 10 then [''0123456789'' ! n]
      else natToDecimal (n div 10) @ [''0123456789'' ! (n mod 10)])"

definition Itoa :: "int \<Rightarrow> string" where
  "Itoa i = (if i < 0 then CHR ''-'' # natToDecimal (nat (- i)) else natToDecimal (nat i))"

text \<open>
  A Go \<^verbatim>\<open>int\<close> has 64 bits. The fields of that type are integers here, and where
  the source adds to one the sum is wrapped round as the machine does: the largest
  value, \<open>2 ^ 63 - 1\<close>, is followed by the least, \<open>- (2 ^ 63)\<close>.
\<close>

definition wrapInt :: "int \<Rightarrow> int" where
  "wrapInt n = (n + 2 ^ 63) mod 2 ^ 64 - 2 ^ 63"

text \<open>
  \<^verbatim>\<open>html.EscapeString\<close> replaces the five characters
  \<^verbatim>\<open>&\<close>, \<^verbatim>\<open>'\<close>, \<^verbatim>\<open><\<close>, \<^verbatim>\<open>>\<close> and the double quote.
\<close>

definition htmlEscapeChar :: "char \<Rightarrow> string" where
  \<open>htmlEscapeChar c =
     (if c = CHR ''&'' then ''&amp;''
      else if c = CHR 0x27 then ''&#39;''
      else if c = CHR ''<'' then ''&lt;''
      else if c = CHR ''>'' then ''&gt;''
      else if c = CHR 0x22 then ''&#34;''
      else [c])\<close>

definition htmlEscapeString :: "string \<Rightarrow> string" where
  "htmlEscapeString s = concat (map htmlEscapeChar s)"

definition EscapeHTML :: "string \<Rightarrow> string" where
  \<open>EscapeHTML s =
     (let s = htmlEscapeString s;
          s = Replace s ''&#39;'' ''&#x27;'';
          s = Replace s ''&#34;'' ''&quot;''
      in s)\<close>



lemma HasPrefix_length:
  assumes "HasPrefix s pre"
  shows "length pre \<le> length s"
proof -
  from assms have "length (take (length pre) s) = length pre"
    by (simp only: HasPrefix_def)
  then show ?thesis by simp
qed

lemma Replace_length_le:
  "length new \<le> length old \<Longrightarrow> length (Replace s old new) \<le> length s"
proof (induction s old new rule: Replace.induct)
  case (1 s new)
  then show ?case by simp
next
  case (2 x old new)
  then show ?case by simp
next
  case (3 c cs x old new)
  show ?case
  proof (cases "HasPrefix (c # cs) (x # old)")
    case True
    from HasPrefix_length [OF True] "3.IH"(1) [OF True "3.prems"] "3.prems" True
    show ?thesis by simp
  next
    case False
    from "3.IH"(2) [OF False "3.prems"] False show ?thesis by simp
  qed
qed

lemma Replace_length_less:
  "length new < length old \<Longrightarrow> Contains s old \<Longrightarrow> length (Replace s old new) < length s"
proof (induction s old new rule: Replace.induct)
  case (1 s new)
  then show ?case by simp
next
  case (2 x old new)
  then show ?case by simp
next
  case (3 c cs x old new)
  show ?case
  proof (cases "HasPrefix (c # cs) (x # old)")
    case True
    from HasPrefix_length [OF True]
      Replace_length_le [of new "x # old" "drop (length (x # old)) (c # cs)"] "3.prems" True
    show ?thesis by simp
  next
    case False
    with "3.prems" have "Contains cs (x # old)" by simp
    from "3.IH"(2) [OF False "3.prems"(1) this] False show ?thesis by simp
  qed
qed

lemma Replace_no_occurrence:
  "old \<noteq> [] \<Longrightarrow> \<not> Contains s old \<Longrightarrow> Replace s old new = s"
proof (induction s)
  case Nil
  then show ?case by (cases old) simp_all
next
  case (Cons c cs)
  then show ?case by (cases old) simp_all
qed

lemma Split_not_Nil: "Split s sep \<noteq> []"
  by (induction s) (auto split: list.splits)

section \<open>Data model of the converter\<close>

subsection \<open>Inline text\<close>

typedecl Date

text \<open>
  Modelled from the spec: the \<^verbatim>\<open>TextSpan\<close> and \<^verbatim>\<open>TextAttr\<close> types and their
  accessors (\<^verbatim>\<open>AttrGetType\<close>, \<^verbatim>\<open>AttrGetLink\<close>, ...) are declared outside the
  files at hand. An attribute is a tagged variant: bold, italic, strikethrough and code
  carry no payload; link carries a URI, user reference a user id, date reference a date
  value, comment reference an id, page reference a page id and highlight a colour name.
  A constructor application \<open>TextAttrLink uri\<close> stands for an attribute whose
  \<^verbatim>\<open>AttrGetType\<close> is \<^verbatim>\<open>AttrLink\<close> and whose \<^verbatim>\<open>AttrGetLink\<close> is \<open>uri\<close>.
  The constructors carry the prefix \<open>Text\<close> because \<^verbatim>\<open>AttrBold\<close> and its
  siblings already name the flag bits of the inline parser.
\<close>

datatype TextAttr =
    TextAttrHighlight string
  | TextAttrBold
  | TextAttrItalic
  | TextAttrStrikeThrought
  | TextAttrCode
  | TextAttrPage string
  | TextAttrLink string
  | TextAttrUser string
  | TextAttrDate Date
  | TextAttrComment string

text \<open>The field \<^verbatim>\<open>Text\<close> of a span is \<open>SpanText\<close> here (\<open>Text\<close> is taken).\<close>

record TextSpan =
  SpanText :: string
  Attrs :: "TextAttr list"

subsection \<open>Collections\<close>

text \<open>
  Modelled from the spec: a collection has a display name, an icon and a schema from
  column key to display name and declared type; a view lists the visible column keys; a
  row carries a mapping from column key to the raw inline-content value. Rows are blocks
  in the source; only their id, their properties and their title are read.
\<close>

record ColumnSchema =
  ColumnName :: string
  ColumnType :: string

record Collection =
  CollectionName :: string
  Icon :: string
  CollectionSchema :: "string \<rightharpoonup> ColumnSchema"

record TableProperty =
  Property :: string

record CollectionViewFormat =
  TableProperties :: "TableProperty list"

record CollectionView =
  Format :: "CollectionViewFormat option"

record Row =
  RowID :: string
  RowProperties :: "string \<rightharpoonup> json"
  RowTitle :: "TextSpan list"

record CollectionViewInfo =
  ViewOf :: CollectionView
  CollectionOf :: Collection
  CollectionRows :: "Row list"

subsection \<open>Blocks\<close>

text \<open>
  The type tag of a block is a Go string compared against the constants
  \<^verbatim>\<open>notionapi.BlockPage\<close>, ...; the constants are distinct strings declared outside
  the files at hand, so the tag is a datatype with one constructor per constant and
  \<open>BlockOther\<close> for every other string.
\<close>

datatype BlockType =
    BlockPage | BlockText | BlockEquation | BlockNumberedList | BlockBulletedList
  | BlockHeader | BlockSubHeader | BlockSubSubHeader | BlockTodo | BlockToggle
  | BlockQuote | BlockDivider | BlockCode | BlockBookmark | BlockImage
  | BlockColumnList | BlockColumn | BlockCollectionView | BlockCollectionViewPage
  | BlockEmbed | BlockGist | BlockMaps | BlockCodepen | BlockTweet | BlockVideo
  | BlockAudio | BlockFile | BlockDrive | BlockFigma | BlockPDF | BlockCallout
  | BlockTableOfContents | BlockBreadcrumb | BlockFactory
  | BlockOther string

record FormatPage =
  PageFont :: string
  PageCoverPosition :: float64

record FormatImage =
  BlockWidth :: float64

record FormatColumn =
  ColumnRatio :: float64

text \<open>
  A block, with the fields and accessor results the converter reads.
  \<open>Content\<close> holds pointers in the source, so an entry can be nil (\<open>None\<close>).
  \<open>Properties\<close> is what \<^verbatim>\<open>PropAsString\<close> can find; \<open>FormatPage\<close>,
  \<open>FormatImage\<close>, \<open>FormatColumn\<close> and \<open>GetCaption\<close> are the results of the
  accessors of these names (a nil result is \<open>None\<close>). The field \<^verbatim>\<open>Link\<close> is
  \<open>BlockLink\<close> here. The \<^verbatim>\<open>Parent\<close> pointer is not a field: the converter
  assigns it on the way down, and the functions that follow it take the chain of
  ancestors (nearest first) as an argument.
\<close>

datatype Block = Block
  (ID: string)
  (Type: BlockType)
  (Title: string)
  (Content: "Block option list")
  (InlineContent: "TextSpan list")
  (Code: string)
  (IsChecked: bool)
  (Source: string)
  (BlockLink: string)
  (FileIDs: "string list")
  (CollectionID: string)
  (CollectionViews: "CollectionViewInfo list")
  (Properties: "string \<rightharpoonup> string")
  (FormatPage: "FormatPage option")
  (FormatImage: "FormatImage option")
  (FormatColumn: "FormatColumn option")
  (GetCaption: "TextSpan list option")

text \<open>\<^verbatim>\<open>block.PropAsString(name)\<close>: the value and whether it was found.\<close>

definition PropAsString :: "Block \<Rightarrow> string \<Rightarrow> string \<times> bool" where
  "PropAsString block name =
     (case Properties block name of None \<Rightarrow> ([], False) | Some v \<Rightarrow> (v, True))"

subsection \<open>Outcomes\<close>

text \<open>
  A rendering step returns, or leaves by a Go panic: a nil pointer dereference, an index
  out of range, \<^verbatim>\<open>notionapi.MaybePanic\<close> in its panicking mode, or a panic raised
  by the caller's override hook.
\<close>

datatype panic =
    NilPointerDereference
  | IndexOutOfRange
  | MaybePanicked
  | HookPanicked

datatype 'a outcome =
    Returns 'a
  | Panics panic

definition andThen :: "'a outcome \<Rightarrow> ('a \<Rightarrow> 'b outcome) \<Rightarrow> 'b outcome" where
  "andThen m f = (case m of Returns x \<Rightarrow> f x | Panics p \<Rightarrow> Panics p)"

subsection \<open>The converter\<close>

text \<open>
  The mutable fields of \<^verbatim>\<open>Converter\<close>. \<open>Buf\<close> is the content of the buffer
  \<^verbatim>\<open>c.Buf\<close> points to and \<open>bufs\<close> the contents of the saved buffers; the
  rendering methods are modelled for a converter whose \<^verbatim>\<open>Buf\<close> is set, as it is
  between \<^verbatim>\<open>PushNewBuffer\<close> and \<^verbatim>\<open>PopBuffer\<close>. The page, the related pages
  and the override hook are in the environment below.
\<close>

record Converter =
  Buf :: string
  ListNo :: int
  NotionCompat :: bool
  UseKatexToRenderEquation :: bool
  KatexPath :: string
  AddHeaderAnchor :: bool
  RewriteURL :: "(string \<Rightarrow> string) option"
  FullHTML :: bool
  CurrBlocks :: "Block option list"
  CurrBlockIdx :: int
  didImportKatexCSS :: bool
  bufs :: "string list"

text \<open>What running the katex binary on an equation does, step by step.\<close>

datatype ProcessRun =
    StdinPipeFails
  | StartFails
  | WriteFails
  | CloseFails
  | WaitFails
  | Exits string

datatype ExecError =
    StdinPipeError | StartError | WriteError | CloseError | WaitError

text \<open>
  Everything the converter reads but does not own: the page (\<^verbatim>\<open>c.Page\<close>, taken to
  be non-nil as \<^verbatim>\<open>NewConverter\<close> is given one), the helpers of package
  \<^verbatim>\<open>notionapi\<close> that are declared outside the files at hand, the operating system,
  and the formatting of floating-point numbers.

  Modelled from the spec: \<^verbatim>\<open>notionapi.MaybePanic\<close> is a hard failure or a logged
  diagnostic depending on a mode flag, here \<open>PanicOnFailures\<close>. Logging itself has no
  effect on the converter and is left out.

  \<open>RenderBlockOverride\<close> is a closure over the converter in the source; here it takes
  the ancestors, the block and the converter and answers whether it handled the block,
  with the converter it leaves behind.
\<close>

record Env =
  PageID :: string
  Root :: "Block option"
  RootParents :: "Block list"
  BlockByID :: "string \<Rightarrow> Block option"
  CollectionByID :: "string \<Rightarrow> Collection option"
  IsRoot :: "Block \<Rightarrow> bool"
  IsSubPage :: "Block \<Rightarrow> bool"
  ToNoDashID :: "string \<Rightarrow> string"
  ResolveUser :: "string \<Rightarrow> string"
  NotionFormatDate :: "Date \<Rightarrow> string"
  TextSpansToString :: "TextSpan list \<Rightarrow> string"
  ParseTextSpans :: "json \<Rightarrow> TextSpan list option"
  BlockTypeName :: "BlockType \<Rightarrow> string"
  CSS :: string
  PanicOnFailures :: bool
  RenderBlockOverride ::
    "(Block list \<Rightarrow> Block \<Rightarrow> Converter \<Rightarrow> (bool \<times> Converter) outcome) option"
  Stat :: "string \<Rightarrow> bool"
  LookPath :: "string \<Rightarrow> string option"
  RunKatex :: "string \<Rightarrow> string \<Rightarrow> ProcessRun"
  PathJoin :: "string \<Rightarrow> string \<Rightarrow> string"
  FormatCoverPosition :: "float64 \<Rightarrow> string"
  FormatColumnRatio :: "float64 \<Rightarrow> string"
  FloatIsZero :: "float64 \<Rightarrow> bool"
  FloatToInt :: "float64 \<Rightarrow> int"

definition maybePanic :: "Env \<Rightarrow> unit outcome" where
  "maybePanic env = (if PanicOnFailures env then Panics MaybePanicked else Returns ())"

section \<open>File names and paths\<close>

definition isSafeChar :: "char \<Rightarrow> bool" where
  "isSafeChar r =
     (let n = (of_char r :: nat)
      in if 48 \<le> n \<and> n \<le> 57 then True
         else if 97 \<le> n \<and> n \<le> 122 then True
         else if 65 \<le> n \<and> n \<le> 90 then True
         else False)"

text \<open>
  The two loops \<^verbatim>\<open>for strings.Contains(s, "  ") { s = strings.Replace(s, "  ", " ", -1) }\<close>
  and the same with \<^verbatim>\<open>"//"\<close>: replace a doubled character by a single one until
  no doubled one is left.
\<close>

function collapseDoubled :: "char \<Rightarrow> string \<Rightarrow> string" where
  "collapseDoubled x s =
     (if Contains s [x, x] then collapseDoubled x (Replace s [x, x] [x]) else s)"
  by pat_completeness auto
termination
  by (relation "measure (\<lambda>(x, s). length s)") (auto intro: Replace_length_less)

declare collapseDoubled.simps [simp del]

text \<open>
  \<^verbatim>\<open>safeName\<close> walks the runes of the string; every rune that is not an ASCII letter
  or digit becomes a space. Walking bytes instead turns a multi-byte rune into several
  spaces, which the loop that follows collapses into one, so the result is the same.
\<close>

definition safeName :: "string \<Rightarrow> string" where
  "safeName s =
     (let res = concat (map (\<lambda>r. if \<not> isSafeChar r then '' '' else [r]) s);
          res = collapseDoubled CHR '' '' res;
          res = TrimLeft res CHR '' '';
          res = TrimRight res CHR '' ''
      in res)"

definition fileNameFromPageCoverURL :: "string \<Rightarrow> string" where
  "fileNameFromPageCoverURL uri = last (Split uri CHR ''/'')"

definition filePathFromPageCoverURL :: "Env \<Rightarrow> string \<Rightarrow> Block \<Rightarrow> string" where
  "filePathFromPageCoverURL env uri block =
     (if HasPrefix uri ''https://cdn.dutchcowboys.nl/uploads'' then uri
      else if HasPrefix uri ''https://images.unsplash.com'' then uri
      else if HasPrefix uri ''https://www.notion.so/images/'' then uri
      else if HasPrefix uri ''/images/page-cover/'' then ''https://www.notion.so'' @ uri
      else PathJoin env (safeName (Title block)) (fileNameFromPageCoverURL uri))"

text \<open>
  The loop \<^verbatim>\<open>for block.Parent != nil { block = block.Parent; ... }\<close> prepends the
  safe name of every ancestor of type page, nearest ancestor first.
\<close>

definition prependPageParents :: "Block list \<Rightarrow> string \<Rightarrow> string" where
  "prependPageParents parents name =
     foldl (\<lambda>name block.
              if Type block \<noteq> BlockPage then name
              else safeName (Title block) @ ''/'' @ name)
       name parents"

definition filePathForPage :: "Block list \<Rightarrow> Block \<Rightarrow> string" where
  "filePathForPage parents block =
     prependPageParents parents (safeName (Title block) @ ''.html'')"

definition urlBaseName :: "string \<Rightarrow> string" where
  "urlBaseName uri = last (Split uri CHR ''/'')"

text \<open>\<^verbatim>\<open>page.Root().Title\<close>: a nil root is a nil pointer dereference.\<close>

definition RootTitle :: "Env \<Rightarrow> string outcome" where
  "RootTitle env =
     (case Root env of None \<Rightarrow> Panics NilPointerDereference | Some r \<Rightarrow> Returns (Title r))"

definition filePathForCollection :: "Env \<Rightarrow> Collection \<Rightarrow> string outcome" where
  "filePathForCollection env col =
     (let name = safeName (CollectionName col) @ ''.html''
      in andThen (RootTitle env) (\<lambda>title. Returns (safeName title @ ''/'' @ name)))"

definition getTitleColDownloadedURL ::
  "Row \<Rightarrow> Block list \<Rightarrow> Collection \<Rightarrow> string" where
  "getTitleColDownloadedURL row parents col =
     (let titleSpans = RowTitle row;
          title = (if length titleSpans = 0 then [] else SpanText (titleSpans ! 0));
          title = (if title = [] then ''Untitled'' else title);
          name = safeName title @ ''.html'';
          colName = CollectionName col;
          colName = (if colName = [] then ''Untitled Database'' else colName);
          name = safeName colName @ ''/'' @ name
      in prependPageParents parents name)"

definition getCollectionDownloadedFileName ::
  "Env \<Rightarrow> Collection \<Rightarrow> string \<Rightarrow> string outcome" where
  "getCollectionDownloadedFileName env col uri =
     (let name = urlBaseName uri;
          name = safeName (CollectionName col) @ ''/'' @ name
      in andThen (RootTitle env) (\<lambda>title. Returns (safeName title @ ''/'' @ name)))"

definition getDownloadedFileName :: "string \<Rightarrow> Block list \<Rightarrow> Block \<Rightarrow> string" where
  "getDownloadedFileName uri parents block =
     (let shouldDownload =
            HasPrefix uri ''https://s3-us-west-2.amazonaws.com/secure.notion-static.com/''
      in if \<not> shouldDownload then uri
         else
           let name = urlBaseName uri;
               name = (if Type block = BlockFile then name
                       else safeName (Title block) @ ''/'' @ name);
               parents = map (\<lambda>tmp. safeName (Title tmp))
                           (filter (\<lambda>tmp. Type tmp = BlockPage) parents);
               name = foldl (\<lambda>name s. s @ ''/'' @ name) name parents
           in collapseDoubled CHR ''/'' name)"

definition getFileOrSourceURL :: "Block list \<Rightarrow> Block \<Rightarrow> string" where
  "getFileOrSourceURL parents block =
     (if length (FileIDs block) > 0 then getDownloadedFileName (Source block) parents block
      else Source block)"

section \<open>Buffers, output and siblings\<close>

definition PushNewBuffer :: "Converter \<Rightarrow> Converter" where
  "PushNewBuffer c = c\<lparr>bufs := bufs c @ [Buf c], Buf := []\<rparr>"

definition PopBuffer :: "Converter \<Rightarrow> (string \<times> Converter) outcome" where
  "PopBuffer c =
     (let res = Buf c; n = length (bufs c)
      in if n = 0 then Panics IndexOutOfRange
         else Returns (res, c\<lparr>Buf := bufs c ! (n - 1), bufs := take (n - 1) (bufs c)\<rparr>))"

text \<open>
  \<^verbatim>\<open>Printf\<close> takes the text the format expands to; the expansion of
  \<^verbatim>\<open>%s\<close> and \<^verbatim>\<open>%d\<close> is written out at each call.
\<close>

definition Printf :: "string \<Rightarrow> Converter \<Rightarrow> Converter" where
  "Printf s c = c\<lparr>Buf := Buf c @ s\<rparr>"

definition A :: "string \<Rightarrow> string \<Rightarrow> string \<Rightarrow> Converter \<Rightarrow> Converter" where
  \<open>A uri text cls c =
     (let uri = EscapeHTML uri;
          text = EscapeHTML text;
          cls = (if cls \<noteq> [] then '' class="'' @ cls @ ''"'' else cls)
      in if uri = [] then Printf (''<a'' @ cls @ ''>'' @ text @ ''</a>'') c
         else Printf (''<a'' @ cls @ '' href="'' @ uri @ ''">'' @ text @ ''</a>'') c)\<close>

text \<open>Indexing a Go slice with an \<^verbatim>\<open>int\<close>.\<close>

definition sliceAt :: "'a list \<Rightarrow> int \<Rightarrow> 'a outcome" where
  "sliceAt xs i =
     (if 0 \<le> i \<and> i < int (length xs) then Returns (xs ! nat i) else Panics IndexOutOfRange)"

text \<open>
  \<^verbatim>\<open>c.CurrBlockIdx-1\<close> wraps round only from the least \<^verbatim>\<open>int\<close>, and then to an
  index past the end of every slice: the index is out of range with or without the
  wrap. \<^verbatim>\<open>c.CurrBlockIdx + 1\<close> wraps round from the largest one to a negative
  index, which the comparison with \<^verbatim>\<open>lastIdx\<close> lets through.
\<close>

definition PrevBlock :: "Converter \<Rightarrow> Block option outcome" where
  "PrevBlock c =
     (if CurrBlockIdx c = 0 then Returns None
      else sliceAt (CurrBlocks c) (CurrBlockIdx c - 1))"

definition NextBlock :: "Converter \<Rightarrow> Block option outcome" where
  "NextBlock c =
     (let nextIdx = wrapInt (CurrBlockIdx c + 1);
          lastIdx = int (length (CurrBlocks c)) - 1
      in if nextIdx > lastIdx then Returns None
         else sliceAt (CurrBlocks c) nextIdx)"

definition IsPrevBlockOfType :: "Converter \<Rightarrow> BlockType \<Rightarrow> bool outcome" where
  "IsPrevBlockOfType c t =
     andThen (PrevBlock c)
       (\<lambda>b. case b of None \<Rightarrow> Returns False | Some b \<Rightarrow> Returns (Type b = t))"

definition IsNextBlockOfType :: "Converter \<Rightarrow> BlockType \<Rightarrow> bool outcome" where
  "IsNextBlockOfType c t =
     andThen (NextBlock c)
       (\<lambda>b. case b of None \<Rightarrow> Returns False | Some b \<Rightarrow> Returns (Type b = t))"

section \<open>Inline rendering\<close>

definition FormatDate :: "Env \<Rightarrow> Date \<Rightarrow> string" where
  "FormatDate env d = ''<time>@'' @ NotionFormatDate env d @ ''</time>''"

text \<open>
  The body of the loop of \<^verbatim>\<open>RenderInline\<close>: one attribute applied to the
  variables \<open>start\<close>, \<open>close\<close> and \<open>text\<close>. The switch has no case for a comment
  reference, which leaves the three unchanged.
\<close>

definition RenderInlineAttr ::
  "Env \<Rightarrow> Converter \<Rightarrow> TextAttr \<Rightarrow> string \<times> string \<times> string \<Rightarrow> string \<times> string \<times> string" where
  \<open>RenderInlineAttr env c attr st =
     (case st of (start, close, text) \<Rightarrow>
        (case attr of
           TextAttrHighlight hl \<Rightarrow>
             (start @ ''<mark class="highlight-'' @ hl @ ''">'', ''</mark>'' @ close, text)
         | TextAttrBold \<Rightarrow> (start @ ''<strong>'', ''</strong>'' @ close, text)
         | TextAttrItalic \<Rightarrow> (start @ ''<em>'', ''</em>'' @ close, text)
         | TextAttrStrikeThrought \<Rightarrow> (start @ ''<del>'', ''</del>'' @ close, text)
         | TextAttrCode \<Rightarrow> (start @ ''<code>'', ''</code>'' @ close, text)
         | TextAttrPage pageID \<Rightarrow>
             (let pageTitle = (case BlockByID env pageID of None \<Rightarrow> [] | Some block \<Rightarrow> Title block);
                  relURL = ToNoDashID env pageID;
                  relURL = (if pageTitle \<noteq> []
                            then Replace (safeName pageTitle) '' '' ''-'' @ ''-'' @ relURL
                            else relURL);
                  uri = ''https://www.notion.so/'' @ relURL;
                  uri = (case RewriteURL c of None \<Rightarrow> uri | Some rewrite \<Rightarrow> rewrite uri)
              in (start @ ''<a href="'' @ uri @ ''">'' @ EscapeHTML pageTitle @ ''</a>'', close, []))
         | TextAttrLink link \<Rightarrow>
             (let uri = link;
                  uri = (case RewriteURL c of None \<Rightarrow> uri | Some rewrite \<Rightarrow> rewrite uri)
              in if uri = [] then (start @ ''<a>'', ''</a>'' @ close, text)
                 else (start @ ''<a href="'' @ EscapeHTML uri @ ''">'', ''</a>'' @ close, text))
         | TextAttrUser userID \<Rightarrow>
             (start @ ''<span class="user">@'' @ ResolveUser env userID @ ''</span>'', close, [])
         | TextAttrDate date \<Rightarrow> (start @ FormatDate env date, close, [])
         | TextAttrComment commentID \<Rightarrow> (start, close, text)))\<close>

text \<open>
  \<^verbatim>\<open>for i := range b.Attrs { attr := b.Attrs[len(b.Attrs)-i-1]; ... }\<close>, then the
  single \<^verbatim>\<open>Printf\<close> of the span.
\<close>

definition RenderInline :: "Env \<Rightarrow> TextSpan \<Rightarrow> Converter \<Rightarrow> Converter" where
  "RenderInline env b c =
     (case foldl (\<lambda>st i. RenderInlineAttr env c (Attrs b ! (length (Attrs b) - i - 1)) st)
             ([], [], SpanText b) [0..<length (Attrs b)]
      of (start, close, text) \<Rightarrow> Printf (start @ EscapeHTML text @ close) c)"

definition RenderInlines :: "Env \<Rightarrow> TextSpan list \<Rightarrow> Converter \<Rightarrow> Converter" where
  "RenderInlines env blocks c = foldl (\<lambda>c block. RenderInline env block c) c blocks"

definition GetInlineContent ::
  "Env \<Rightarrow> TextSpan list \<Rightarrow> Converter \<Rightarrow> (string \<times> Converter) outcome" where
  "GetInlineContent env blocks c =
     (if length blocks = 0 then Returns ([], c)
      else PopBuffer (foldl (\<lambda>c block. RenderInline env block c) (PushNewBuffer c) blocks))"

section \<open>Example inputs\<close>

text \<open>\<^verbatim>\<open>NewConverter(page)\<close>: every field but the page has Go's zero value.\<close>

definition NewConverter :: Converter where
  "NewConverter =
     \<lparr>Buf = [], ListNo = 0, NotionCompat = False, UseKatexToRenderEquation = False,
      KatexPath = [], AddHeaderAnchor = False, RewriteURL = None, FullHTML = False,
      CurrBlocks = [], CurrBlockIdx = 0, didImportKatexCSS = False, bufs = []\<rparr>"

text \<open>
  An environment for concrete runs: a page with the given root and no other blocks or
  collections, no override hook, no katex binary anywhere, and the simplest helpers.
\<close>

definition exampleEnv :: "Block option \<Rightarrow> Env" where
  "exampleEnv root =
     \<lparr>PageID = ''page'', Root = root, RootParents = [],
      BlockByID = (\<lambda>_. None), CollectionByID = (\<lambda>_. None),
      IsRoot = (\<lambda>b. Some b = root), IsSubPage = (\<lambda>_. False),
      ToNoDashID = (\<lambda>s. s), ResolveUser = (\<lambda>s. s), NotionFormatDate = (\<lambda>_. []),
      TextSpansToString = (\<lambda>ts. concat (map SpanText ts)),
      ParseTextSpans = (\<lambda>_. None), BlockTypeName = (\<lambda>_. []), CSS = [],
      PanicOnFailures = False, RenderBlockOverride = None,
      Stat = (\<lambda>_. False), LookPath = (\<lambda>_. None), RunKatex = (\<lambda>_ _. WaitFails),
      PathJoin = (\<lambda>dir name. dir @ ''/'' @ name),
      FormatCoverPosition = (\<lambda>_. []), FormatColumnRatio = (\<lambda>_. []),
      FloatIsZero = (\<lambda>_. True), FloatToInt = (\<lambda>_. 0)\<rparr>"

section \<open>Block renderers\<close>

text \<open>
  A renderer that calls \<^verbatim>\<open>c.RenderChildren(block)\<close> takes that call as its
  argument \<open>children\<close>; \<open>RenderBlock\<close> below passes \<open>RenderChildren\<close> for the
  block at hand.
\<close>

definition RenderCode :: "Block \<Rightarrow> Converter \<Rightarrow> Converter" where
  \<open>RenderCode block c =
     (let cls = ''code'';
          c = Printf (''<pre id="'' @ ID block @ ''" class="'' @ cls @ ''">'') c;
          code = EscapeHTML (Code block);
          c = Printf (''<code>'' @ code @ ''</code>'') c
      in Printf ''</pre>'' c)\<close>

definition isURL :: "string \<Rightarrow> bool" where
  "isURL uri =
     (if HasPrefix uri ''http://'' then True
      else if HasPrefix uri ''https://'' then True
      else False)"

definition getBlockColorClass :: "Block \<Rightarrow> string" where
  "getBlockColorClass block =
     (let col = fst (PropAsString block ''format.block_color'')
      in if col = [] then [] else ''block-color-'' @ col)"

text \<open>
  The loop of \<^verbatim>\<open>cleanAttr\<close> stops when a round of replacing changes nothing; a
  round that changes the string makes it shorter.
\<close>

function cleanAttrLoop :: "string \<Rightarrow> string" where
  "cleanAttrLoop v =
     (let s = Replace v ''  '' '' '' in if s = v then v else cleanAttrLoop s)"
  by pat_completeness auto
termination
proof (relation "measure length")
  show "wf (measure length)" by simp
next
  fix v s :: string
  assume s: "s = Replace v ''  '' '' ''" and ne: "s \<noteq> v"
  have "Contains v ''  ''"
  proof (rule ccontr)
    assume "\<not> Contains v ''  ''"
    then have "Replace v ''  '' '' '' = v" by (rule Replace_no_occurrence [rotated]) simp
    with s ne show False by simp
  qed
  then have "length (Replace v ''  '' '' '') < length v"
    by (rule Replace_length_less [rotated]) simp
  with s show "(s, v) \<in> measure length" by simp
qed

declare cleanAttrLoop.simps [simp del]

definition cleanAttr :: "string \<Rightarrow> string" where
  "cleanAttr v = cleanAttrLoop (TrimSpace v)"

text \<open>
  \<^verbatim>\<open>renderHeader\<close> reads \<^verbatim>\<open>formatPage.PageCoverPosition\<close> without a nil check
  when the page has a cover.
\<close>

definition renderHeader :: "Env \<Rightarrow> Block list \<Rightarrow> Block \<Rightarrow> Converter \<Rightarrow> Converter outcome" where
  \<open>renderHeader env parents block c =
     (let c = Printf ''<header>'' c;
          formatPage = FormatPage block;
          pageCover = fst (PropAsString block ''format.page_cover'')
      in andThen
           (if pageCover \<noteq> [] then
              (case formatPage of
                 None \<Rightarrow> Panics NilPointerDereference
               | Some fp \<Rightarrow>
                   let position = FormatCoverPosition env (PageCoverPosition fp);
                       coverURL = filePathFromPageCoverURL env pageCover block;
                       coverURL = EscapeHTML coverURL
                   in Returns (Printf (''<img class="page-cover-image" src="'' @ coverURL
                                 @ ''" style="object-position:center '' @ position @ ''%"/>'') c))
            else Returns c)
           (\<lambda>c.
              let pageIcon = fst (PropAsString block ''format.page_icon'');
                  c = (if pageIcon \<noteq> [] then
                         let clsCover = (if pageCover \<noteq> [] then ''page-header-icon-with-cover''
                                         else ''undefined'');
                             c = Printf (''<div class="page-header-icon '' @ clsCover @ ''">'') c;
                             c = (if isURL pageIcon then
                                    let fileName = getDownloadedFileName pageIcon parents block
                                    in Printf (''<img class="icon" src="'' @ fileName @ ''"/>'') c
                                  else Printf (''<span class="icon">'' @ pageIcon @ ''</span>'') c)
                         in Printf ''</div>'' c
                       else c);
                  c = Printf ''<h1 class="page-title">'' c;
                  c = RenderInlines env (InlineContent block) c;
                  c = Printf ''</h1>'' c
              in Returns (Printf ''</header>'' c)))\<close>

definition RenderCollectionViewPage :: "Env \<Rightarrow> Block \<Rightarrow> Converter \<Rightarrow> Converter outcome" where
  \<open>RenderCollectionViewPage env block c =
     (let colID = CollectionID block
      in case CollectionByID env colID of
           None \<Rightarrow> Panics NilPointerDereference
         | Some col \<Rightarrow>
             let icon = Icon col;
                 name = CollectionName col;
                 c = Printf (''<figure id="'' @ ID block @ ''" class="link-to-page">'') c
             in andThen (filePathForCollection env col) (\<lambda>filePath.
                  let c = Printf (''<a href="'' @ filePath @ ''">'') c
                  in andThen (getCollectionDownloadedFileName env col icon) (\<lambda>uri.
                       let c = Printf (''<img class="icon" src="'' @ uri @ ''"/>'') c;
                           c = Printf (name @ ''</a>'') c
                       in Returns (Printf ''</figure>'' c))))\<close>

definition renderLinkToPage :: "Block list \<Rightarrow> Block \<Rightarrow> Converter \<Rightarrow> Converter" where
  \<open>renderLinkToPage parents block c =
     (let uri = filePathForPage parents block;
          cls = getBlockColorClass block @ '' link-to-page'';
          cls = cleanAttr cls;
          c = Printf (''<figure id="'' @ ID block @ ''" class="'' @ cls @ ''">'') c;
          c = Printf (''<a href="'' @ uri @ ''">'') c;
          (pageIcon, ok) = PropAsString block ''format.page_icon'';
          c = (if ok then
                 (if isURL pageIcon then
                    let fileName = getDownloadedFileName pageIcon parents block
                    in Printf (''<img class="icon" src="'' @ fileName @ ''"/>'') c
                  else Printf (''<span class="icon">'' @ pageIcon @ ''</span>'') c)
               else c);
          c = Printf (EscapeHTML (Title block)) c;
          c = Printf ''</a>'' c
      in Printf ''</figure>'' c)\<close>

definition renderRootPage ::
  "Env \<Rightarrow> Block list \<Rightarrow> (Converter \<Rightarrow> Converter outcome) \<Rightarrow> Block \<Rightarrow> Converter
     \<Rightarrow> Converter outcome" where
  \<open>renderRootPage env parents children block c =
     (let c = (if FullHTML c then
                 let c = Printf ''<html>'' c;
                     c = Printf ''<head>'' c;
                     c = Printf ''<meta http-equiv="Content-Type" content="text/html; charset=utf-8"/>'' c;
                     c = Printf (''<title>'' @ EscapeHTML (Title block) @ ''</title>'') c;
                     c = Printf (''<style>'' @ CSS env @ [CHR 0x09, CHR 0x0A] @ ''</style>'') c;
                     c = Printf ''</head>'' c
                 in Printf ''<body>'' c
               else c);
          clsFont = ''sans'';
          fp = FormatPage block;
          clsFont = (case fp of
                       None \<Rightarrow> clsFont
                     | Some fp \<Rightarrow> if PageFont fp \<noteq> [] then PageFont fp else clsFont);
          c = Printf (''<article id="'' @ ID block @ ''" class="page '' @ clsFont @ ''">'') c
      in andThen (renderHeader env parents block c) (\<lambda>c.
           let c = Printf ''<div class="page-body">'' c
           in andThen (children c) (\<lambda>c.
                let c = Printf ''</div>'' c;
                    c = Printf ''</article>'' c
                in Returns (if FullHTML c then Printf ''</body></html>'' c else c))))\<close>

definition renderSubPage :: "Block list \<Rightarrow> Block \<Rightarrow> Converter \<Rightarrow> Converter" where
  "renderSubPage parents block c = renderLinkToPage parents block c"

definition RenderPage ::
  "Env \<Rightarrow> Block list \<Rightarrow> (Converter \<Rightarrow> Converter outcome) \<Rightarrow> Block \<Rightarrow> Converter
     \<Rightarrow> Converter outcome" where
  "RenderPage env parents children block c =
     (if IsRoot env block then renderRootPage env parents children block c
      else if IsSubPage env block then Returns (renderSubPage parents block c)
      else Returns (renderLinkToPage parents block c))"

definition RenderText ::
  "Env \<Rightarrow> (Converter \<Rightarrow> Converter outcome) \<Rightarrow> Block \<Rightarrow> Converter \<Rightarrow> Converter outcome" where
  \<open>RenderText env children block c =
     (let cls = getBlockColorClass block;
          c = Printf (''<p id="'' @ ID block @ ''" class="'' @ cls @ ''">'') c;
          c = RenderInlines env (InlineContent block) c
      in andThen (children c) (\<lambda>c. Returns (Printf ''</p>'' c)))\<close>

definition equationToHTML :: "Env \<Rightarrow> string \<Rightarrow> string \<Rightarrow> ExecError + string" where
  "equationToHTML env katexPath equation =
     (case RunKatex env katexPath equation of
        StdinPipeFails \<Rightarrow> Inl StdinPipeError
      | StartFails \<Rightarrow> Inl StartError
      | WriteFails \<Rightarrow> Inl WriteError
      | CloseFails \<Rightarrow> Inl CloseError
      | WaitFails \<Rightarrow> Inl WaitError
      | Exits res \<Rightarrow> Inr res)"

definition RenderEquation :: "Env \<Rightarrow> Block \<Rightarrow> Converter \<Rightarrow> Converter" where
  \<open>RenderEquation env block c =
     (if \<not> UseKatexToRenderEquation c then
        let c = Printf (''<figure id="'' @ ID block @ ''" class="equation">'') c;
            c = RenderInlines env (InlineContent block) c
        in Printf ''</figure>'' c
      else
        let ts = InlineContent block;
            s = TextSpansToString env ts
        in case equationToHTML env (KatexPath c) s of
             Inl err \<Rightarrow>
               let c = Printf (''<figure id="'' @ ID block @ ''" class="equation">'') c;
                   c = RenderInlines env (InlineContent block) c
               in Printf ''</figure>'' c
           | Inr html \<Rightarrow>
               let c = Printf (''<figure id="'' @ ID block @ ''" class="equation">'') c;
                   c = (if \<not> didImportKatexCSS c then
                          let c = Printf ''<style>@import url('https://cdnjs.cloudflare.com/ajax/libs/KaTeX/0.10.0/katex.min.css')</style>'' c
                          in c\<lparr>didImportKatexCSS := True\<rparr>
                        else c);
                   c = Printf ''<div class="equation-container">'' c;
                   c = Printf html c;
                   c = Printf ''</div>'' c
               in Printf ''</figure>'' c)\<close>

text \<open>\<^verbatim>\<open>c.ListNo++\<close> is an addition on a Go \<^verbatim>\<open>int\<close>: it wraps round.\<close>

definition RenderNumberedList ::
  "Env \<Rightarrow> (Converter \<Rightarrow> Converter outcome) \<Rightarrow> Block \<Rightarrow> Converter \<Rightarrow> Converter outcome" where
  \<open>RenderNumberedList env children block c =
     andThen (IsPrevBlockOfType c BlockNumberedList) (\<lambda>isPrevSame.
       let c = (if isPrevSame then c\<lparr>ListNo := wrapInt (ListNo c + 1)\<rparr> else c\<lparr>ListNo := 1\<rparr>);
           cls = getBlockColorClass block @ '' numbered-list'';
           cls = cleanAttr cls;
           c = Printf (''<ol id="'' @ ID block @ ''" class="'' @ cls @ ''" start="''
                       @ Itoa (ListNo c) @ ''">'') c;
           c = Printf ''<li>'' c;
           c = RenderInlines env (InlineContent block) c
       in andThen (children c) (\<lambda>c.
            let c = Printf ''</li>'' c
            in Returns (Printf ''</ol>'' c)))\<close>

definition RenderBulletedList ::
  "Env \<Rightarrow> (Converter \<Rightarrow> Converter outcome) \<Rightarrow> Block \<Rightarrow> Converter \<Rightarrow> Converter outcome" where
  \<open>RenderBulletedList env children block c =
     (let cls = getBlockColorClass block @ '' bulleted-list'';
          cls = cleanAttr cls;
          c = Printf (''<ul id="'' @ ID block @ ''" class="'' @ cls @ ''">'') c;
          c = Printf ''<li>'' c;
          c = RenderInlines env (InlineContent block) c
      in andThen (children c) (\<lambda>c.
           let c = Printf ''</li>'' c
           in Returns (Printf ''</ul>'' c)))\<close>

definition headerAnchorIcon :: string where
  \<open>headerAnchorIcon = ''<svg xmlns="http://www.w3.org/2000/svg" viewBox="0 0 8 8"><path d="M5.88.03c-.18.01-.36.03-.53.09-.27.1-.53.25-.75.47a.5.5 0 1 0 .69.69c.11-.11.24-.17.38-.22.35-.12.78-.07 1.06.22.39.39.39 1.04 0 1.44l-1.5 1.5c-.44.44-.8.48-1.06.47-.26-.01-.41-.13-.41-.13a.5.5 0 1 0-.5.88s.34.22.84.25c.5.03 1.2-.16 1.81-.78l1.5-1.5c.78-.78.78-2.04 0-2.81-.28-.28-.61-.45-.97-.53-.18-.04-.38-.04-.56-.03zm-2 2.31c-.5-.02-1.19.15-1.78.75l-1.5 1.5c-.78.78-.78 2.04 0 2.81.56.56 1.36.72 2.06.47.27-.1.53-.25.75-.47a.5.5 0 1 0-.69-.69c-.11.11-.24.17-.38.22-.35.12-.78.07-1.06-.22-.39-.39-.39-1.04 0-1.44l1.5-1.5c.4-.4.75-.45 1.03-.44.28.01.47.09.47.09a.5.5 0 1 0 .44-.88s-.34-.2-.84-.22z"></path></svg>''\<close>

definition RenderHeaderLevel :: "Env \<Rightarrow> Block \<Rightarrow> int \<Rightarrow> Converter \<Rightarrow> Converter" where
  \<open>RenderHeaderLevel env block level c =
     (let cls = getBlockColorClass block;
          c = Printf (''<h'' @ Itoa level @ '' id="'' @ ID block @ ''" class="'' @ cls @ ''">'') c;
          ident = ID block;
          c = (if AddHeaderAnchor c then
                 Printf (''<a class="notion-header-anchor" href="#'' @ ident
                         @ ''" aria-hidden="true">'' @ headerAnchorIcon @ ''</a>'') c
               else c);
          c = RenderInlines env (InlineContent block) c
      in Printf (''</h'' @ Itoa level @ ''>'') c)\<close>

definition RenderHeader :: "Env \<Rightarrow> Block \<Rightarrow> Converter \<Rightarrow> Converter" where
  "RenderHeader env block c = RenderHeaderLevel env block 1 c"

definition RenderSubHeader :: "Env \<Rightarrow> Block \<Rightarrow> Converter \<Rightarrow> Converter" where
  "RenderSubHeader env block c = RenderHeaderLevel env block 2 c"

definition RenderSubSubHeader :: "Env \<Rightarrow> Block \<Rightarrow> Converter \<Rightarrow> Converter" where
  "RenderSubSubHeader env block c = RenderHeaderLevel env block 3 c"

definition RenderTodo ::
  "Env \<Rightarrow> (Converter \<Rightarrow> Converter outcome) \<Rightarrow> Block \<Rightarrow> Converter \<Rightarrow> Converter outcome" where
  \<open>RenderTodo env children block c =
     (let c = Printf (''<ul id="'' @ ID block @ ''" class="to-do-list">'') c;
          c = Printf ''<li>'' c;
          cls = (if IsChecked block then ''checkbox-on'' else ''checkbox-off'');
          c = Printf (''<div class="checkbox '' @ cls @ ''"></div>'') c;
          cls = (if IsChecked block then ''to-do-children-checked''
                 else ''to-do-children-unchecked'');
          c = Printf (''<span class="'' @ cls @ ''">'') c;
          c = RenderInlines env (InlineContent block) c;
          c = Printf ''</span>'' c
      in andThen (children c) (\<lambda>c.
           let c = Printf ''</li>'' c
           in Returns (Printf ''</ul>'' c)))\<close>

definition RenderToggle ::
  "Env \<Rightarrow> (Converter \<Rightarrow> Converter outcome) \<Rightarrow> Block \<Rightarrow> Converter \<Rightarrow> Converter outcome" where
  \<open>RenderToggle env children block c =
     (let cls = getBlockColorClass block @ '' toggle'';
          cls = cleanAttr cls;
          c = Printf (''<ul id="'' @ ID block @ ''" class="'' @ cls @ ''">'') c;
          c = Printf ''<li>'' c;
          c = Printf ''<details open="">'' c;
          c = Printf ''<summary>'' c;
          c = RenderInlines env (InlineContent block) c;
          c = Printf ''</summary>'' c
      in andThen (children c) (\<lambda>c.
           let c = Printf ''</details>'' c;
               c = Printf ''</li>'' c
           in Returns (Printf ''</ul>'' c)))\<close>

definition RenderQuote ::
  "Env \<Rightarrow> (Converter \<Rightarrow> Converter outcome) \<Rightarrow> Block \<Rightarrow> Converter \<Rightarrow> Converter outcome" where
  \<open>RenderQuote env children block c =
     (let c = Printf (''<blockquote id="'' @ ID block @ ''" class="">'') c;
          c = RenderInlines env (InlineContent block) c
      in andThen (children c) (\<lambda>c. Returns (Printf ''</blockquote>'' c)))\<close>

definition RenderCallout :: "Env \<Rightarrow> Block \<Rightarrow> Converter \<Rightarrow> Converter" where
  \<open>RenderCallout env block c =
     (let cls = getBlockColorClass block @ '' callout'';
          cls = cleanAttr cls;
          c = Printf (''<figure class="'' @ cls
                      @ ''" style="white-space:pre-wrap;display:flex" id="'' @ ID block @ ''">'') c;
          c = Printf ''<div style="font-size:1.5em">'' c;
          pageIcon = fst (PropAsString block ''format.page_icon'');
          c = Printf (''<span class="icon">'' @ pageIcon @ ''</span>'') c;
          c = Printf ''</div>'' c;
          c = Printf ''<div style="width:100%">'' c;
          c = RenderInlines env (InlineContent block) c;
          c = Printf ''</div>'' c
      in Printf ''</figure>'' c)\<close>

section \<open>Table of contents\<close>

definition isHeaderBlock :: "Block \<Rightarrow> bool" where
  "isHeaderBlock block =
     (Type block = BlockHeader \<or> Type block = BlockSubHeader \<or> Type block = BlockSubSubHeader)"

lemma size_Content: "size_list (size_option size) (Content b) < size b"
  by (cases b) simp

text \<open>
  \<^verbatim>\<open>getHeaderBlocks\<close> reads \<^verbatim>\<open>b.Type\<close> of every entry, so a nil entry is a nil
  pointer dereference. It does not descend into a header block.
\<close>

function getHeaderBlocks :: "Block option list \<Rightarrow> Block list outcome" where
  "getHeaderBlocks [] = Returns []"
| "getHeaderBlocks (None # blocks) = Panics NilPointerDereference"
| "getHeaderBlocks (Some b # blocks) =
     (if isHeaderBlock b then
        andThen (getHeaderBlocks blocks) (\<lambda>res. Returns (b # res))
      else if length (Content b) = 0 then getHeaderBlocks blocks
      else andThen (getHeaderBlocks (Content b)) (\<lambda>sub.
             andThen (getHeaderBlocks blocks) (\<lambda>res. Returns (sub @ res))))"
  by pat_completeness auto
termination
proof (relation "measure (size_list (size_option size))")
  show "wf (measure (size_list (size_option size)))" by simp
next
  fix b :: Block and blocks :: "Block option list"
  show "(blocks, Some b # blocks) \<in> measure (size_list (size_option size))" by simp
  show "(blocks, Some b # blocks) \<in> measure (size_list (size_option size))" by simp
  from size_Content [of b]
  show "(Content b, Some b # blocks) \<in> measure (size_list (size_option size))" by simp
  show "(blocks, Some b # blocks) \<in> measure (size_list (size_option size))" by simp
qed

definition cmpBlockTypes :: "BlockType \<Rightarrow> BlockType \<Rightarrow> int" where
  "cmpBlockTypes prev cur =
     (if prev = cur then 0
      else if prev = BlockHeader then 1
      else if prev = BlockSubHeader then (if cur = BlockHeader then - 1 else 1)
      else if prev = BlockSubSubHeader then - 1
      else 0)"

definition adjustIndent :: "Block list \<Rightarrow> nat \<Rightarrow> int" where
  "adjustIndent blocks i =
     (if i = 0 then 0
      else let prevType = Type (blocks ! (i - 1));
               currType = Type (blocks ! i)
           in cmpBlockTypes prevType currType)"

text \<open>
  The loop \<^verbatim>\<open>for i, b := range blocks\<close> of \<^verbatim>\<open>RenderTableOfContents\<close>, over the
  indices still to visit, with the running \<open>indent\<close>.
\<close>

fun RenderTableOfContentsLoop ::
  "Env \<Rightarrow> Block list \<Rightarrow> nat list \<Rightarrow> int \<Rightarrow> Converter \<Rightarrow> Converter outcome" where
  \<open>RenderTableOfContentsLoop env blocks [] indent c = Returns c\<close>
| \<open>RenderTableOfContentsLoop env blocks (i # rest) indent c =
     (let b = blocks ! i;
          indent = indent + adjustIndent blocks i
      in andThen (GetInlineContent env (InlineContent b) c) (\<lambda>(s, c).
           let c = Printf (''<div class="table_of_contents-item table_of_contents-indent-''
                           @ Itoa indent @ ''">'') c;
               c = Printf (''<a class="table_of_contents-link" href="#'' @ ID b @ ''">''
                           @ s @ ''</a>'') c;
               c = Printf ''</div>'' c
           in RenderTableOfContentsLoop env blocks rest indent c))\<close>

definition RenderTableOfContents :: "Env \<Rightarrow> Block \<Rightarrow> Converter \<Rightarrow> Converter outcome" where
  \<open>RenderTableOfContents env block c =
     (let cls = getBlockColorClass block @ '' table_of_contents'';
          cls = cleanAttr cls;
          c = Printf (''<nav id="'' @ ID block @ ''" class="'' @ cls @ ''">'') c
      in case Root env of
           None \<Rightarrow> Panics NilPointerDereference
         | Some root \<Rightarrow>
             andThen (getHeaderBlocks (Content root)) (\<lambda>blocks.
               andThen (RenderTableOfContentsLoop env blocks [0..<length blocks] 0 c) (\<lambda>c.
                 Returns (Printf ''</nav>'' c))))\<close>

section \<open>Media, embeds and layout\<close>

definition RenderDivider :: "Block \<Rightarrow> Converter \<Rightarrow> Converter" where
  \<open>RenderDivider block c = Printf (''<hr id="'' @ ID block @ ''"/>'') c\<close>

definition RenderCaption :: "Env \<Rightarrow> Block \<Rightarrow> Converter \<Rightarrow> Converter" where
  "RenderCaption env block c =
     (case GetCaption block of
        None \<Rightarrow> c
      | Some caption \<Rightarrow>
          let c = Printf ''<figcaption>'' c;
              c = RenderInlines env caption c
          in Printf ''</figcaption>'' c)"

definition RenderBookmark :: "Env \<Rightarrow> Block \<Rightarrow> Converter \<Rightarrow> Converter" where
  \<open>RenderBookmark env block c =
     (let c = Printf (''<figure id="'' @ ID block @ ''">'') c;
          cls = getBlockColorClass block @ '' bookmark source'';
          cls = cleanAttr cls;
          c = Printf (''<div class="'' @ cls @ ''">'') c;
          uri = BlockLink block;
          text = Title block;
          c = A uri text [] c;
          c = Printf ''<br/>'' c;
          c = A uri uri ''bookmark-href'' c;
          c = Printf ''</div>'' c;
          c = RenderCaption env block c
      in Printf ''</figure>'' c)\<close>

definition RenderAudio :: "Env \<Rightarrow> Block list \<Rightarrow> Block \<Rightarrow> Converter \<Rightarrow> Converter" where
  \<open>RenderAudio env parents block c =
     (let c = Printf (''<figure id="'' @ ID block @ ''">'') c;
          c = Printf ''<div class="source">'' c;
          source = Source block;
          fileName = source;
          fileName = (if length (FileIDs block) > 0
                      then getDownloadedFileName source parents block else fileName);
          c = (if source = [] then Printf ''<a></a>'' c else A fileName source [] c);
          c = Printf ''</div>'' c;
          c = RenderCaption env block c
      in Printf ''</figure>'' c)\<close>

definition RenderVideo :: "Env \<Rightarrow> Block list \<Rightarrow> Block \<Rightarrow> Converter \<Rightarrow> Converter" where
  \<open>RenderVideo env parents block c =
     (let c = Printf (''<figure id="'' @ ID block @ ''">'') c;
          c = Printf ''<div class="source">'' c;
          source = Source block;
          fileName = source;
          fileName = (if length (FileIDs block) > 0
                      then getDownloadedFileName source parents block else fileName);
          c = (if source = [] then Printf ''<a></a>'' c else A fileName source [] c);
          c = Printf ''</div>'' c;
          c = RenderCaption env block c
      in Printf ''</figure>'' c)\<close>

definition renderEmbed :: "Env \<Rightarrow> Block \<Rightarrow> Converter \<Rightarrow> Converter" where
  \<open>renderEmbed env block c =
     (let c = Printf (''<figure id="'' @ ID block @ ''">'') c;
          c = Printf ''<div class="source">'' c;
          uri = Source block;
          c = A uri uri [] c;
          c = Printf ''</div>'' c;
          c = RenderCaption env block c
      in Printf ''</figure>'' c)\<close>

definition RenderTweet :: "Env \<Rightarrow> Block \<Rightarrow> Converter \<Rightarrow> Converter" where
  "RenderTweet env block c = renderEmbed env block c"

definition RenderGist :: "Env \<Rightarrow> Block \<Rightarrow> Converter \<Rightarrow> Converter" where
  "RenderGist env block c = renderEmbed env block c"

definition RenderCodepen :: "Env \<Rightarrow> Block \<Rightarrow> Converter \<Rightarrow> Converter" where
  "RenderCodepen env block c = renderEmbed env block c"

definition RenderMaps :: "Env \<Rightarrow> Block \<Rightarrow> Converter \<Rightarrow> Converter" where
  "RenderMaps env block c = renderEmbed env block c"

definition RenderEmbed :: "Env \<Rightarrow> Block list \<Rightarrow> Block \<Rightarrow> Converter \<Rightarrow> Converter" where
  \<open>RenderEmbed env parents block c =
     (let c = Printf (''<figure id="'' @ ID block @ ''">'') c;
          c = Printf ''<div class="source">'' c;
          uri = getFileOrSourceURL parents block;
          text = Source block;
          c = A uri text [] c;
          c = Printf ''</div>'' c;
          c = RenderCaption env block c
      in Printf ''</figure>'' c)\<close>

definition RenderFigma :: "Env \<Rightarrow> Block \<Rightarrow> Converter \<Rightarrow> Converter" where
  \<open>RenderFigma env block c =
     (let c = Printf (''<figure id="'' @ ID block @ ''">'') c;
          c = Printf ''<div class="source">'' c;
          uri = Source block;
          c = Printf (''<a href="'' @ uri @ ''">'' @ uri @ ''</a>'') c;
          c = Printf ''</div>'' c;
          c = RenderCaption env block c
      in Printf ''</figure>'' c)\<close>

definition RenderFile :: "Env \<Rightarrow> Block list \<Rightarrow> Block \<Rightarrow> Converter \<Rightarrow> Converter" where
  \<open>RenderFile env parents block c =
     (let c = Printf (''<figure id="'' @ ID block @ ''">'') c;
          c = Printf ''<div class="source">'' c;
          uri = getDownloadedFileName (Source block) parents block;
          c = A uri (Source block) [] c;
          c = Printf ''</div>'' c;
          c = RenderCaption env block c
      in Printf ''</figure>'' c)\<close>

definition RenderDrive :: "Env \<Rightarrow> Block \<Rightarrow> Converter \<Rightarrow> Converter" where
  \<open>RenderDrive env block c =
     (let c = Printf (''<figure id="'' @ ID block @ ''">'') c;
          c = Printf ''<div class="bookmark source">'' c;
          icon = fst (PropAsString block ''format.drive_properties.icon'');
          c = Printf (''<img style="width:1em;height:1em;margin-right:0.5em;vertical-align:text-bottom" src="''
                      @ icon @ ''"/>'') c;
          docURL = fst (PropAsString block ''format.drive_properties.url'');
          title = fst (PropAsString block ''format.drive_properties.title'');
          c = Printf (''<a href="'' @ docURL @ ''">'' @ title @ ''</a>'') c;
          c = Printf ''<br/>'' c;
          c = Printf (''<a class="bookmark-href" href="'' @ docURL @ ''">'' @ docURL @ ''</a>'') c;
          c = Printf ''</div>'' c;
          c = RenderCaption env block c
      in Printf ''</figure>'' c)\<close>

definition RenderPDF :: "Env \<Rightarrow> Block list \<Rightarrow> Block \<Rightarrow> Converter \<Rightarrow> Converter" where
  \<open>RenderPDF env parents block c =
     (let c = Printf (''<figure id="'' @ ID block @ ''">'') c;
          c = Printf ''<div class="source">'' c;
          uri = getDownloadedFileName (Source block) parents block;
          c = A uri (Source block) [] c;
          c = Printf ''</div>'' c;
          c = RenderCaption env block c
      in Printf ''</figure>'' c)\<close>

definition getImageStyle :: "Env \<Rightarrow> Block \<Rightarrow> string" where
  \<open>getImageStyle env block =
     (case FormatImage block of
        None \<Rightarrow> []
      | Some f \<Rightarrow>
          if FloatIsZero env (BlockWidth f) then []
          else ''style="width:'' @ Itoa (FloatToInt env (BlockWidth f)) @ ''px" '')\<close>

definition RenderImage :: "Env \<Rightarrow> Block list \<Rightarrow> Block \<Rightarrow> Converter \<Rightarrow> Converter" where
  \<open>RenderImage env parents block c =
     (let c = Printf (''<figure id="'' @ ID block @ ''" class="image">'') c;
          uri = getFileOrSourceURL parents block;
          style = getImageStyle env block;
          c = Printf (''<a href="'' @ uri @ ''">'') c;
          c = Printf (''<img '' @ style @ ''src="'' @ uri @ ''"/>'') c;
          c = Printf ''</a>'' c;
          c = RenderCaption env block c
      in Printf ''</figure>'' c)\<close>

definition RenderColumnList ::
  "Env \<Rightarrow> (Converter \<Rightarrow> Converter outcome) \<Rightarrow> Block \<Rightarrow> Converter \<Rightarrow> Converter outcome" where
  \<open>RenderColumnList env children block c =
     (let nColumns = length (Content block)
      in if nColumns = 0 then andThen (maybePanic env) (\<lambda>_. Returns c)
         else
           let c = Printf (''<div id="'' @ ID block @ ''" class="column-list">'') c
           in andThen (children c) (\<lambda>c. Returns (Printf ''</div>'' c)))\<close>

text \<open>
  \<^verbatim>\<open>colRatio\<close> is the float 50, printed by \<^verbatim>\<open>%v\<close> as \<^verbatim>\<open>50\<close>, unless the
  block has a column format; then it is the ratio times 100, printed by
  \<open>FormatColumnRatio\<close>.
\<close>

definition RenderColumn ::
  "Env \<Rightarrow> (Converter \<Rightarrow> Converter outcome) \<Rightarrow> Block \<Rightarrow> Converter \<Rightarrow> Converter outcome" where
  \<open>RenderColumn env children block c =
     (let colRatio = (case FormatColumn block of
                        None \<Rightarrow> ''50''
                      | Some fc \<Rightarrow> FormatColumnRatio env (ColumnRatio fc));
          c = Printf (''<div id="'' @ ID block @ ''" style="width:'' @ colRatio
                      @ ''%" class="column">'') c
      in andThen (children c) (\<lambda>c. Returns (Printf ''</div>'' c)))\<close>

definition RenderNYI :: "Env \<Rightarrow> Block \<Rightarrow> Converter \<Rightarrow> Converter" where
  \<open>RenderNYI env block c =
     Printf (''<div>TODO: '' @ [CHR 0x27] @ BlockTypeName env (Type block) @ [CHR 0x27]
             @ '' NYI!</div>'') c\<close>

definition RenderBreadcrumb :: "Env \<Rightarrow> Block \<Rightarrow> Converter \<Rightarrow> Converter" where
  "RenderBreadcrumb env block c = (if NotionCompat c then c else RenderNYI env block c)"

section \<open>Collection views\<close>

text \<open>
  The \<^verbatim>\<open>multi_select\<close> branch of a cell: the rendered value is split at commas and
  the entries are visited by the index \<^verbatim>\<open>len(vals) - 1 - i\<close>.
\<close>

definition multiSelectValues :: "string \<Rightarrow> string" where
  \<open>multiSelectValues colVal =
     (let vals = Split colVal CHR '',''
      in foldl (\<lambda>s i.
                  let idx = length vals - 1 - i;
                      v = EscapeHTML (vals ! idx)
                  in if v = [] then s
                     else s @ ''<span class="selected-value">'' @ v @ ''</span>'')
           [] [0..<length vals])\<close>

text \<open>
  The inner loop over the columns of one row. \<^verbatim>\<open>ParseTextSpans\<close> answers
  \<open>None\<close> for an error; the spans are then taken to be nil. The schema entry of the
  column is dereferenced without a nil check.
\<close>

fun RenderCollectionViewCells ::
  "Env \<Rightarrow> Block list \<Rightarrow> CollectionViewInfo \<Rightarrow> Row \<Rightarrow> TableProperty list \<Rightarrow> Converter
     \<Rightarrow> Converter outcome" where
  \<open>RenderCollectionViewCells env parents viewInfo row [] c = Returns c\<close>
| \<open>RenderCollectionViewCells env parents viewInfo row (col # columns) c =
     (let colName = Property col;
          v = (case RowProperties row colName of None \<Rightarrow> JNull | Some v \<Rightarrow> v);
          parsed = ParseTextSpans env v
      in andThen (case parsed of None \<Rightarrow> maybePanic env | Some _ \<Rightarrow> Returns ()) (\<lambda>_.
           let inlineContent = (case parsed of None \<Rightarrow> [] | Some spans \<Rightarrow> spans)
           in andThen (GetInlineContent env inlineContent c) (\<lambda>(colVal, c).
                case CollectionSchema (CollectionOf viewInfo) colName of
                  None \<Rightarrow> Panics NilPointerDereference
                | Some colInfo \<Rightarrow>
                    let colVal =
                          (if ColumnType colInfo = ''title'' then
                             let uri = getTitleColDownloadedURL row parents (CollectionOf viewInfo);
                                 colVal = (if colVal = [] then ''Untitled'' else colVal)
                             in ''<a href="'' @ uri @ ''">'' @ colVal @ ''</a>''
                           else if ColumnType colInfo = ''multi_select'' then
                             multiSelectValues colVal
                           else colVal);
                        colNameCls = EscapeHTML colName;
                        c = Printf (''<td class="cell-'' @ colNameCls @ ''">'' @ colVal @ ''</td>'') c
                    in RenderCollectionViewCells env parents viewInfo row columns c)))\<close>

fun RenderCollectionViewRows ::
  "Env \<Rightarrow> Block list \<Rightarrow> CollectionViewInfo \<Rightarrow> TableProperty list \<Rightarrow> Row list \<Rightarrow> Converter
     \<Rightarrow> Converter outcome" where
  \<open>RenderCollectionViewRows env parents viewInfo columns [] c = Returns c\<close>
| \<open>RenderCollectionViewRows env parents viewInfo columns (row # rows) c =
     (let c = Printf (''<tr id="'' @ RowID row @ ''">'') c
      in andThen (RenderCollectionViewCells env parents viewInfo row columns c) (\<lambda>c.
           let c = Printf (''</tr>'' @ [CHR 0x0A]) c
           in RenderCollectionViewRows env parents viewInfo columns rows c))\<close>

definition RenderCollectionView ::
  "Env \<Rightarrow> Block list \<Rightarrow> Block \<Rightarrow> Converter \<Rightarrow> Converter outcome" where
  \<open>RenderCollectionView env parents block c =
     (if length (CollectionViews block) = 0 then Returns c
      else
        let viewInfo = CollectionViews block ! 0;
            view = ViewOf viewInfo;
            collection = CollectionOf viewInfo
        in case Format view of
             None \<Rightarrow> Returns c
           | Some format \<Rightarrow>
               let columns = TableProperties format;
                   c = Printf (''<div id="'' @ ID block @ ''" class="collection-content">'') c;
                   name = CollectionName collection;
                   c = Printf (''<h4 class="collection-title">'' @ name @ ''</h4>'') c;
                   c = Printf ''<table class="collection-content">'' c;
                   c = Printf ''<thead>'' c;
                   c = Printf ''<tr>'' c;
                   c = foldl (\<lambda>c col.
                                let colName = Property col;
                                    colInfo = CollectionSchema (CollectionOf viewInfo) colName;
                                    name = (case colInfo of
                                              None \<Rightarrow> []
                                            | Some colInfo \<Rightarrow> EscapeHTML (ColumnName colInfo))
                                in Printf (''<th>'' @ name @ ''</th>'') c)
                         c columns;
                   c = Printf ''</tr>'' c;
                   c = Printf ''</thead>'' c;
                   c = Printf ''<tbody>'' c
               in andThen (RenderCollectionViewRows env parents viewInfo columns
                             (CollectionRows viewInfo) c) (\<lambda>c.
                    let c = Printf ''</tbody>'' c;
                        c = Printf ''</table>'' c
                    in Returns (Printf ''</div>'' c)))\<close>

section \<open>Dispatch and recursion\<close>

text \<open>
  \<^verbatim>\<open>DefaultRenderFunc\<close> answers the method of the converter for a block type, nil
  for a factory block, and nil after \<^verbatim>\<open>maybePanic\<close> for an unsupported type.
\<close>

definition DefaultRenderFunc ::
  "Env \<Rightarrow> Block list \<Rightarrow> (Converter \<Rightarrow> Converter outcome) \<Rightarrow> BlockType
     \<Rightarrow> (Block \<Rightarrow> Converter \<Rightarrow> Converter outcome) option outcome" where
  "DefaultRenderFunc env parents children blockType =
     (case blockType of
        BlockPage \<Rightarrow> Returns (Some (RenderPage env parents children))
      | BlockText \<Rightarrow> Returns (Some (RenderText env children))
      | BlockEquation \<Rightarrow> Returns (Some (\<lambda>block c. Returns (RenderEquation env block c)))
      | BlockNumberedList \<Rightarrow> Returns (Some (RenderNumberedList env children))
      | BlockBulletedList \<Rightarrow> Returns (Some (RenderBulletedList env children))
      | BlockHeader \<Rightarrow> Returns (Some (\<lambda>block c. Returns (RenderHeader env block c)))
      | BlockSubHeader \<Rightarrow> Returns (Some (\<lambda>block c. Returns (RenderSubHeader env block c)))
      | BlockSubSubHeader \<Rightarrow> Returns (Some (\<lambda>block c. Returns (RenderSubSubHeader env block c)))
      | BlockTodo \<Rightarrow> Returns (Some (RenderTodo env children))
      | BlockToggle \<Rightarrow> Returns (Some (RenderToggle env children))
      | BlockQuote \<Rightarrow> Returns (Some (RenderQuote env children))
      | BlockDivider \<Rightarrow> Returns (Some (\<lambda>block c. Returns (RenderDivider block c)))
      | BlockCode \<Rightarrow> Returns (Some (\<lambda>block c. Returns (RenderCode block c)))
      | BlockBookmark \<Rightarrow> Returns (Some (\<lambda>block c. Returns (RenderBookmark env block c)))
      | BlockImage \<Rightarrow> Returns (Some (\<lambda>block c. Returns (RenderImage env parents block c)))
      | BlockColumnList \<Rightarrow> Returns (Some (RenderColumnList env children))
      | BlockColumn \<Rightarrow> Returns (Some (RenderColumn env children))
      | BlockCollectionView \<Rightarrow> Returns (Some (RenderCollectionView env parents))
      | BlockCollectionViewPage \<Rightarrow> Returns (Some (RenderCollectionViewPage env))
      | BlockEmbed \<Rightarrow> Returns (Some (\<lambda>block c. Returns (RenderEmbed env parents block c)))
      | BlockGist \<Rightarrow> Returns (Some (\<lambda>block c. Returns (RenderGist env block c)))
      | BlockMaps \<Rightarrow> Returns (Some (\<lambda>block c. Returns (RenderMaps env block c)))
      | BlockCodepen \<Rightarrow> Returns (Some (\<lambda>block c. Returns (RenderCodepen env block c)))
      | BlockTweet \<Rightarrow> Returns (Some (\<lambda>block c. Returns (RenderTweet env block c)))
      | BlockVideo \<Rightarrow> Returns (Some (\<lambda>block c. Returns (RenderVideo env parents block c)))
      | BlockAudio \<Rightarrow> Returns (Some (\<lambda>block c. Returns (RenderAudio env parents block c)))
      | BlockFile \<Rightarrow> Returns (Some (\<lambda>block c. Returns (RenderFile env parents block c)))
      | BlockDrive \<Rightarrow> Returns (Some (\<lambda>block c. Returns (RenderDrive env block c)))
      | BlockFigma \<Rightarrow> Returns (Some (\<lambda>block c. Returns (RenderFigma env block c)))
      | BlockPDF \<Rightarrow> Returns (Some (\<lambda>block c. Returns (RenderPDF env parents block c)))
      | BlockCallout \<Rightarrow> Returns (Some (\<lambda>block c. Returns (RenderCallout env block c)))
      | BlockTableOfContents \<Rightarrow> Returns (Some (RenderTableOfContents env))
      | BlockBreadcrumb \<Rightarrow> Returns (Some (\<lambda>block c. Returns (RenderBreadcrumb env block c)))
      | BlockFactory \<Rightarrow> Returns None
      | BlockOther name \<Rightarrow> andThen (maybePanic env) (\<lambda>_. Returns None))"

definition needsIndent :: "Block \<Rightarrow> bool" where
  "needsIndent block =
     (if length (Content block) = 0 then False
      else if Type block = BlockText then True
      else False)"

text \<open>
  \<open>RenderBlock\<close> takes a pointer that may be nil. \<open>RenderChildrenLoop\<close> is the loop
  \<^verbatim>\<open>for i, child := range block.Content\<close>; its assignment
  \<^verbatim>\<open>child.Parent = block\<close> comes before the nil check of \<open>RenderBlock\<close>, so a nil
  child is a nil pointer dereference. The assignment itself is the longer chain of
  ancestors passed down.
\<close>

function RenderBlock ::
    "Env \<Rightarrow> Block list \<Rightarrow> Block option \<Rightarrow> Converter \<Rightarrow> Converter outcome"
  and RenderChildren ::
    "Env \<Rightarrow> Block list \<Rightarrow> Block \<Rightarrow> Converter \<Rightarrow> Converter outcome"
  and RenderChildrenLoop ::
    "Env \<Rightarrow> Block list \<Rightarrow> Block \<Rightarrow> int \<Rightarrow> Block option list \<Rightarrow> Converter \<Rightarrow> Converter outcome"
where
  "RenderBlock env parents None c = Returns c"
| "RenderBlock env parents (Some block) c =
     andThen (case RenderBlockOverride env of
                None \<Rightarrow> Returns (False, c)
              | Some override \<Rightarrow> override parents block c)
       (\<lambda>(handled, c).
          if handled then Returns c
          else andThen (DefaultRenderFunc env parents
                          (\<lambda>c. RenderChildren env parents block c) (Type block))
                 (\<lambda>def. case def of None \<Rightarrow> Returns c | Some def \<Rightarrow> def block c))"
| "RenderChildren env parents block c =
     (if length (Content block) = 0 then Returns c
      else
        let doIndent = needsIndent block;
            c = (if doIndent then Printf ''<div class=\"indented\">'' c else c);
            currIdx = CurrBlockIdx c;
            currBlocks = CurrBlocks c;
            c = c\<lparr>CurrBlocks := Content block\<rparr>
        in andThen (RenderChildrenLoop env parents block 0 (Content block) c) (\<lambda>c.
             let c = c\<lparr>CurrBlockIdx := currIdx\<rparr>;
                 c = c\<lparr>CurrBlocks := currBlocks\<rparr>
             in Returns (if doIndent then Printf ''</div>'' c else c)))"
| "RenderChildrenLoop env parents block i [] c = Returns c"
| "RenderChildrenLoop env parents block i (None # rest) c = Panics NilPointerDereference"
| "RenderChildrenLoop env parents block i (Some child # rest) c =
     andThen (RenderBlock env (block # parents) (Some child) (c\<lparr>CurrBlockIdx := i\<rparr>))
       (\<lambda>c. RenderChildrenLoop env parents block (i + 1) rest c)"
  by pat_completeness auto
termination
  apply (relation "measure (\<lambda>x. case x of
          Inl (env, parents, block, c) \<Rightarrow> 2 * size_option size block + 2
        | Inr (Inl (env, parents, block, c)) \<Rightarrow> 2 * size block + 3
        | Inr (Inr (env, parents, block, i, children, c)) \<Rightarrow>
            2 * size_list (size_option size) children + 1)")
     apply simp_all
  subgoal for block using size_Content [of block] by simp
  done

section \<open>Conversion\<close>

datatype KatexError =
    KatexPathDoesNotExist string
  | KatexNotLocated

definition detectKatex :: "Env \<Rightarrow> Converter \<Rightarrow> KatexError + Converter" where
  "detectKatex env c =
     (let path = KatexPath c
      in if path \<noteq> [] \<and> Stat env (KatexPath c) then Inr c
         else case LookPath env ''katex'' of
                None \<Rightarrow>
                  if KatexPath c \<noteq> [] then Inl (KatexPathDoesNotExist (KatexPath c))
                  else Inl KatexNotLocated
              | Some path \<Rightarrow> Inr (c\<lparr>KatexPath := path\<rparr>))"

text \<open>
  \<^verbatim>\<open>ToHTML\<close> returns the bytes and a nil error, or nil bytes and the error of
  \<open>detectKatex\<close>; the converter it leaves behind is returned as well.
\<close>

definition ToHTML :: "Env \<Rightarrow> Converter \<Rightarrow> ((KatexError + string) \<times> Converter) outcome" where
  "ToHTML env c =
     (let c = (if NotionCompat c then c\<lparr>UseKatexToRenderEquation := True\<rparr> else c)
      in case (if UseKatexToRenderEquation c then detectKatex env c else Inr c) of
           Inl err \<Rightarrow> Returns (Inl err, c)
         | Inr c \<Rightarrow>
             let c = PushNewBuffer c
             in andThen (RenderBlock env (RootParents env) (Root env) c) (\<lambda>c.
                  andThen (PopBuffer c) (\<lambda>(buf, c). Returns (Inr buf, c))))"

section \<open>Notions used in the statements\<close>

text \<open>The text a sequence of spans renders to: what \<open>RenderInlines\<close> appends.\<close>

definition inlineHTML :: "Env \<Rightarrow> Converter \<Rightarrow> TextSpan list \<Rightarrow> string" where
  "inlineHTML env c spans = Buf (RenderInlines env spans (c\<lparr>Buf := []\<rparr>))"

text \<open>One entry of the table of contents, at a given indent level.\<close>

definition tocItem :: "Env \<Rightarrow> Converter \<Rightarrow> int \<Rightarrow> Block \<Rightarrow> string" where
  \<open>tocItem env c indent b =
     ''<div class="table_of_contents-item table_of_contents-indent-'' @ Itoa indent @ ''">''
     @ ''<a class="table_of_contents-link" href="#'' @ ID b @ ''">''
     @ inlineHTML env c (InlineContent b) @ ''</a>'' @ ''</div>''\<close>

definition tocOpen :: "Block \<Rightarrow> string" where
  \<open>tocOpen block =
     ''<nav id="'' @ ID block @ ''" class="''
     @ cleanAttr (getBlockColorClass block @ '' table_of_contents'') @ ''">''\<close>

text \<open>A block with the given id, type, inline content and children and nothing else.\<close>

definition simpleBlock ::
  "string \<Rightarrow> BlockType \<Rightarrow> TextSpan list \<Rightarrow> Block option list \<Rightarrow> Block" where
  "simpleBlock ident t inline content =
     Block ident t [] content inline [] False [] [] [] [] [] (\<lambda>_. None) None None None None"

text \<open>
  A page whose headings are, in document order, of rank H1, H2, H3, H2, H1, and a table
  of contents block.
\<close>

definition headingsPage :: Block where
  "headingsPage =
     simpleBlock ''root'' BlockPage []
       [Some (simpleBlock ''a'' BlockHeader [\<lparr>SpanText = ''A'', Attrs = []\<rparr>] []),
        Some (simpleBlock ''b'' BlockSubHeader [\<lparr>SpanText = ''B'', Attrs = []\<rparr>] []),
        Some (simpleBlock ''c'' BlockSubSubHeader [\<lparr>SpanText = ''C'', Attrs = []\<rparr>] []),
        Some (simpleBlock ''d'' BlockSubHeader [\<lparr>SpanText = ''D'', Attrs = []\<rparr>] []),
        Some (simpleBlock ''e'' BlockHeader [\<lparr>SpanText = ''E'', Attrs = []\<rparr>] [])]"

definition tocBlock :: Block where
  "tocBlock = simpleBlock ''toc'' BlockTableOfContents [] []"

declare RenderBlock.simps(2) [simp del]
declare RenderChildren.simps [simp del]

text \<open>One fragment of a multi-select cell.\<close>

definition selectedValue :: "string \<Rightarrow> string" where
  \<open>selectedValue e = ''<span class="selected-value">'' @ EscapeHTML e @ ''</span>''\<close>

text \<open>
  How far a rendering step may change the converter. It always leaves the active sibling
  sequence and the current index as they were. With \<open>outputOnly\<close> it also only appends
  to the current buffer and leaves the saved buffers and the settings alone; with
  \<open>sameListNo\<close> it leaves the list counter alone.
\<close>

definition keeps :: "bool \<Rightarrow> bool \<Rightarrow> Converter \<Rightarrow> Converter \<Rightarrow> bool" where
  "keeps outputOnly sameListNo c c' \<longleftrightarrow>
     CurrBlocks c' = CurrBlocks c \<and> CurrBlockIdx c' = CurrBlockIdx c \<and>
     (outputOnly \<longrightarrow>
        (\<exists>out. Buf c' = Buf c @ out) \<and> bufs c' = bufs c \<and>
        NotionCompat c' = NotionCompat c \<and>
        UseKatexToRenderEquation c' = UseKatexToRenderEquation c \<and>
        KatexPath c' = KatexPath c \<and> AddHeaderAnchor c' = AddHeaderAnchor c \<and>
        RewriteURL c' = RewriteURL c \<and> FullHTML c' = FullHTML c) \<and>
     (sameListNo \<longrightarrow> ListNo c' = ListNo c)"

text \<open>The override hook, if there is one, stays within \<open>keeps\<close>.\<close>

definition overrideKeeps :: "bool \<Rightarrow> bool \<Rightarrow> Env \<Rightarrow> bool" where
  "overrideKeeps outputOnly sameListNo env \<longleftrightarrow>
     (\<forall>override parents block c handled c'.
        RenderBlockOverride env = Some override \<longrightarrow>
        override parents block c = Returns (handled, c') \<longrightarrow>
        keeps outputOnly sameListNo c c')"

text \<open>Whether a block, or a list of children, contains a numbered-list block.\<close>

function hasNumberedList :: "Block \<Rightarrow> bool"
  and hasNumberedListIn :: "Block option list \<Rightarrow> bool" where
  "hasNumberedList b = (Type b = BlockNumberedList \<or> hasNumberedListIn (Content b))"
| "hasNumberedListIn [] = False"
| "hasNumberedListIn (None # rest) = hasNumberedListIn rest"
| "hasNumberedListIn (Some b # rest) = (hasNumberedList b \<or> hasNumberedListIn rest)"
  by pat_completeness auto
termination
  apply (relation "measure (\<lambda>x. case x of
          Inl b \<Rightarrow> 2 * size b + 2
        | Inr children \<Rightarrow> 2 * size_list (size_option size) children + 1)")
      apply simp_all
  subgoal for b using size_Content [of b] by simp
  done

declare hasNumberedList.simps [simp del]




definition brokenItems :: Block where
  "brokenItems =
     simpleBlock ''q'' BlockQuote []
       [Some (simpleBlock ''n1'' BlockNumberedList [\<lparr>SpanText = ''one'', Attrs = []\<rparr>] []),
        Some (simpleBlock ''d'' BlockDivider [] []),
        Some (simpleBlock ''n2'' BlockNumberedList [\<lparr>SpanText = ''two'', Attrs = []\<rparr>] [])]"

definition equationBlock :: Block where
  "equationBlock = simpleBlock ''eq'' BlockEquation [\<lparr>SpanText = ''x<y'', Attrs = []\<rparr>] []"

text \<open>The figure an equation block falls back to.\<close>

definition rawEquation :: "Env \<Rightarrow> Converter \<Rightarrow> Block \<Rightarrow> string" where
  \<open>rawEquation env c block =
     ''<figure id="'' @ ID block @ ''" class="equation">''
     @ inlineHTML env c (InlineContent block) @ ''</figure>''\<close>

text \<open>
  The container \<open>RenderChildren\<close> puts round the children of a block that needs
  indenting.
\<close>

definition indentOpen :: "Block \<Rightarrow> string" where
  \<open>indentOpen block = (if needsIndent block then ''<div class="indented">'' else [])\<close>

definition indentClose :: "Block \<Rightarrow> string" where
  \<open>indentClose block = (if needsIndent block then ''</div>'' else [])\<close>

text \<open>
  Following the spec: the ordinal of a numbered-list block at position \<open>i\<close> of a
  sibling sequence is one more than the ordinal of the sibling before it when that is a
  numbered-list block, and 1 otherwise.
\<close>

definition isNumberedList :: "Block option \<Rightarrow> bool" where
  "isNumberedList b = (case b of None \<Rightarrow> False | Some b \<Rightarrow> Type b = BlockNumberedList)"

fun siblingOrdinal :: "Block option list \<Rightarrow> nat \<Rightarrow> nat" where
  "siblingOrdinal bs 0 = 1"
| "siblingOrdinal bs (Suc i) = (if isNumberedList (bs ! i) then siblingOrdinal bs i + 1 else 1)"

text \<open>
  The table of a collection view as it is written, given the content of every cell:
  \<open>cells ! i ! j\<close> is the content of the cell of row \<open>i\<close> in column \<open>j\<close>.
\<close>

definition cellHTML :: "TableProperty \<Rightarrow> string \<Rightarrow> string" where
  \<open>cellHTML col content =
     ''<td class="cell-'' @ EscapeHTML (Property col) @ ''">'' @ content @ ''</td>''\<close>

definition rowHTML :: "TableProperty list \<Rightarrow> Row \<Rightarrow> string list \<Rightarrow> string" where
  \<open>rowHTML columns row contents =
     ''<tr id="'' @ RowID row @ ''">'' @ concat (map2 cellHTML columns contents)
     @ ''</tr>'' @ [CHR 0x0A]\<close>

definition tableHead :: "Block \<Rightarrow> CollectionViewInfo \<Rightarrow> TableProperty list \<Rightarrow> string" where
  \<open>tableHead block viewInfo columns =
     ''<div id="'' @ ID block @ ''" class="collection-content">''
     @ ''<h4 class="collection-title">'' @ CollectionName (CollectionOf viewInfo) @ ''</h4>''
     @ ''<table class="collection-content">'' @ ''<thead>'' @ ''<tr>''
     @ concat (map (\<lambda>col. ''<th>''
                          @ (case CollectionSchema (CollectionOf viewInfo) (Property col) of
                               None \<Rightarrow> []
                             | Some colInfo \<Rightarrow> EscapeHTML (ColumnName colInfo))
                          @ ''</th>'') columns)
     @ ''</tr>'' @ ''</thead>'' @ ''<tbody>''\<close>

definition tableHTML ::
  "Block \<Rightarrow> CollectionViewInfo \<Rightarrow> TableProperty list \<Rightarrow> Row list \<Rightarrow> string list list \<Rightarrow> string" where
  \<open>tableHTML block viewInfo columns rows cells =
     tableHead block viewInfo columns @ concat (map2 (rowHTML columns) rows cells)
     @ ''</tbody>'' @ ''</table>'' @ ''</div>''\<close>

text \<open>
  The rendered raw value of a cell: the inline content of the property the column names,
  rendered to text; nothing when the property does not parse.
\<close>

definition cellValue :: "Env \<Rightarrow> Converter \<Rightarrow> Row \<Rightarrow> TableProperty \<Rightarrow> string" where
  "cellValue env c row col =
     (case ParseTextSpans env (case RowProperties row (Property col) of
                                 None \<Rightarrow> JNull | Some v \<Rightarrow> v) of
        None \<Rightarrow> []
      | Some spans \<Rightarrow> inlineHTML env c spans)"

definition isMultiSelect :: "CollectionViewInfo \<Rightarrow> TableProperty \<Rightarrow> bool" where
  "isMultiSelect viewInfo col =
     (case CollectionSchema (CollectionOf viewInfo) (Property col) of
        None \<Rightarrow> False
      | Some colInfo \<Rightarrow> ColumnType colInfo = ''multi_select'')"

text \<open>A collection view block with one multi-select column and one row holding \<^verbatim>\<open>A,B,C\<close>.\<close>

definition tagsView :: CollectionViewInfo where
  "tagsView =
     \<lparr>ViewOf = \<lparr>Format = Some \<lparr>TableProperties = [\<lparr>Property = ''tags''\<rparr>]\<rparr>\<rparr>,
      CollectionOf =
        \<lparr>CollectionName = ''DB'', Icon = [],
         CollectionSchema = [''tags'' \<mapsto> \<lparr>ColumnName = ''Tags'', ColumnType = ''multi_select''\<rparr>]\<rparr>,
      CollectionRows = [\<lparr>RowID = ''r'', RowProperties = Map.empty, RowTitle = []\<rparr>]\<rparr>"

definition tagsBlock :: Block where
  "tagsBlock =
     Block ''cv'' BlockCollectionView [] [] [] [] False [] [] [] [] [tagsView] (\<lambda>_. None)
       None None None None"

definition tagsEnv :: Env where
  "tagsEnv = (exampleEnv None)\<lparr>ParseTextSpans := (\<lambda>_. Some [\<lparr>SpanText = ''A,B,C'', Attrs = []\<rparr>])\<rparr>"

text \<open>
  An override hook that leaves numbered-list blocks to the default renderer: it answers
  that it did not handle the block, and leaves the converter as it was.
\<close>

definition declinesNumberedLists :: "Env \<Rightarrow> bool" where
  "declinesNumberedLists env \<longleftrightarrow>
     (\<forall>override parents block c res.
        RenderBlockOverride env = Some override \<longrightarrow>
        Type block = BlockNumberedList \<longrightarrow>
        override parents block c = Returns res \<longrightarrow> res = (False, c))"


section \<open>The inline parser rejects or panics\<close>

lemma parseInlineBlocksLoop_length:
  "parseInlineBlocksLoop decodeDate res a = Ok spans \<Longrightarrow> length spans = length res + length a"
  by (induction a arbitrary: res) (auto split: json.splits parse_result.splits)

text \<open>
  C6. Malformed inline input is meant to come back as a decode error, never as a panic.
  A date attribute whose payload is not a JSON object does not: the unchecked type
  assertion on the payload panics, where the sibling branch for the string payloads of
  \<^verbatim>\<open>a\<close>, \<^verbatim>\<open>u\<close> and \<^verbatim>\<open>m\<close> checks and returns an error. The input
  \<^verbatim>\<open>[["x", [["d", "2019-01-01"]]]]\<close> makes the parser panic.
\<close>

theorem parseInlineBlocks_date_payload_panics:
  "parseInlineBlocks decodeDate
     (JArray [JArray [JString ''x'', JArray [JArray [JString ''d'', JString ''2019-01-01'']]]])
   = Panic (InterfaceConversion (JString ''2019-01-01''))"
  by (simp add: parseInlineBlocks_def parseInlineBlock_def parseAttribute_def newInlineBlock_def)

text \<open>
  C10. An outer array of length zero is a decode error, and the parser never succeeds
  with an empty sequence of spans.
\<close>

theorem parseInlineBlocks_never_empty:
  "parseInlineBlocks decodeDate (JArray []) = Error RawEmpty \<and>
   (\<forall>raw spans. parseInlineBlocks decodeDate raw = Ok spans \<longrightarrow> spans \<noteq> [])"
  by (auto simp: parseInlineBlocks_def split: json.splits if_splits
        dest!: parseInlineBlocksLoop_length)

theorem parseInlineBlocks_never_empty_witness:
  "parseInlineBlocks (\<lambda>_. None :: unit option) (JArray []) = Error RawEmpty \<and>
   parseInlineBlocks (\<lambda>_. None :: unit option) (JArray [JArray [JString ''hi'']])
     = Ok [newInlineBlock ''hi''] \<and>
   [newInlineBlock ''hi'' :: unit InlineBlock] \<noteq> []"
  using parseInlineBlocks_never_empty [of "\<lambda>_. None :: unit option"]
  by (simp add: parseInlineBlocks_def parseInlineBlock_def)

section \<open>Nesting order of inline attributes\<close>

text \<open>
  The loop of \<^verbatim>\<open>RenderInline\<close> visits the attributes by the index
  \<^verbatim>\<open>len - i - 1\<close>, that is from the last declared to the first.
\<close>

lemma rev_by_index: "map (\<lambda>i. xs ! (length xs - i - 1)) [0..<length xs] = rev xs"
proof (rule nth_equalityI)
  show "length (map (\<lambda>i. xs ! (length xs - i - 1)) [0..<length xs]) = length (rev xs)" by simp
next
  fix i assume "i < length (map (\<lambda>i. xs ! (length xs - i - 1)) [0..<length xs])"
  then have i: "i < length xs" by simp
  then show "map (\<lambda>i. xs ! (length xs - i - 1)) [0..<length xs] ! i = rev xs ! i"
    by (simp add: rev_nth)
qed

lemma foldl_by_index:
  "foldl (\<lambda>st i. f (xs ! (length xs - i - 1)) st) init [0..<length xs] = foldr f xs init"
proof -
  have "foldl (\<lambda>st i. f (xs ! (length xs - i - 1)) st) init [0..<length xs]
      = foldl (\<lambda>st a. f a st) init (map (\<lambda>i. xs ! (length xs - i - 1)) [0..<length xs])"
    by (simp add: foldl_map)
  also have "\<dots> = foldl (\<lambda>st a. f a st) init (rev xs)" by (simp only: rev_by_index)
  also have "\<dots> = foldr f xs init" by (simp add: foldl_conv_foldr)
  finally show ?thesis .
qed





lemma RenderInlineAttr_Buf [simp]:
  "RenderInlineAttr env (c\<lparr>Buf := x\<rparr>) = RenderInlineAttr env c"
proof (rule ext, rule ext)
  fix a st
  show "RenderInlineAttr env (c\<lparr>Buf := x\<rparr>) a st = RenderInlineAttr env c a st"
    by (cases st; cases a) (simp_all add: RenderInlineAttr_def)
qed







text \<open>
  C2 (as amended). A span with the attributes bold then link renders as an anchor around
  a strong element around the escaped text. The anchor carries
  \<^verbatim>\<open>href="..."\<close> with the rewritten, escaped link when the rewritten link is not
  empty, and is a bare \<^verbatim>\<open><a>\<close> when it is empty.
\<close>

theorem RenderInline_bold_link:
  \<open>RenderInline env \<lparr>SpanText = t, Attrs = [TextAttrBold, TextAttrLink link]\<rparr> c =
     (let uri = (case RewriteURL c of None \<Rightarrow> link | Some rewrite \<Rightarrow> rewrite link)
      in Printf ((if uri = [] then ''<a>'' else ''<a href="'' @ EscapeHTML uri @ ''">'')
                 @ ''<strong>'' @ EscapeHTML t @ ''</strong></a>'') c)\<close>
  by (simp add: RenderInline_def RenderInlineAttr_def Let_def)

theorem RenderInline_bold_link_witness:
  \<open>RenderInline (exampleEnv None)
       \<lparr>SpanText = ''a<b'', Attrs = [TextAttrBold, TextAttrLink ''https://x.org/?p=1&q=2'']\<rparr>
       NewConverter
     = Printf ''<a href="https://x.org/?p=1&amp;q=2"><strong>a&lt;b</strong></a>'' NewConverter\<close>
  using RenderInline_bold_link
    [of "exampleEnv None" "''a<b''" "''https://x.org/?p=1&q=2''" NewConverter]
  by (simp add: NewConverter_def EscapeHTML_def htmlEscapeString_def htmlEscapeChar_def
        HasPrefix_def)

text \<open>
  C2 as stated promises an \<^verbatim>\<open>href\<close> for every link payload. For the empty payload
  the converter writes \<^verbatim>\<open><a><strong>t</strong></a>\<close>, an anchor without one.
\<close>

theorem RenderInline_bold_link_counterexample:
  \<open>Buf (RenderInline (exampleEnv None)
          \<lparr>SpanText = ''t'', Attrs = [TextAttrBold, TextAttrLink []]\<rparr> NewConverter)
     = ''<a><strong>t</strong></a>'' \<and>
   \<not> HasPrefix
        (Buf (RenderInline (exampleEnv None)
                \<lparr>SpanText = ''t'', Attrs = [TextAttrBold, TextAttrLink []]\<rparr> NewConverter))
        ''<a href="''\<close>
  by (simp add: RenderInline_def RenderInlineAttr_def Printf_def NewConverter_def
        EscapeHTML_def htmlEscapeString_def htmlEscapeChar_def HasPrefix_def)

section \<open>What inline rendering does to the converter\<close>

lemma RenderInline_RewriteURL:
  assumes "RewriteURL c = RewriteURL c'"
  shows "Buf (RenderInline env b c) = Buf c @ Buf (RenderInline env b (c'\<lparr>Buf := []\<rparr>))"
proof -
  have "RenderInlineAttr env c = RenderInlineAttr env (c'\<lparr>Buf := []\<rparr>)"
  proof (rule ext, rule ext)
    fix a st
    show "RenderInlineAttr env c a st = RenderInlineAttr env (c'\<lparr>Buf := []\<rparr>) a st"
      using assms by (cases st; cases a) (simp_all add: RenderInlineAttr_def)
  qed
  then show ?thesis
    by (simp add: RenderInline_def Printf_def split: prod.splits)
qed

lemma RenderInline_frame:
  "RenderInline env b c = c\<lparr>Buf := Buf (RenderInline env b c)\<rparr>"
  by (simp add: RenderInline_def Printf_def split: prod.splits)

lemma RenderInlines_frame:
  "RenderInlines env spans c = c\<lparr>Buf := Buf (RenderInlines env spans c)\<rparr>"
proof (induction spans arbitrary: c)
  case Nil
  show ?case by (simp add: RenderInlines_def)
next
  case (Cons b spans)
  have "RenderInlines env (b # spans) c = RenderInlines env spans (RenderInline env b c)"
    by (simp add: RenderInlines_def)
  also have "\<dots> = (RenderInline env b c)\<lparr>Buf := Buf (RenderInlines env spans (RenderInline env b c))\<rparr>"
    by (rule Cons.IH)
  also have "\<dots> = c\<lparr>Buf := Buf (RenderInlines env spans (RenderInline env b c))\<rparr>"
    by (subst RenderInline_frame) simp
  finally show ?case by (simp add: RenderInlines_def)
qed

lemma RenderInlines_RewriteURL:
  "RewriteURL c = RewriteURL c' \<Longrightarrow>
   Buf (RenderInlines env spans c) = Buf c @ Buf (RenderInlines env spans (c'\<lparr>Buf := []\<rparr>))"
proof (induction spans arbitrary: c c')
  case Nil
  show ?case by (simp add: RenderInlines_def)
next
  case (Cons b spans)
  let ?c1 = "RenderInline env b c"
  let ?d1 = "RenderInline env b (c'\<lparr>Buf := []\<rparr>)"
  have rw1: "RewriteURL ?c1 = RewriteURL ?d1"
    using Cons.prems by (subst RenderInline_frame, subst (2) RenderInline_frame) simp
  have rw2: "RewriteURL ?d1 = RewriteURL ?d1" ..
  have "Buf (RenderInlines env (b # spans) c) = Buf (RenderInlines env spans ?c1)"
    by (simp add: RenderInlines_def)
  also have "\<dots> = Buf ?c1 @ Buf (RenderInlines env spans (?d1\<lparr>Buf := []\<rparr>))"
    by (rule Cons.IH [OF rw1])
  also have "\<dots> = Buf c @ Buf ?d1 @ Buf (RenderInlines env spans (?d1\<lparr>Buf := []\<rparr>))"
    using RenderInline_RewriteURL [OF Cons.prems, of env b] by simp
  also have "Buf ?d1 @ Buf (RenderInlines env spans (?d1\<lparr>Buf := []\<rparr>)) = Buf (RenderInlines env spans ?d1)"
    by (rule Cons.IH [OF rw2, symmetric])
  finally show ?case by (simp add: RenderInlines_def)
qed

lemma RenderInlines_Printf:
  "RenderInlines env spans c = Printf (inlineHTML env c spans) c"
proof -
  have "RenderInlines env spans c = c\<lparr>Buf := Buf (RenderInlines env spans c)\<rparr>"
    by (rule RenderInlines_frame)
  also have "Buf (RenderInlines env spans c) = Buf c @ inlineHTML env c spans"
    unfolding inlineHTML_def by (rule RenderInlines_RewriteURL) simp
  finally show ?thesis by (simp add: Printf_def)
qed

lemma inlineHTML_cong:
  "RewriteURL c = RewriteURL c' \<Longrightarrow> inlineHTML env c spans = inlineHTML env c' spans"
  unfolding inlineHTML_def
  using RenderInlines_RewriteURL [of "c\<lparr>Buf := []\<rparr>" c' env spans] by simp

lemma GetInlineContent_Returns:
  "GetInlineContent env spans c = Returns (inlineHTML env c spans, c)"
proof (cases "spans = []")
  case True
  then show ?thesis by (simp add: GetInlineContent_def inlineHTML_def RenderInlines_def)
next
  case False
  have "foldl (\<lambda>c block. RenderInline env block c) (PushNewBuffer c) spans
          = RenderInlines env spans (PushNewBuffer c)"
    by (simp add: RenderInlines_def)
  also have "\<dots> = Printf (inlineHTML env (PushNewBuffer c) spans) (PushNewBuffer c)"
    by (rule RenderInlines_Printf)
  also have "inlineHTML env (PushNewBuffer c) spans = inlineHTML env c spans"
    by (rule inlineHTML_cong) (simp add: PushNewBuffer_def)
  finally show ?thesis using False
    by (simp add: GetInlineContent_def PopBuffer_def PushNewBuffer_def Printf_def Let_def)
qed


section \<open>Indent levels of the table of contents\<close>

lemma cleanAttr_table_of_contents: "cleanAttr '' table_of_contents'' = ''table_of_contents''"
  by (simp add: cleanAttr_def TrimSpace_def isSpace_def cleanAttrLoop.simps HasPrefix_def)

text \<open>
  C4 (as amended). For a page whose heading blocks in document order have the ranks
  H1, H2, H3, H2, H1, the table of contents has five entries with the indent levels
  0, 1, 2, 1, 0: the running sum of the steps 0, +1, +1, -1, -1.
\<close>

theorem RenderTableOfContents_levels:
  assumes "Root env = Some root"
    and "getHeaderBlocks (Content root) = Returns [h1, h2, h3, h4, h5]"
    and "map Type [h1, h2, h3, h4, h5] =
           [BlockHeader, BlockSubHeader, BlockSubSubHeader, BlockSubHeader, BlockHeader]"
  shows "RenderTableOfContents env block c =
           Returns (Printf (tocOpen block
                            @ concat (map2 (tocItem env c) [0, 1, 2, 1, 0] [h1, h2, h3, h4, h5])
                            @ ''</nav>'') c)"
proof -
  have idx: "[0..<length [h1, h2, h3, h4, h5]] = [0, 1, 2, 3, 4]"
    by (simp add: upt_rec)
  show ?thesis
    using assms
    by (simp add: RenderTableOfContents_def idx Let_def andThen_def GetInlineContent_Returns
          adjustIndent_def cmpBlockTypes_def tocItem_def tocOpen_def Printf_def
          inlineHTML_cong [of "c\<lparr>Buf := _\<rparr>" c])
qed

theorem RenderTableOfContents_levels_witness:
  "Root (exampleEnv (Some headingsPage)) = Some headingsPage \<and>
   getHeaderBlocks (Content headingsPage) =
     Returns [simpleBlock ''a'' BlockHeader [\<lparr>SpanText = ''A'', Attrs = []\<rparr>] [],
              simpleBlock ''b'' BlockSubHeader [\<lparr>SpanText = ''B'', Attrs = []\<rparr>] [],
              simpleBlock ''c'' BlockSubSubHeader [\<lparr>SpanText = ''C'', Attrs = []\<rparr>] [],
              simpleBlock ''d'' BlockSubHeader [\<lparr>SpanText = ''D'', Attrs = []\<rparr>] [],
              simpleBlock ''e'' BlockHeader [\<lparr>SpanText = ''E'', Attrs = []\<rparr>] []] \<and>
   RenderTableOfContents (exampleEnv (Some headingsPage)) tocBlock NewConverter =
     Returns (Printf (tocOpen tocBlock
        @ concat (map2 (tocItem (exampleEnv (Some headingsPage)) NewConverter) [0, 1, 2, 1, 0]
            [simpleBlock ''a'' BlockHeader [\<lparr>SpanText = ''A'', Attrs = []\<rparr>] [],
             simpleBlock ''b'' BlockSubHeader [\<lparr>SpanText = ''B'', Attrs = []\<rparr>] [],
             simpleBlock ''c'' BlockSubSubHeader [\<lparr>SpanText = ''C'', Attrs = []\<rparr>] [],
             simpleBlock ''d'' BlockSubHeader [\<lparr>SpanText = ''D'', Attrs = []\<rparr>] [],
             simpleBlock ''e'' BlockHeader [\<lparr>SpanText = ''E'', Attrs = []\<rparr>] []])
        @ ''</nav>'') NewConverter)"
proof -
  let ?env = "exampleEnv (Some headingsPage)"
  let ?a = "simpleBlock ''a'' BlockHeader [\<lparr>SpanText = ''A'', Attrs = []\<rparr>] []"
  let ?b = "simpleBlock ''b'' BlockSubHeader [\<lparr>SpanText = ''B'', Attrs = []\<rparr>] []"
  let ?c = "simpleBlock ''c'' BlockSubSubHeader [\<lparr>SpanText = ''C'', Attrs = []\<rparr>] []"
  let ?d = "simpleBlock ''d'' BlockSubHeader [\<lparr>SpanText = ''D'', Attrs = []\<rparr>] []"
  let ?e = "simpleBlock ''e'' BlockHeader [\<lparr>SpanText = ''E'', Attrs = []\<rparr>] []"
  have h1: "Root ?env = Some headingsPage" by (simp add: exampleEnv_def)
  have h2: "getHeaderBlocks (Content headingsPage) = Returns [?a, ?b, ?c, ?d, ?e]"
    by (simp add: headingsPage_def simpleBlock_def isHeaderBlock_def andThen_def)
  have h3: "map Type [?a, ?b, ?c, ?d, ?e] =
              [BlockHeader, BlockSubHeader, BlockSubSubHeader, BlockSubHeader, BlockHeader]"
    by (simp add: simpleBlock_def)
  from RenderTableOfContents_levels [OF h1 h2 h3, of tocBlock NewConverter] h1 h2
  show ?thesis by simp
qed

text \<open>
  C4 as stated gives the levels 0, 1, 1, 0, -1. On the page \<open>headingsPage\<close> the third
  entry is written at level 2 and the last at level 0.
\<close>

theorem RenderTableOfContents_levels_counterexample:
  \<open>RenderTableOfContents (exampleEnv (Some headingsPage)) tocBlock NewConverter =
     Returns (NewConverter\<lparr>Buf := ''<nav id="toc" class="table_of_contents"><div class="table_of_contents-item table_of_contents-indent-0"><a class="table_of_contents-link" href="#a">A</a></div><div class="table_of_contents-item table_of_contents-indent-1"><a class="table_of_contents-link" href="#b">B</a></div><div class="table_of_contents-item table_of_contents-indent-2"><a class="table_of_contents-link" href="#c">C</a></div><div class="table_of_contents-item table_of_contents-indent-1"><a class="table_of_contents-link" href="#d">D</a></div><div class="table_of_contents-item table_of_contents-indent-0"><a class="table_of_contents-link" href="#e">E</a></div></nav>''\<rparr>) \<and>
   RenderTableOfContents (exampleEnv (Some headingsPage)) tocBlock NewConverter \<noteq>
     Returns (Printf (tocOpen tocBlock
        @ concat (map2 (tocItem (exampleEnv (Some headingsPage)) NewConverter) [0, 1, 1, 0, - 1]
            [simpleBlock ''a'' BlockHeader [\<lparr>SpanText = ''A'', Attrs = []\<rparr>] [],
             simpleBlock ''b'' BlockSubHeader [\<lparr>SpanText = ''B'', Attrs = []\<rparr>] [],
             simpleBlock ''c'' BlockSubSubHeader [\<lparr>SpanText = ''C'', Attrs = []\<rparr>] [],
             simpleBlock ''d'' BlockSubHeader [\<lparr>SpanText = ''D'', Attrs = []\<rparr>] [],
             simpleBlock ''e'' BlockHeader [\<lparr>SpanText = ''E'', Attrs = []\<rparr>] []])
        @ ''</nav>'') NewConverter)\<close>
  by (simp add: RenderTableOfContents_def exampleEnv_def headingsPage_def tocBlock_def
        simpleBlock_def NewConverter_def getBlockColorClass_def PropAsString_def
        cleanAttr_table_of_contents isHeaderBlock_def andThen_def GetInlineContent_def
        PushNewBuffer_def PopBuffer_def RenderInline_def RenderInlines_def Printf_def
        adjustIndent_def cmpBlockTypes_def Itoa_def upt_rec tocOpen_def tocItem_def
        inlineHTML_def EscapeHTML_def htmlEscapeString_def htmlEscapeChar_def HasPrefix_def
        Let_def)

section \<open>Multi-select cells\<close>

lemma Replace_eq_Nil:
  "old \<noteq> [] \<Longrightarrow> new \<noteq> [] \<Longrightarrow> Replace s old new = [] \<longleftrightarrow> s = []"
  by (cases s; cases old) auto

lemma htmlEscapeString_eq_Nil: "htmlEscapeString s = [] \<longleftrightarrow> s = []"
  by (cases s) (auto simp: htmlEscapeString_def htmlEscapeChar_def)

lemma EscapeHTML_eq_Nil: "EscapeHTML s = [] \<longleftrightarrow> s = []"
  by (simp add: EscapeHTML_def Replace_eq_Nil htmlEscapeString_eq_Nil)

lemma foldl_filter_map:
  "foldl (\<lambda>s e. if g e = [] then s else s @ f e) acc xs
     = acc @ concat (map f (filter (\<lambda>e. g e \<noteq> []) xs))"
  by (induction xs arbitrary: acc) auto

lemma multiSelectValues_rev:
  "multiSelectValues colVal =
     concat (map selectedValue (filter (\<lambda>e. e \<noteq> []) (rev (Split colVal CHR '',''))))"
proof -
  let ?vals = "Split colVal CHR '',''"
  let ?step = "\<lambda>e s. if EscapeHTML e = [] then s else s @ selectedValue e"
  have "multiSelectValues colVal
          = foldl (\<lambda>s i. ?step (?vals ! (length ?vals - i - 1)) s) [] [0..<length ?vals]"
    by (simp add: multiSelectValues_def Let_def selectedValue_def diff_commute cong: if_cong)
  also have "\<dots> = foldr ?step ?vals []"
    by (rule foldl_by_index)
  also have "\<dots> = foldl (\<lambda>s e. ?step e s) [] (rev ?vals)"
    by (simp add: foldr_conv_foldl)
  also have "\<dots> = concat (map selectedValue (filter (\<lambda>e. EscapeHTML e \<noteq> []) (rev ?vals)))"
    using foldl_filter_map [of EscapeHTML selectedValue "[]" "rev ?vals"] by simp
  finally show ?thesis by (simp add: EscapeHTML_eq_Nil)
qed


lemma Printf_Printf: "Printf t (Printf s c) = Printf (s @ t) c"
  by (simp add: Printf_def)

lemma cellValue_Printf: "cellValue env (Printf s c) row col = cellValue env c row col"
proof -
  have "inlineHTML env (Printf s c) spans = inlineHTML env c spans" for spans
    by (rule inlineHTML_cong) (simp add: Printf_def)
  then show ?thesis by (simp add: cellValue_def split: option.splits)
qed

lemma cellValue_GetInlineContent:
  "GetInlineContent env
     (case ParseTextSpans env (case RowProperties row (Property col) of
                                 None \<Rightarrow> JNull | Some v \<Rightarrow> v) of
        None \<Rightarrow> [] | Some spans \<Rightarrow> spans) c
   = Returns (cellValue env c row col, c)"
  by (simp add: GetInlineContent_Returns cellValue_def inlineHTML_def RenderInlines_def
        split: option.splits)

lemma RenderCollectionViewCells_cells:
  assumes "RenderCollectionViewCells env parents viewInfo row columns c = Returns c'"
  shows "\<exists>cs. length cs = length columns \<and>
           c' = Printf (concat (map2 cellHTML columns cs)) c \<and>
           (\<forall>j<length columns. isMultiSelect viewInfo (columns ! j) \<longrightarrow>
              cs ! j = concat (map selectedValue (filter (\<lambda>e. e \<noteq> [])
                         (rev (Split (cellValue env c row (columns ! j)) CHR '','')))))"
  using assms
proof (induction columns arbitrary: c)
  case Nil
  then show ?case by (simp add: Printf_def)
next
  case (Cons col columns)
  let ?v = "cellValue env c row col"
  from Cons.prems obtain colInfo where
    info: "CollectionSchema (CollectionOf viewInfo) (Property col) = Some colInfo"
    by (auto simp: Let_def andThen_def cellValue_GetInlineContent
          split: outcome.splits option.splits)
  define x where "x =
    (if ColumnType colInfo = ''title'' then
       ''<a href=\"'' @ getTitleColDownloadedURL row parents (CollectionOf viewInfo) @ ''\">''
       @ (if ?v = [] then ''Untitled'' else ?v) @ ''</a>''
     else if ColumnType colInfo = ''multi_select'' then multiSelectValues ?v
     else ?v)"
  from Cons.prems info
  have rest: "RenderCollectionViewCells env parents viewInfo row columns
                (Printf (cellHTML col x) c) = Returns c'"
    by (auto simp: Let_def andThen_def cellValue_GetInlineContent x_def cellHTML_def
          split: outcome.splits option.splits if_splits)
  from Cons.IH [OF rest] obtain cs where
    len: "length cs = length columns"
    and c': "c' = Printf (concat (map2 cellHTML columns cs)) (Printf (cellHTML col x) c)"
    and multi: "\<And>j. j < length columns \<Longrightarrow> isMultiSelect viewInfo (columns ! j) \<Longrightarrow>
              cs ! j = concat (map selectedValue (filter (\<lambda>e. e \<noteq> [])
                         (rev (Split (cellValue env c row (columns ! j)) CHR '',''))))"
    by (auto simp: cellValue_Printf)
  have "(x # cs) ! j = concat (map selectedValue (filter (\<lambda>e. e \<noteq> [])
                         (rev (Split (cellValue env c row ((col # columns) ! j)) CHR '',''))))"
    if j: "j < length (col # columns)" and m: "isMultiSelect viewInfo ((col # columns) ! j)" for j
  proof (cases j)
    case 0
    with m info have "ColumnType colInfo = ''multi_select''" by (simp add: isMultiSelect_def)
    then have "x = multiSelectValues ?v" by (simp add: x_def)
    with 0 show ?thesis by (simp add: multiSelectValues_rev)
  next
    case (Suc j')
    with j m multi [of j'] show ?thesis by simp
  qed
  with len c' show ?case
    by (intro exI [of _ "x # cs"]) (simp add: Printf_Printf)
qed

lemma RenderCollectionViewRows_cells:
  assumes "RenderCollectionViewRows env parents viewInfo columns rows c = Returns c'"
  shows "\<exists>cells. length cells = length rows \<and>
           (\<forall>i<length rows. length (cells ! i) = length columns) \<and>
           c' = Printf (concat (map2 (rowHTML columns) rows cells)) c \<and>
           (\<forall>i<length rows. \<forall>j<length columns. isMultiSelect viewInfo (columns ! j) \<longrightarrow>
              cells ! i ! j = concat (map selectedValue (filter (\<lambda>e. e \<noteq> [])
                         (rev (Split (cellValue env c (rows ! i) (columns ! j)) CHR '','')))))"
  using assms
proof (induction rows arbitrary: c)
  case Nil
  then show ?case by (simp add: Printf_def)
next
  case (Cons row rows)
  let ?c0 = "Printf (''<tr id=\"'' @ RowID row @ ''\">'') c"
  from Cons.prems obtain c1 where
    cellsrun: "RenderCollectionViewCells env parents viewInfo row columns ?c0 = Returns c1"
    and rest: "RenderCollectionViewRows env parents viewInfo columns rows
                 (Printf (''</tr>'' @ [CHR 0x0A]) c1) = Returns c'"
    by (auto simp: Let_def andThen_def split: outcome.splits)
  from RenderCollectionViewCells_cells [OF cellsrun] obtain cs where
    lcs: "length cs = length columns"
    and c1: "c1 = Printf (concat (map2 cellHTML columns cs)) ?c0"
    and mcs: "\<And>j. j < length columns \<Longrightarrow> isMultiSelect viewInfo (columns ! j) \<Longrightarrow>
              cs ! j = concat (map selectedValue (filter (\<lambda>e. e \<noteq> [])
                         (rev (Split (cellValue env c row (columns ! j)) CHR '',''))))"
    by (auto simp: cellValue_Printf)
  have row: "Printf (''</tr>'' @ [CHR 0x0A]) c1 = Printf (rowHTML columns row cs) c"
    by (simp add: c1 Printf_Printf rowHTML_def)
  from Cons.IH [OF rest] obtain cells where
    len: "length cells = length rows"
    and lens: "\<And>i. i < length rows \<Longrightarrow> length (cells ! i) = length columns"
    and c': "c' = Printf (concat (map2 (rowHTML columns) rows cells))
                    (Printf (rowHTML columns row cs) c)"
    and multi: "\<And>i j. i < length rows \<Longrightarrow> j < length columns \<Longrightarrow>
              isMultiSelect viewInfo (columns ! j) \<Longrightarrow>
              cells ! i ! j = concat (map selectedValue (filter (\<lambda>e. e \<noteq> [])
                         (rev (Split (cellValue env c (rows ! i) (columns ! j)) CHR '',''))))"
    unfolding row by (auto simp: cellValue_Printf)
  have l: "length ((cs # cells) ! i) = length columns" if "i < length (row # rows)" for i
    using that lcs lens by (cases i) simp_all
  have m: "(cs # cells) ! i ! j = concat (map selectedValue (filter (\<lambda>e. e \<noteq> [])
             (rev (Split (cellValue env c ((row # rows) ! i) (columns ! j)) CHR '',''))))"
    if "i < length (row # rows)" "j < length columns" "isMultiSelect viewInfo (columns ! j)"
    for i j
    using that mcs multi by (cases i) simp_all
  from len l m c' show ?case
    by (intro exI [of _ "cs # cells"]) (simp add: Printf_Printf)
qed

lemma foldl_Printf:
  "foldl (\<lambda>c x. Printf (f x) c) c xs = Printf (concat (map f xs)) c"
  by (induction xs arbitrary: c) (simp_all add: Printf_def)


text \<open>
  C5. Whenever \<open>RenderCollectionView\<close> returns for a block with a view that has a
  format, it has written the table \<open>tableHTML\<close> of some cell contents, one for every
  row and visible column, and the content of every cell in a \<^verbatim>\<open>multi_select\<close>
  column is one \<open>selectedValue\<close> fragment per non-empty entry of the rendered raw
  value split at commas, in the reverse of the split order; empty entries give nothing.
  For the raw value \<^verbatim>\<open>A,B,C\<close> these are the fragments for C, B, A in this order.
\<close>

theorem multi_select_cell_reversed:
  \<open>(CollectionViews block = viewInfo # others \<and> Format (ViewOf viewInfo) = Some format \<and>
    RenderCollectionView env parents block c = Returns c' \<longrightarrow>
      (\<exists>cells.
         length cells = length (CollectionRows viewInfo) \<and>
         (\<forall>i<length (CollectionRows viewInfo).
            length (cells ! i) = length (TableProperties format)) \<and>
         c' = Printf (tableHTML block viewInfo (TableProperties format)
                        (CollectionRows viewInfo) cells) c \<and>
         (\<forall>i<length (CollectionRows viewInfo). \<forall>j<length (TableProperties format).
            isMultiSelect viewInfo (TableProperties format ! j) \<longrightarrow>
              cells ! i ! j =
                concat (map selectedValue (filter (\<lambda>e. e \<noteq> [])
                  (rev (Split (cellValue env c (CollectionRows viewInfo ! i)
                                 (TableProperties format ! j)) CHR '','')))))) \<and>
       (\<forall>i<length (CollectionRows viewInfo). \<forall>j<length (TableProperties format).
          isMultiSelect viewInfo (TableProperties format ! j) \<and>
          cellValue env c (CollectionRows viewInfo ! i) (TableProperties format ! j) = ''A,B,C''
          \<longrightarrow> (\<exists>cells.
                 c' = Printf (tableHTML block viewInfo (TableProperties format)
                                (CollectionRows viewInfo) cells) c \<and>
                 cells ! i ! j
                   = selectedValue ''C'' @ selectedValue ''B'' @ selectedValue ''A'')))\<close>
proof (intro impI, elim conjE)
  assume views: "CollectionViews block = viewInfo # others"
    and fmt: "Format (ViewOf viewInfo) = Some format"
    and r: "RenderCollectionView env parents block c = Returns c'"
  let ?columns = "TableProperties format"
  let ?rows = "CollectionRows viewInfo"
  let ?c0 = "Printf (tableHead block viewInfo ?columns) c"
  have head: "Printf ''<tbody>'' (Printf ''</thead>'' (Printf ''</tr>''
       (foldl (\<lambda>c col. Printf (''<th>''
                          @ (case CollectionSchema (CollectionOf viewInfo) (Property col) of
                               None \<Rightarrow> []
                             | Some colInfo \<Rightarrow> EscapeHTML (ColumnName colInfo))
                          @ ''</th>'') c)
          (Printf ''<tr>'' (Printf ''<thead>'' (Printf ''<table class=\"collection-content\">''
             (Printf (''<h4 class=\"collection-title\">'' @ CollectionName (CollectionOf viewInfo)
                      @ ''</h4>'')
                (Printf (''<div id=\"'' @ ID block @ ''\" class=\"collection-content\">'') c)))))
          ?columns))) = ?c0"
    by (simp add: foldl_Printf Printf_Printf tableHead_def)
  from r views fmt obtain c2 where
    rows: "RenderCollectionViewRows env parents viewInfo ?columns ?rows ?c0 = Returns c2"
    and c': "c' = Printf (''</tbody>'' @ ''</table>'' @ ''</div>'') c2"
    unfolding head [symmetric]
    by (auto simp: RenderCollectionView_def Let_def andThen_def Printf_Printf
          split: outcome.splits cong: option.case_cong)
  from RenderCollectionViewRows_cells [OF rows] obtain cells where
    len: "length cells = length ?rows"
    and lens: "\<forall>i<length ?rows. length (cells ! i) = length ?columns"
    and c2: "c2 = Printf (concat (map2 (rowHTML ?columns) ?rows cells)) ?c0"
    and multi: "\<forall>i<length ?rows. \<forall>j<length ?columns. isMultiSelect viewInfo (?columns ! j) \<longrightarrow>
              cells ! i ! j = concat (map selectedValue (filter (\<lambda>e. e \<noteq> [])
                         (rev (Split (cellValue env c (?rows ! i) (?columns ! j)) CHR '',''))))"
    by (auto simp: cellValue_Printf)
  have out: "c' = Printf (tableHTML block viewInfo ?columns ?rows cells) c"
    by (simp add: c' c2 Printf_Printf tableHTML_def)
  have abc: "concat (map selectedValue (filter (\<lambda>e. e \<noteq> []) (rev (Split ''A,B,C'' CHR '','')))) =
             selectedValue ''C'' @ selectedValue ''B'' @ selectedValue ''A''"
    by simp
  from len lens out multi abc
  show "(\<exists>cells.
         length cells = length ?rows \<and>
         (\<forall>i<length ?rows. length (cells ! i) = length ?columns) \<and>
         c' = Printf (tableHTML block viewInfo ?columns ?rows cells) c \<and>
         (\<forall>i<length ?rows. \<forall>j<length ?columns.
            isMultiSelect viewInfo (?columns ! j) \<longrightarrow>
              cells ! i ! j =
                concat (map selectedValue (filter (\<lambda>e. e \<noteq> [])
                  (rev (Split (cellValue env c (?rows ! i) (?columns ! j)) CHR '','')))))) \<and>
       (\<forall>i<length ?rows. \<forall>j<length ?columns.
          isMultiSelect viewInfo (?columns ! j) \<and>
          cellValue env c (?rows ! i) (?columns ! j) = ''A,B,C''
          \<longrightarrow> (\<exists>cells.
                 c' = Printf (tableHTML block viewInfo ?columns ?rows cells) c \<and>
                 cells ! i ! j
                   = selectedValue ''C'' @ selectedValue ''B'' @ selectedValue ''A''))"
    by (metis (no_types, lifting))
qed

section \<open>The katex check of the conversion\<close>

text \<open>
  C8. When typesetting is requested, directly or through the compatibility mode, and
  there is no binary at the configured path and none on the search path, \<open>ToHTML\<close>
  returns the configuration error and no bytes, and the converter is as before but for
  the typesetting flag: nothing was pushed or written. When typesetting is not requested
  \<open>ToHTML\<close> is the rendering of the root alone, and never returns an error.
\<close>

theorem ToHTML_katex_check:
  "((NotionCompat c \<or> UseKatexToRenderEquation c) \<and>
    \<not> (KatexPath c \<noteq> [] \<and> Stat env (KatexPath c)) \<and> LookPath env ''katex'' = None
    \<longrightarrow> ToHTML env c =
          Returns (Inl (if KatexPath c \<noteq> [] then KatexPathDoesNotExist (KatexPath c)
                        else KatexNotLocated),
                   c\<lparr>UseKatexToRenderEquation := True\<rparr>)) \<and>
   (\<not> NotionCompat c \<and> \<not> UseKatexToRenderEquation c
    \<longrightarrow> ToHTML env c =
          andThen (RenderBlock env (RootParents env) (Root env) (PushNewBuffer c)) (\<lambda>c.
            andThen (PopBuffer c) (\<lambda>(buf, c). Returns (Inr buf, c))) \<and>
        (\<forall>err c'. ToHTML env c \<noteq> Returns (Inl err, c')))"
  by (auto simp: ToHTML_def detectKatex_def Let_def andThen_def
        split: outcome.splits option.splits prod.splits)

theorem ToHTML_katex_check_witness:
  "ToHTML (exampleEnv None) (NewConverter\<lparr>UseKatexToRenderEquation := True\<rparr>)
     = Returns (Inl KatexNotLocated, NewConverter\<lparr>UseKatexToRenderEquation := True\<rparr>) \<and>
   ToHTML (exampleEnv None) (NewConverter\<lparr>NotionCompat := True, KatexPath := ''/opt/katex''\<rparr>)
     = Returns (Inl (KatexPathDoesNotExist ''/opt/katex''),
                NewConverter\<lparr>NotionCompat := True, KatexPath := ''/opt/katex'',
                  UseKatexToRenderEquation := True\<rparr>) \<and>
   ToHTML (exampleEnv None) NewConverter = Returns (Inr [], NewConverter)"
  using ToHTML_katex_check [of "NewConverter\<lparr>UseKatexToRenderEquation := True\<rparr>" "exampleEnv None"]
    ToHTML_katex_check [of "NewConverter\<lparr>NotionCompat := True, KatexPath := ''/opt/katex''\<rparr>"
      "exampleEnv None"]
    ToHTML_katex_check [of NewConverter "exampleEnv None"]
  by (simp add: NewConverter_def exampleEnv_def PushNewBuffer_def PopBuffer_def andThen_def)

section \<open>What a rendering step may change\<close>

lemma keeps_refl: "keeps a l c c"
  by (simp add: keeps_def)

lemma keeps_trans: "keeps a l c1 c2 \<Longrightarrow> keeps a l c2 c3 \<Longrightarrow> keeps a l c1 c3"
  by (auto simp: keeps_def)

lemma keeps_Printf: "keeps a l c c' \<Longrightarrow> keeps a l c (Printf s c')"
  by (auto simp: keeps_def Printf_def)

lemma keeps_RenderInlines: "keeps a l c c' \<Longrightarrow> keeps a l c (RenderInlines env spans c')"
  by (simp add: RenderInlines_Printf keeps_Printf)

lemma keeps_A: "keeps a l c c' \<Longrightarrow> keeps a l c (A uri text cls c')"
  by (simp add: A_def Let_def keeps_Printf)

lemma keeps_didImportKatexCSS:
  "keeps a l c c' \<Longrightarrow> keeps a l c (c'\<lparr>didImportKatexCSS := k\<rparr>)"
  by (auto simp: keeps_def)

lemma keeps_ListNo: "keeps a False c c' \<Longrightarrow> keeps a False c (c'\<lparr>ListNo := n\<rparr>)"
  by (auto simp: keeps_def)

lemmas keeps_intros =
  keeps_refl keeps_Printf keeps_RenderInlines keeps_A keeps_didImportKatexCSS

lemma RenderCode_keeps: "keeps a l c0 c \<Longrightarrow> keeps a l c0 (RenderCode block c)"
  by (auto simp: RenderCode_def Let_def  intro!: keeps_intros)

lemma renderLinkToPage_keeps: "keeps a l c0 c \<Longrightarrow> keeps a l c0 (renderLinkToPage parents block c)"
  by (auto simp: renderLinkToPage_def Let_def split: prod.splits intro!: keeps_intros)

lemma renderSubPage_keeps: "keeps a l c0 c \<Longrightarrow> keeps a l c0 (renderSubPage parents block c)"
  by (auto simp: renderSubPage_def Let_def  intro!: keeps_intros renderLinkToPage_keeps)

lemma RenderEquation_keeps: "keeps a l c0 c \<Longrightarrow> keeps a l c0 (RenderEquation env block c)"
  by (auto simp: RenderEquation_def Let_def split: sum.splits intro!: keeps_intros)

lemma RenderHeaderLevel_keeps: "keeps a l c0 c \<Longrightarrow> keeps a l c0 (RenderHeaderLevel env block level c)"
  by (auto simp: RenderHeaderLevel_def Let_def  intro!: keeps_intros)

lemma RenderHeader_keeps: "keeps a l c0 c \<Longrightarrow> keeps a l c0 (RenderHeader env block c)"
  by (auto simp: RenderHeader_def Let_def  intro!: keeps_intros RenderHeaderLevel_keeps)

lemma RenderSubHeader_keeps: "keeps a l c0 c \<Longrightarrow> keeps a l c0 (RenderSubHeader env block c)"
  by (auto simp: RenderSubHeader_def Let_def  intro!: keeps_intros RenderHeaderLevel_keeps)

lemma RenderSubSubHeader_keeps: "keeps a l c0 c \<Longrightarrow> keeps a l c0 (RenderSubSubHeader env block c)"
  by (auto simp: RenderSubSubHeader_def Let_def  intro!: keeps_intros RenderHeaderLevel_keeps)

lemma RenderCallout_keeps: "keeps a l c0 c \<Longrightarrow> keeps a l c0 (RenderCallout env block c)"
  by (auto simp: RenderCallout_def Let_def  intro!: keeps_intros)

lemma RenderDivider_keeps: "keeps a l c0 c \<Longrightarrow> keeps a l c0 (RenderDivider block c)"
  by (auto simp: RenderDivider_def Let_def  intro!: keeps_intros)

lemma RenderCaption_keeps: "keeps a l c0 c \<Longrightarrow> keeps a l c0 (RenderCaption env block c)"
  by (auto simp: RenderCaption_def Let_def split: option.splits intro!: keeps_intros)

lemma RenderBookmark_keeps: "keeps a l c0 c \<Longrightarrow> keeps a l c0 (RenderBookmark env block c)"
  by (auto simp: RenderBookmark_def Let_def  intro!: keeps_intros RenderCaption_keeps)

lemma RenderAudio_keeps: "keeps a l c0 c \<Longrightarrow> keeps a l c0 (RenderAudio env parents block c)"
  by (auto simp: RenderAudio_def Let_def  intro!: keeps_intros RenderCaption_keeps)

lemma RenderVideo_keeps: "keeps a l c0 c \<Longrightarrow> keeps a l c0 (RenderVideo env parents block c)"
  by (auto simp: RenderVideo_def Let_def  intro!: keeps_intros RenderCaption_keeps)

lemma renderEmbed_keeps: "keeps a l c0 c \<Longrightarrow> keeps a l c0 (renderEmbed env block c)"
  by (auto simp: renderEmbed_def Let_def  intro!: keeps_intros RenderCaption_keeps)

lemma RenderTweet_keeps: "keeps a l c0 c \<Longrightarrow> keeps a l c0 (RenderTweet env block c)"
  by (auto simp: RenderTweet_def Let_def  intro!: keeps_intros renderEmbed_keeps)

lemma RenderGist_keeps: "keeps a l c0 c \<Longrightarrow> keeps a l c0 (RenderGist env block c)"
  by (auto simp: RenderGist_def Let_def  intro!: keeps_intros renderEmbed_keeps)

lemma RenderCodepen_keeps: "keeps a l c0 c \<Longrightarrow> keeps a l c0 (RenderCodepen env block c)"
  by (auto simp: RenderCodepen_def Let_def  intro!: keeps_intros renderEmbed_keeps)

lemma RenderMaps_keeps: "keeps a l c0 c \<Longrightarrow> keeps a l c0 (RenderMaps env block c)"
  by (auto simp: RenderMaps_def Let_def  intro!: keeps_intros renderEmbed_keeps)

lemma RenderEmbed_keeps: "keeps a l c0 c \<Longrightarrow> keeps a l c0 (RenderEmbed env parents block c)"
  by (auto simp: RenderEmbed_def Let_def  intro!: keeps_intros RenderCaption_keeps)

lemma RenderFigma_keeps: "keeps a l c0 c \<Longrightarrow> keeps a l c0 (RenderFigma env block c)"
  by (auto simp: RenderFigma_def Let_def  intro!: keeps_intros RenderCaption_keeps)

lemma RenderFile_keeps: "keeps a l c0 c \<Longrightarrow> keeps a l c0 (RenderFile env parents block c)"
  by (auto simp: RenderFile_def Let_def  intro!: keeps_intros RenderCaption_keeps)

lemma RenderDrive_keeps: "keeps a l c0 c \<Longrightarrow> keeps a l c0 (RenderDrive env block c)"
  by (auto simp: RenderDrive_def Let_def  intro!: keeps_intros RenderCaption_keeps)

lemma RenderPDF_keeps: "keeps a l c0 c \<Longrightarrow> keeps a l c0 (RenderPDF env parents block c)"
  by (auto simp: RenderPDF_def Let_def  intro!: keeps_intros RenderCaption_keeps)

lemma RenderImage_keeps: "keeps a l c0 c \<Longrightarrow> keeps a l c0 (RenderImage env parents block c)"
  by (auto simp: RenderImage_def Let_def  intro!: keeps_intros RenderCaption_keeps)

lemma RenderNYI_keeps: "keeps a l c0 c \<Longrightarrow> keeps a l c0 (RenderNYI env block c)"
  by (auto simp: RenderNYI_def Let_def  intro!: keeps_intros)

lemma RenderBreadcrumb_keeps: "keeps a l c0 c \<Longrightarrow> keeps a l c0 (RenderBreadcrumb env block c)"
  by (auto simp: RenderBreadcrumb_def Let_def  intro!: keeps_intros RenderNYI_keeps)

lemma maybePanic_Returns: "maybePanic env = Returns u \<Longrightarrow> u = ()"
  by simp

lemma renderHeader_keeps:
  "renderHeader env parents block c = Returns c' \<Longrightarrow> keeps a l c0 c \<Longrightarrow> keeps a l c0 c'"
  by (auto simp: renderHeader_def Let_def andThen_def
        split: outcome.splits option.splits if_splits intro!: keeps_intros)

lemma RenderCollectionViewPage_keeps:
  "RenderCollectionViewPage env block c = Returns c' \<Longrightarrow> keeps a l c c'"
  by (auto simp: RenderCollectionViewPage_def Let_def andThen_def
        split: outcome.splits option.splits intro!: keeps_intros)

lemma RenderTableOfContentsLoop_keeps:
  "RenderTableOfContentsLoop env blocks idxs indent c = Returns c' \<Longrightarrow>
   keeps a l c0 c \<Longrightarrow> keeps a l c0 c'"
proof (induction idxs arbitrary: indent c)
  case Nil
  then show ?case by simp
next
  case (Cons i idxs)
  from Cons.prems show ?case
    by (auto simp: Let_def andThen_def GetInlineContent_Returns
          elim!: Cons.IH intro!: keeps_intros)
qed

lemma RenderTableOfContents_keeps:
  "RenderTableOfContents env block c = Returns c' \<Longrightarrow> keeps a l c c'"
  by (auto simp: RenderTableOfContents_def Let_def andThen_def
        split: outcome.splits option.splits
        intro!: keeps_intros elim!: RenderTableOfContentsLoop_keeps)

lemma RenderCollectionViewCells_keeps:
  "RenderCollectionViewCells env parents viewInfo row columns c = Returns c' \<Longrightarrow>
   keeps a l c0 c \<Longrightarrow> keeps a l c0 c'"
proof (induction columns arbitrary: c)
  case Nil
  then show ?case by simp
next
  case (Cons col columns)
  from Cons.prems show ?case
    by (auto simp: Let_def andThen_def GetInlineContent_Returns
          split: outcome.splits option.splits
          elim!: Cons.IH intro!: keeps_intros)
qed

lemma RenderCollectionViewRows_keeps:
  "RenderCollectionViewRows env parents viewInfo columns rows c = Returns c' \<Longrightarrow>
   keeps a l c0 c \<Longrightarrow> keeps a l c0 c'"
proof (induction rows arbitrary: c)
  case Nil
  then show ?case by simp
next
  case (Cons row rows)
  from Cons.prems show ?case
    by (auto simp: Let_def andThen_def split: outcome.splits
          elim!: Cons.IH RenderCollectionViewCells_keeps
          intro!: keeps_intros)
qed

lemma keeps_foldl_Printf:
  "keeps a l c0 c \<Longrightarrow> keeps a l c0 (foldl (\<lambda>c x. Printf (f x) c) c xs)"
  by (induction xs arbitrary: c) (auto intro!: keeps_intros)

lemma RenderCollectionView_keeps:
  "RenderCollectionView env parents block c = Returns c' \<Longrightarrow> keeps a l c c'"
  by (auto simp: RenderCollectionView_def Let_def andThen_def
        split: outcome.splits option.splits if_splits
        intro!: keeps_intros keeps_foldl_Printf elim!: RenderCollectionViewRows_keeps)

lemma RenderText_keeps:
  assumes "\<And>c c'. children c = Returns c' \<Longrightarrow> keeps a l c c'"
  shows "RenderText env children block c = Returns c' \<Longrightarrow> keeps a l c c'"
  by (auto simp: RenderText_def Let_def andThen_def split: outcome.splits 
        dest!: assms elim!: keeps_trans [rotated] intro!: keeps_intros)

lemma RenderBulletedList_keeps:
  assumes "\<And>c c'. children c = Returns c' \<Longrightarrow> keeps a l c c'"
  shows "RenderBulletedList env children block c = Returns c' \<Longrightarrow> keeps a l c c'"
  by (auto simp: RenderBulletedList_def Let_def andThen_def split: outcome.splits 
        dest!: assms elim!: keeps_trans [rotated] intro!: keeps_intros)

lemma RenderTodo_keeps:
  assumes "\<And>c c'. children c = Returns c' \<Longrightarrow> keeps a l c c'"
  shows "RenderTodo env children block c = Returns c' \<Longrightarrow> keeps a l c c'"
  by (auto simp: RenderTodo_def Let_def andThen_def split: outcome.splits 
        dest!: assms elim!: keeps_trans [rotated] intro!: keeps_intros)

lemma RenderToggle_keeps:
  assumes "\<And>c c'. children c = Returns c' \<Longrightarrow> keeps a l c c'"
  shows "RenderToggle env children block c = Returns c' \<Longrightarrow> keeps a l c c'"
  by (auto simp: RenderToggle_def Let_def andThen_def split: outcome.splits 
        dest!: assms elim!: keeps_trans [rotated] intro!: keeps_intros)

lemma RenderQuote_keeps:
  assumes "\<And>c c'. children c = Returns c' \<Longrightarrow> keeps a l c c'"
  shows "RenderQuote env children block c = Returns c' \<Longrightarrow> keeps a l c c'"
  by (auto simp: RenderQuote_def Let_def andThen_def split: outcome.splits 
        dest!: assms elim!: keeps_trans [rotated] intro!: keeps_intros)

lemma RenderColumn_keeps:
  assumes "\<And>c c'. children c = Returns c' \<Longrightarrow> keeps a l c c'"
  shows "RenderColumn env children block c = Returns c' \<Longrightarrow> keeps a l c c'"
  by (auto simp: RenderColumn_def Let_def andThen_def split: outcome.splits  option.splits
        dest!: assms elim!: keeps_trans [rotated] intro!: keeps_intros)

lemma RenderNumberedList_keeps:
  assumes "\<And>c c'. children c = Returns c' \<Longrightarrow> keeps a False c c'"
  shows "RenderNumberedList env children block c = Returns c' \<Longrightarrow> keeps a False c c'"
  by (auto simp: RenderNumberedList_def Let_def andThen_def split: outcome.splits
        dest!: assms elim!: keeps_trans [rotated] intro!: keeps_intros keeps_ListNo)

lemma RenderColumnList_keeps:
  assumes "\<And>c c'. children c = Returns c' \<Longrightarrow> keeps a l c c'"
  shows "RenderColumnList env children block c = Returns c' \<Longrightarrow> keeps a l c c'"
  by (auto simp: RenderColumnList_def Let_def andThen_def maybePanic_def
        split: outcome.splits if_splits
        dest!: assms elim!: keeps_trans [rotated] intro!: keeps_intros)

lemma FullHTML_Printf: "FullHTML (Printf s c) = FullHTML c"
  by (simp add: Printf_def)

lemma renderRootPage_keeps:
  assumes "\<And>c c'. children c = Returns c' \<Longrightarrow> keeps a l c c'"
  shows "renderRootPage env parents children block c = Returns c' \<Longrightarrow> keeps a l c c'"
  by (auto simp: renderRootPage_def Let_def andThen_def FullHTML_Printf
        split: outcome.splits if_splits
        dest!: assms elim!: keeps_trans [rotated] renderHeader_keeps intro!: keeps_intros)

lemma RenderPage_keeps:
  assumes "\<And>c c'. children c = Returns c' \<Longrightarrow> keeps a l c c'"
  shows "RenderPage env parents children block c = Returns c' \<Longrightarrow> keeps a l c c'"
  using renderRootPage_keeps [of children a l env parents block c c', OF assms]
  by (auto simp: RenderPage_def split: if_splits
        intro!: keeps_intros renderSubPage_keeps renderLinkToPage_keeps)

lemma DefaultRenderFunc_keeps:
  assumes "\<And>c c'. children c = Returns c' \<Longrightarrow> keeps a l c c'"
    and "l \<longrightarrow> t \<noteq> BlockNumberedList"
    and "DefaultRenderFunc env parents children t = Returns (Some def)"
    and "def block c = Returns c'"
  shows "keeps a l c c'"
proof (cases t)
  case BlockNumberedList
  with assms(2) have l: "l = False" by simp
  from assms(1) have "\<And>c c'. children c = Returns c' \<Longrightarrow> keeps a False c c'"
    by (simp add: l)
  from RenderNumberedList_keeps [of children a, OF this] assms(3,4) BlockNumberedList
  show ?thesis by (auto simp: DefaultRenderFunc_def l)
next
  case BlockPage
  with assms(3,4) RenderPage_keeps [of children a l, OF assms(1)] show ?thesis
    by (auto simp: DefaultRenderFunc_def)
next
  case BlockText
  with assms(3,4) RenderText_keeps [of children a l, OF assms(1)] show ?thesis
    by (auto simp: DefaultRenderFunc_def)
next
  case BlockBulletedList
  with assms(3,4) RenderBulletedList_keeps [of children a l, OF assms(1)] show ?thesis
    by (auto simp: DefaultRenderFunc_def)
next
  case BlockTodo
  with assms(3,4) RenderTodo_keeps [of children a l, OF assms(1)] show ?thesis
    by (auto simp: DefaultRenderFunc_def)
next
  case BlockToggle
  with assms(3,4) RenderToggle_keeps [of children a l, OF assms(1)] show ?thesis
    by (auto simp: DefaultRenderFunc_def)
next
  case BlockQuote
  with assms(3,4) RenderQuote_keeps [of children a l, OF assms(1)] show ?thesis
    by (auto simp: DefaultRenderFunc_def)
next
  case BlockColumnList
  with assms(3,4) RenderColumnList_keeps [of children a l, OF assms(1)] show ?thesis
    by (auto simp: DefaultRenderFunc_def)
next
  case BlockColumn
  with assms(3,4) RenderColumn_keeps [of children a l, OF assms(1)] show ?thesis
    by (auto simp: DefaultRenderFunc_def)
next
  case BlockCollectionView
  with assms(3,4) show ?thesis
    by (auto simp: DefaultRenderFunc_def elim!: RenderCollectionView_keeps)
next
  case BlockCollectionViewPage
  with assms(3,4) show ?thesis
    by (auto simp: DefaultRenderFunc_def elim!: RenderCollectionViewPage_keeps)
next
  case BlockTableOfContents
  with assms(3,4) show ?thesis
    by (auto simp: DefaultRenderFunc_def elim!: RenderTableOfContents_keeps)
next
  case (BlockOther name)
  with assms(3) show ?thesis
    by (auto simp: DefaultRenderFunc_def andThen_def split: outcome.splits)
qed (use assms(3,4) in \<open>auto simp: DefaultRenderFunc_def
       intro!: keeps_refl RenderEquation_keeps RenderHeader_keeps RenderSubHeader_keeps
         RenderSubSubHeader_keeps RenderDivider_keeps RenderCode_keeps RenderBookmark_keeps
         RenderImage_keeps RenderEmbed_keeps RenderGist_keeps RenderMaps_keeps
         RenderCodepen_keeps RenderTweet_keeps RenderVideo_keeps RenderAudio_keeps
         RenderFile_keeps RenderDrive_keeps RenderFigma_keeps RenderPDF_keeps
         RenderCallout_keeps RenderBreadcrumb_keeps\<close>)

lemma keeps_CurrBlockIdx_both:
  "keeps a l c c' \<Longrightarrow> keeps a l (c\<lparr>CurrBlockIdx := i\<rparr>) (c'\<lparr>CurrBlockIdx := i\<rparr>)"
  by (auto simp: keeps_def)

lemma keeps_loop_step:
  assumes "keeps a l (c\<lparr>CurrBlockIdx := i\<rparr>) c1"
    and "keeps a l c1 (c2\<lparr>CurrBlockIdx := CurrBlockIdx c1\<rparr>)"
  shows "keeps a l c (c2\<lparr>CurrBlockIdx := CurrBlockIdx c\<rparr>)"
  using assms by (auto simp: keeps_def)

lemma keeps_children_restore:
  assumes "keeps a l (c1\<lparr>CurrBlocks := bs\<rparr>) (c2\<lparr>CurrBlockIdx := CurrBlockIdx c1\<rparr>)"
  shows "keeps a l c1 (c2\<lparr>CurrBlockIdx := CurrBlockIdx c1, CurrBlocks := CurrBlocks c1\<rparr>)"
  using assms by (auto simp: keeps_def)

text \<open>
  Every path through \<open>RenderBlock\<close> stays within \<open>keeps\<close>, provided the override
  hook does and, where the list counter is to stay, the blocks rendered contain no
  numbered-list block. The loop over the children moves the current index only.
\<close>

lemma Render_keeps:
  "overrideKeeps a l env \<longrightarrow>
     (l \<longrightarrow> (case bo of None \<Rightarrow> True | Some b \<Rightarrow> \<not> hasNumberedList b)) \<longrightarrow>
     (\<forall>c'. RenderBlock env parents bo c = Returns c' \<longrightarrow> keeps a l c c')"
  "overrideKeeps a l env \<longrightarrow>
     (l \<longrightarrow> \<not> hasNumberedListIn (Content block)) \<longrightarrow>
     (\<forall>c'. RenderChildren env parents block c = Returns c' \<longrightarrow> keeps a l c c')"
  "overrideKeeps a l env \<longrightarrow>
     (l \<longrightarrow> \<not> hasNumberedListIn children) \<longrightarrow>
     (\<forall>c'. RenderChildrenLoop env parents block i children c = Returns c' \<longrightarrow>
           keeps a l c (c'\<lparr>CurrBlockIdx := CurrBlockIdx c\<rparr>))"
proof (induction env parents bo c and env parents block c and env parents block i children c
       rule: RenderBlock_RenderChildren_RenderChildrenLoop.induct)
  case (1 env parents c)
  show ?case by (simp add: keeps_refl)
next
  case (2 env parents block c)
  show ?case
  proof (intro impI allI)
    fix c'
    assume ok: "overrideKeeps a l env"
      and nl: "l \<longrightarrow> (case Some block of None \<Rightarrow> True | Some b \<Rightarrow> \<not> hasNumberedList b)"
      and r: "RenderBlock env parents (Some block) c = Returns c'"
    from nl have t: "l \<longrightarrow> Type block \<noteq> BlockNumberedList"
      and nc: "l \<longrightarrow> \<not> hasNumberedListIn (Content block)"
      by (auto simp: hasNumberedList.simps)
    have kids: "\<And>x x'. RenderChildren env parents block x = Returns x' \<Longrightarrow> keeps a l x x'"
      using "2.IH" [of False] ok nc by blast
    from r obtain handled c1 where
      h: "(case RenderBlockOverride env of None \<Rightarrow> Returns (False, c)
           | Some override \<Rightarrow> override parents block c) = Returns (handled, c1)"
      and rest: "(if handled then Returns c1
                  else andThen (DefaultRenderFunc env parents
                                  (\<lambda>c. RenderChildren env parents block c) (Type block))
                         (\<lambda>def. case def of None \<Rightarrow> Returns c1 | Some def \<Rightarrow> def block c1))
                 = Returns c'"
      by (auto simp: RenderBlock.simps(2) andThen_def split: outcome.splits prod.splits)
    have k1: "keeps a l c c1"
      using h ok by (auto simp: overrideKeeps_def keeps_refl split: option.splits)
    have k2: "keeps a l c1 c'"
    proof (cases handled)
      case True
      with rest show ?thesis by (simp add: keeps_refl)
    next
      case False
      with rest obtain def where
        d: "DefaultRenderFunc env parents (\<lambda>c. RenderChildren env parents block c) (Type block)
              = Returns def"
        and dr: "(case def of None \<Rightarrow> Returns c1 | Some def \<Rightarrow> def block c1) = Returns c'"
        by (auto simp: andThen_def split: outcome.splits)
      show ?thesis
      proof (cases def)
        case None
        with dr show ?thesis by (simp add: keeps_refl)
      next
        case (Some f)
        with dr have "f block c1 = Returns c'" by simp
        from DefaultRenderFunc_keeps [OF kids t d [unfolded Some] this]
        show ?thesis .
      qed
    qed
    from keeps_trans [OF k1 k2] show "keeps a l c c'" .
  qed
next
  case (3 env parents block c)
  show ?case
  proof (intro impI allI)
    fix c'
    assume ok: "overrideKeeps a l env"
      and nl: "l \<longrightarrow> \<not> hasNumberedListIn (Content block)"
      and r: "RenderChildren env parents block c = Returns c'"
    show "keeps a l c c'"
    proof (cases "length (Content block) = 0")
      case True
      with r show ?thesis by (simp add: RenderChildren.simps keeps_refl)
    next
      case False
      define c1 where "c1 = (if needsIndent block then Printf ''<div class=\"indented\">'' c else c)"
      have k1: "keeps a l c c1" by (simp add: c1_def keeps_refl keeps_Printf)
      from r False obtain c2 where
        loop: "RenderChildrenLoop env parents block 0 (Content block)
                 (c1\<lparr>CurrBlocks := Content block\<rparr>) = Returns c2"
        and c': "c' = (let c3 = c2\<lparr>CurrBlockIdx := CurrBlockIdx c1, CurrBlocks := CurrBlocks c1\<rparr>
                       in if needsIndent block then Printf ''</div>'' c3 else c3)"
        by (auto simp: RenderChildren.simps Let_def andThen_def c1_def split: outcome.splits)
      have "keeps a l (c1\<lparr>CurrBlocks := Content block\<rparr>)
              (c2\<lparr>CurrBlockIdx := CurrBlockIdx (c1\<lparr>CurrBlocks := Content block\<rparr>)\<rparr>)"
        using "3.IH" [OF False refl refl refl refl refl] ok nl loop
        by (simp add: c1_def)
      then have "keeps a l c1 (c2\<lparr>CurrBlockIdx := CurrBlockIdx c1, CurrBlocks := CurrBlocks c1\<rparr>)"
        by (intro keeps_children_restore) simp
      from keeps_trans [OF k1 this] show ?thesis
        unfolding c' Let_def by (auto intro!: keeps_Printf)
    qed
  qed
next
  case (4 env parents block i c)
  show ?case by (simp add: keeps_refl)
next
  case (5 env parents block i rest c)
  show ?case by simp
next
  case (6 env parents block i child rest c)
  show ?case
  proof (intro impI allI)
    fix c'
    assume ok: "overrideKeeps a l env"
      and nl: "l \<longrightarrow> \<not> hasNumberedListIn (Some child # rest)"
      and r: "RenderChildrenLoop env parents block i (Some child # rest) c = Returns c'"
    from r obtain c1 where
      b: "RenderBlock env (block # parents) (Some child) (c\<lparr>CurrBlockIdx := i\<rparr>) = Returns c1"
      and l2: "RenderChildrenLoop env parents block (i + 1) rest c1 = Returns c'"
      by (auto simp: andThen_def split: outcome.splits)
    have k1: "keeps a l (c\<lparr>CurrBlockIdx := i\<rparr>) c1"
      using "6.IH"(1) ok nl b by simp
    have k2: "keeps a l c1 (c'\<lparr>CurrBlockIdx := CurrBlockIdx c1\<rparr>)"
      using "6.IH"(2) [of c1] ok nl l2 by simp
    from keeps_loop_step [OF k1 k2]
    show "keeps a l c (c'\<lparr>CurrBlockIdx := CurrBlockIdx c\<rparr>)" .
  qed
qed


section \<open>Children are rendered in order, within their own sibling sequence\<close>

lemma RenderChildrenLoop_append:
  "RenderChildrenLoop env parents block i (xs @ ys) c =
     andThen (RenderChildrenLoop env parents block i xs c)
       (RenderChildrenLoop env parents block (i + int (length xs)) ys)"
proof (induction xs arbitrary: i c)
  case Nil
  show ?case by (simp add: andThen_def)
next
  case (Cons x xs)
  show ?case
  proof (cases x)
    case None
    then show ?thesis by (simp add: andThen_def)
  next
    case (Some child)
    have "i + 1 + int (length xs) = i + int (length (x # xs))" by simp
    with Cons.IH [of "i + 1"] Some show ?thesis
      by (simp add: andThen_def add.assoc split: outcome.splits)
  qed
qed


lemma RenderChildrenLoop_chain:
  assumes ok: "overrideKeeps False False env"
    and r: "RenderChildrenLoop env parents block i kids c = Returns c'"
  shows "\<exists>sts. length sts = length kids + 1 \<and> sts ! 0 = c \<and> sts ! length kids = c' \<and>
           (\<forall>j<length kids. \<exists>child.
              kids ! j = Some child \<and> CurrBlocks (sts ! j) = CurrBlocks c \<and>
              RenderBlock env (block # parents) (Some child)
                ((sts ! j)\<lparr>CurrBlockIdx := i + int j\<rparr>) = Returns (sts ! Suc j))"
  using r
proof (induction kids arbitrary: i c)
  case Nil
  then have "c' = c" by simp
  then show ?case by (intro exI [of _ "[c]"]) simp
next
  case (Cons k kids)
  from Cons.prems obtain child where k: "k = Some child"
    by (cases k) auto
  from Cons.prems k obtain c1 where
    b: "RenderBlock env (block # parents) (Some child) (c\<lparr>CurrBlockIdx := i\<rparr>) = Returns c1"
    and l: "RenderChildrenLoop env parents block (i + 1) kids c1 = Returns c'"
    by (auto simp: andThen_def split: outcome.splits)
  from Render_keeps(1) [of False False env "Some child" "block # parents"] ok b
  have same: "CurrBlocks c1 = CurrBlocks c" by (simp add: keeps_def)
  from Cons.IH [OF l] obtain sts where
    len: "length sts = length kids + 1" and first: "sts ! 0 = c1"
    and last: "sts ! length kids = c'"
    and step: "\<And>j. j < length kids \<Longrightarrow> \<exists>child.
              kids ! j = Some child \<and> CurrBlocks (sts ! j) = CurrBlocks c1 \<and>
              RenderBlock env (block # parents) (Some child)
                ((sts ! j)\<lparr>CurrBlockIdx := i + 1 + int j\<rparr>) = Returns (sts ! Suc j)"
    by blast
  have "\<exists>child'. (k # kids) ! j = Some child' \<and> CurrBlocks ((c # sts) ! j) = CurrBlocks c \<and>
          RenderBlock env (block # parents) (Some child')
            (((c # sts) ! j)\<lparr>CurrBlockIdx := i + int j\<rparr>) = Returns ((c # sts) ! Suc j)"
    if j: "j < length (k # kids)" for j
  proof (cases j)
    case 0
    with k b first show ?thesis by simp
  next
    case (Suc j')
    with j have "j' < length kids" by simp
    from step [OF this] obtain child' where
      "kids ! j' = Some child'" "CurrBlocks (sts ! j') = CurrBlocks c1"
      "RenderBlock env (block # parents) (Some child')
         ((sts ! j')\<lparr>CurrBlockIdx := i + 1 + int j'\<rparr>) = Returns (sts ! Suc j')"
      by blast
    moreover have "i + 1 + int j' = i + int j" by (simp add: Suc)
    ultimately show ?thesis using same by (simp add: Suc)
  qed
  with len last show ?case
    by (intro exI [of _ "c # sts"]) simp
qed

lemma RenderChildrenLoop_chain_conv:
  assumes "length sts = length kids + 1"
    and "\<forall>j<length kids. \<exists>child.
           kids ! j = Some child \<and>
           RenderBlock env (block # parents) (Some child)
             ((sts ! j)\<lparr>CurrBlockIdx := i + int j\<rparr>) = Returns (sts ! Suc j)"
  shows "RenderChildrenLoop env parents block i kids (sts ! 0) = Returns (sts ! length kids)"
  using assms
proof (induction kids arbitrary: i sts)
  case Nil
  then show ?case by simp
next
  case (Cons k kids)
  from Cons.prems(1) obtain c0 rest where sts: "sts = c0 # rest" and len: "length rest = length kids + 1"
    by (cases sts) auto
  from Cons.prems(2) [rule_format, of 0] sts obtain child where
    k: "k = Some child"
    and b: "RenderBlock env (block # parents) (Some child) (c0\<lparr>CurrBlockIdx := i\<rparr>)
              = Returns (rest ! 0)"
    by auto
  have "\<exists>child. kids ! j = Some child \<and>
          RenderBlock env (block # parents) (Some child)
            ((rest ! j)\<lparr>CurrBlockIdx := i + 1 + int j\<rparr>) = Returns (rest ! Suc j)"
    if j: "j < length kids" for j
  proof -
    have "i + int (Suc j) = i + 1 + int j" by simp
    with Cons.prems(2) [rule_format, of "Suc j"] j sts show ?thesis by (simp add: add.assoc)
  qed
  then have "RenderChildrenLoop env parents block (i + 1) kids (rest ! 0)
               = Returns (rest ! length kids)"
    using Cons.IH [OF len, of "i + 1"] by blast
  with k b sts show ?case by (simp add: andThen_def)
qed

lemma Converter_restore:
  "c\<lparr>CurrBlocks := bs, CurrBlockIdx := CurrBlockIdx c, CurrBlocks := CurrBlocks c\<rparr> = c"
  by (cases c) simp


text \<open>
  C9. When \<open>RenderChildren\<close> returns, the active sibling sequence and the current
  index are what they were before the call. In between it makes the children of the
  block the active sibling sequence and renders them from the first to the last: the
  converter goes through the states \<open>sts\<close>, one before each child and one after the
  last; child \<open>i\<close> is rendered by \<open>RenderBlock\<close> from the state before it with the
  current index set to \<open>i\<close>, the active sibling sequence being the children of the
  block, and leaves the state before child \<open>i + 1\<close>. \<open>RenderChildren\<close> returns
  exactly when every child in turn does, and never with a nil child. The override hook,
  if any, is taken to leave the sibling sequence and the index alone.
\<close>

theorem RenderChildren_restores_siblings:
  "(RenderChildren env parents block c = Returns c' \<longrightarrow>
      CurrBlocks c' = CurrBlocks c \<and> CurrBlockIdx c' = CurrBlockIdx c) \<and>
   (overrideKeeps False False env \<longrightarrow>
      (RenderChildren env parents block c = Returns c') =
      (\<exists>sts.
         length sts = length (Content block) + 1 \<and>
         sts ! 0 = (Printf (indentOpen block) c)\<lparr>CurrBlocks := Content block\<rparr> \<and>
         (\<forall>i<length (Content block). \<exists>child.
            Content block ! i = Some child \<and>
            CurrBlocks (sts ! i) = Content block \<and>
            RenderBlock env (block # parents) (Some child) ((sts ! i)\<lparr>CurrBlockIdx := int i\<rparr>)
              = Returns (sts ! Suc i) \<and>
            CurrBlocks (sts ! Suc i) = Content block \<and> CurrBlockIdx (sts ! Suc i) = int i) \<and>
         c' = Printf (indentClose block)
                ((sts ! length (Content block))
                   \<lparr>CurrBlockIdx := CurrBlockIdx c, CurrBlocks := CurrBlocks c\<rparr>)))"
proof -
  let ?c1 = "(Printf (indentOpen block) c)\<lparr>CurrBlocks := Content block\<rparr>"
  let ?chain = "\<lambda>sts.
         length sts = length (Content block) + 1 \<and>
         sts ! 0 = ?c1 \<and>
         (\<forall>i<length (Content block). \<exists>child.
            Content block ! i = Some child \<and>
            CurrBlocks (sts ! i) = Content block \<and>
            RenderBlock env (block # parents) (Some child) ((sts ! i)\<lparr>CurrBlockIdx := int i\<rparr>)
              = Returns (sts ! Suc i) \<and>
            CurrBlocks (sts ! Suc i) = Content block \<and> CurrBlockIdx (sts ! Suc i) = int i) \<and>
         c' = Printf (indentClose block)
                ((sts ! length (Content block))
                   \<lparr>CurrBlockIdx := CurrBlockIdx c, CurrBlocks := CurrBlocks c\<rparr>)"
  have c1: "(if needsIndent block then Printf ''<div class=\"indented\">'' c else c)
              \<lparr>CurrBlocks := Content block\<rparr> = ?c1"
    by (simp add: indentOpen_def Printf_def)
  have unfold: "RenderChildren env parents block c =
                  andThen (RenderChildrenLoop env parents block 0 (Content block) ?c1)
                    (\<lambda>c2. Returns (Printf (indentClose block)
                       (c2\<lparr>CurrBlockIdx := CurrBlockIdx c, CurrBlocks := CurrBlocks c\<rparr>)))"
    if ne: "length (Content block) \<noteq> 0"
    unfolding c1 [symmetric] using ne
    by (auto simp: RenderChildren.simps Let_def andThen_def indentClose_def Printf_def
          split: outcome.splits)
  have restore: "CurrBlocks c' = CurrBlocks c \<and> CurrBlockIdx c' = CurrBlockIdx c"
    if r: "RenderChildren env parents block c = Returns c'"
    using r
    by (auto simp: RenderChildren.simps Let_def andThen_def Printf_def
          split: if_splits outcome.splits)
  have order: "\<exists>sts. ?chain sts"
    if ok: "overrideKeeps False False env"
      and r: "RenderChildren env parents block c = Returns c'"
  proof (cases "length (Content block) = 0")
    case True
    then have n: "\<not> needsIndent block" by (simp add: needsIndent_def)
    from True r have "c' = c" by (simp add: RenderChildren.simps)
    with True n show ?thesis
      by (intro exI [of _ "[c\<lparr>CurrBlocks := Content block\<rparr>]"])
        (simp add: indentOpen_def indentClose_def Printf_def Converter_restore)
  next
    case False
    from r unfold [OF False] obtain c2 where
      loop: "RenderChildrenLoop env parents block 0 (Content block) ?c1 = Returns c2"
      and c': "c' = Printf (indentClose block)
                      (c2\<lparr>CurrBlockIdx := CurrBlockIdx c, CurrBlocks := CurrBlocks c\<rparr>)"
      by (auto simp: andThen_def split: outcome.splits)
    from RenderChildrenLoop_chain [OF ok loop] obtain sts where
      len: "length sts = length (Content block) + 1" and first: "sts ! 0 = ?c1"
      and last: "sts ! length (Content block) = c2"
      and step: "\<And>j. j < length (Content block) \<Longrightarrow> \<exists>child.
              Content block ! j = Some child \<and> CurrBlocks (sts ! j) = CurrBlocks ?c1 \<and>
              RenderBlock env (block # parents) (Some child)
                ((sts ! j)\<lparr>CurrBlockIdx := 0 + int j\<rparr>) = Returns (sts ! Suc j)"
      by blast
    have "\<exists>child.
            Content block ! i = Some child \<and>
            CurrBlocks (sts ! i) = Content block \<and>
            RenderBlock env (block # parents) (Some child) ((sts ! i)\<lparr>CurrBlockIdx := int i\<rparr>)
              = Returns (sts ! Suc i) \<and>
            CurrBlocks (sts ! Suc i) = Content block \<and> CurrBlockIdx (sts ! Suc i) = int i"
      if i: "i < length (Content block)" for i
    proof -
      from step [OF i] obtain child where
        ch: "Content block ! i = Some child" and cb: "CurrBlocks (sts ! i) = Content block"
        and b: "RenderBlock env (block # parents) (Some child)
                  ((sts ! i)\<lparr>CurrBlockIdx := int i\<rparr>) = Returns (sts ! Suc i)"
        by auto
      from Render_keeps(1) [of False False env "Some child" "block # parents"] ok b cb
      have "CurrBlocks (sts ! Suc i) = Content block" "CurrBlockIdx (sts ! Suc i) = int i"
        by (auto simp: keeps_def)
      with ch cb b show ?thesis by blast
    qed
    with len first last c' show ?thesis by blast
  qed
  have converse: "RenderChildren env parents block c = Returns c'" if ch: "?chain sts" for sts
  proof (cases "length (Content block) = 0")
    case True
    then have n: "\<not> needsIndent block" by (simp add: needsIndent_def)
    from ch True n have "c' = c"
      by (simp add: indentOpen_def indentClose_def Printf_def Converter_restore)
    with True show ?thesis by (simp add: RenderChildren.simps)
  next
    case False
    from ch have len: "length sts = length (Content block) + 1" and first: "sts ! 0 = ?c1"
      and c': "c' = Printf (indentClose block)
                ((sts ! length (Content block))
                   \<lparr>CurrBlockIdx := CurrBlockIdx c, CurrBlocks := CurrBlocks c\<rparr>)"
      by blast+
    from ch have "\<forall>j<length (Content block). \<exists>child.
           Content block ! j = Some child \<and>
           RenderBlock env (block # parents) (Some child)
             ((sts ! j)\<lparr>CurrBlockIdx := 0 + int j\<rparr>) = Returns (sts ! Suc j)"
      by auto
    from RenderChildrenLoop_chain_conv [OF len this] first
    have "RenderChildrenLoop env parents block 0 (Content block) ?c1
            = Returns (sts ! length (Content block))"
      by simp
    with c' show ?thesis by (simp add: unfold [OF False] andThen_def)
  qed
  from restore order converse show ?thesis by blast
qed

section \<open>Ordinals of numbered lists\<close>





lemma overrideKeeps_None: "RenderBlockOverride env = None \<Longrightarrow> overrideKeeps a l env"
  by (simp add: overrideKeeps_def)


lemma wrapInt_max: "wrapInt (9223372036854775807 + 1) = - 9223372036854775808"
  by (simp add: wrapInt_def)


lemma siblingOrdinal_pos: "0 < siblingOrdinal bs i"
  by (cases i) simp_all












section \<open>Equations when katex fails\<close>

lemma equationToHTML_fails:
  "(\<forall>html. RunKatex env path s \<noteq> Exits html) \<Longrightarrow> \<exists>err. equationToHTML env path s = Inl err"
  by (cases "RunKatex env path s") (simp_all add: equationToHTML_def)

lemma UseKatexToRenderEquation_set:
  "UseKatexToRenderEquation c \<Longrightarrow> c\<lparr>UseKatexToRenderEquation := True\<rparr> = c"
  by (cases c) simp

lemma RenderEquation_raw:
  assumes "UseKatexToRenderEquation c \<longrightarrow>
             (\<forall>html. RunKatex env (KatexPath c) (TextSpansToString env (InlineContent block))
                       \<noteq> Exits html)"
  shows "RenderEquation env block c = Printf (rawEquation env c block) c"
proof -
  have i: "\<And>x. inlineHTML env (c\<lparr>Buf := x\<rparr>) (InlineContent block)
                = inlineHTML env c (InlineContent block)"
    by (rule inlineHTML_cong) simp
  show ?thesis
  proof (cases "UseKatexToRenderEquation c")
    case False
    then show ?thesis
      by (simp add: RenderEquation_def Let_def rawEquation_def RenderInlines_Printf Printf_def i)
  next
    case True
    with assms equationToHTML_fails
    obtain err where
      "equationToHTML env (KatexPath c) (TextSpansToString env (InlineContent block)) = Inl err"
      by blast
    with True show ?thesis
      by (simp add: RenderEquation_def Let_def rawEquation_def RenderInlines_Printf Printf_def i)
  qed
qed

text \<open>
  C7. With typesetting enabled and the katex run failing at any of its steps, an equation
  block is written as its raw inline content, exactly as with typesetting disabled, and
  \<open>RenderBlock\<close> returns. An error of \<open>ToHTML\<close> is always the error of the katex
  check, never one of the katex run. For a page whose root is an equation block the whole
  conversion returns the raw figure.
\<close>

theorem RenderEquation_falls_back:
  "(UseKatexToRenderEquation c \<and>
    (\<forall>html. RunKatex env (KatexPath c) (TextSpansToString env (InlineContent block)) \<noteq> Exits html)
    \<longrightarrow> RenderEquation env block c = Printf (rawEquation env c block) c \<and>
        RenderEquation env block (c\<lparr>UseKatexToRenderEquation := False\<rparr>)
          = Printf (rawEquation env c block) (c\<lparr>UseKatexToRenderEquation := False\<rparr>) \<and>
        (RenderBlockOverride env = None \<and> Type block = BlockEquation
         \<longrightarrow> RenderBlock env parents (Some block) c = Returns (Printf (rawEquation env c block) c))) \<and>
   (ToHTML env c = Returns (Inl err, c')
    \<longrightarrow> (NotionCompat c \<or> UseKatexToRenderEquation c) \<and>
        detectKatex env (c\<lparr>UseKatexToRenderEquation := True\<rparr>) = Inl err) \<and>
   (UseKatexToRenderEquation c \<and> detectKatex env c = Inr c1 \<and>
    Root env = Some block \<and> Type block = BlockEquation \<and> RenderBlockOverride env = None \<and>
    (\<forall>path html. RunKatex env path (TextSpansToString env (InlineContent block)) \<noteq> Exits html)
    \<longrightarrow> ToHTML env c = Returns (Inr (rawEquation env c block), c1))"
proof -
  have local: "RenderEquation env block c = Printf (rawEquation env c block) c \<and>
        RenderEquation env block (c\<lparr>UseKatexToRenderEquation := False\<rparr>)
          = Printf (rawEquation env c block) (c\<lparr>UseKatexToRenderEquation := False\<rparr>) \<and>
        (RenderBlockOverride env = None \<and> Type block = BlockEquation
         \<longrightarrow> RenderBlock env parents (Some block) c = Returns (Printf (rawEquation env c block) c))"
    if u: "UseKatexToRenderEquation c"
      and f: "\<forall>html. RunKatex env (KatexPath c) (TextSpansToString env (InlineContent block))
                       \<noteq> Exits html"
  proof -
    have e1: "RenderEquation env block c = Printf (rawEquation env c block) c"
      using f by (intro RenderEquation_raw) simp
    have "rawEquation env (c\<lparr>UseKatexToRenderEquation := False\<rparr>) block = rawEquation env c block"
      by (simp add: rawEquation_def inlineHTML_cong [of "c\<lparr>UseKatexToRenderEquation := False\<rparr>" c])
    then have e2: "RenderEquation env block (c\<lparr>UseKatexToRenderEquation := False\<rparr>)
          = Printf (rawEquation env c block) (c\<lparr>UseKatexToRenderEquation := False\<rparr>)"
      using RenderEquation_raw [of "c\<lparr>UseKatexToRenderEquation := False\<rparr>" env block] by simp
    have e3: "RenderBlock env parents (Some block) c = Returns (Printf (rawEquation env c block) c)"
      if "RenderBlockOverride env = None" "Type block = BlockEquation"
      using that e1 by (simp add: RenderBlock.simps(2) andThen_def DefaultRenderFunc_def)
    from e1 e2 e3 show ?thesis by blast
  qed
  have err: "(NotionCompat c \<or> UseKatexToRenderEquation c) \<and>
        detectKatex env (c\<lparr>UseKatexToRenderEquation := True\<rparr>) = Inl err"
    if "ToHTML env c = Returns (Inl err, c')"
    using that
    by (auto simp: ToHTML_def Let_def andThen_def UseKatexToRenderEquation_set
          split: if_splits sum.splits outcome.splits prod.splits)
  have whole: "ToHTML env c = Returns (Inr (rawEquation env c block), c1)"
    if u: "UseKatexToRenderEquation c" and d: "detectKatex env c = Inr c1"
      and root: "Root env = Some block" and t: "Type block = BlockEquation"
      and hook: "RenderBlockOverride env = None"
      and f: "\<forall>path html. RunKatex env path (TextSpansToString env (InlineContent block))
                            \<noteq> Exits html"
  proof -
    from d have c1: "c1 = c \<or> (\<exists>path. c1 = c\<lparr>KatexPath := path\<rparr>)"
      by (auto simp: detectKatex_def Let_def split: if_splits option.splits)
    let ?c2 = "PushNewBuffer c1"
    have raw: "rawEquation env ?c2 block = rawEquation env c block"
      using c1 by (auto simp: rawEquation_def PushNewBuffer_def
                     inlineHTML_cong [of "_\<lparr>bufs := _, Buf := _\<rparr>" c])
    have "RenderEquation env block ?c2 = Printf (rawEquation env ?c2 block) ?c2"
      using f by (intro RenderEquation_raw) simp
    then have "RenderBlock env (RootParents env) (Some block) ?c2
                 = Returns (Printf (rawEquation env c block) ?c2)"
      using hook t by (simp add: RenderBlock.simps(2) andThen_def DefaultRenderFunc_def raw)
    then show ?thesis
      using u d root
      by (simp add: ToHTML_def Let_def andThen_def PushNewBuffer_def PopBuffer_def Printf_def
            UseKatexToRenderEquation_set)
  qed
  from local err whole show ?thesis by blast
qed


section \<open>Concrete runs\<close>

lemma cleanAttr_numbered_list: "cleanAttr '' numbered-list'' = ''numbered-list''"
  by (simp add: cleanAttr_def TrimSpace_def isSpace_def cleanAttrLoop.simps HasPrefix_def)

lemma EscapeHTML_examples:
  "EscapeHTML ''one'' = ''one''" "EscapeHTML ''two'' = ''two''" "EscapeHTML ''three'' = ''three''"
  "EscapeHTML ''x<y'' = ''x&lt;y''"
  by (simp_all add: EscapeHTML_def htmlEscapeString_def htmlEscapeChar_def HasPrefix_def)

lemmas render_example_defs =
  RenderChildren.simps RenderBlock.simps(2) DefaultRenderFunc_def andThen_def needsIndent_def
  simpleBlock_def exampleEnv_def NewConverter_def Let_def Printf_def
  RenderNumberedList_def RenderDivider_def RenderQuote_def RenderInlines_def RenderInline_def
  IsPrevBlockOfType_def PrevBlock_def sliceAt_def getBlockColorClass_def PropAsString_def
  cleanAttr_numbered_list EscapeHTML_examples Itoa_def wrapInt_def


lemma brokenItems_run:
  \<open>RenderChildren (exampleEnv None) [] brokenItems NewConverter =
     Returns (NewConverter\<lparr>ListNo := 1, Buf := ''<ol id="n1" class="numbered-list" start="1"><li>one</li></ol><hr id="d"/><ol id="n2" class="numbered-list" start="1"><li>two</li></ol>''\<rparr>)\<close>
  by (simp add: brokenItems_def render_example_defs)

lemma exampleEnv_hooks:
  "overrideKeeps a l (exampleEnv root)" "declinesNumberedLists (exampleEnv root)"
  by (simp_all add: overrideKeeps_def declinesNumberedLists_def exampleEnv_def)



theorem RenderChildren_restores_siblings_witness:
  \<open>RenderChildren (exampleEnv None) [] brokenItems NewConverter =
     Returns (NewConverter\<lparr>ListNo := 1, Buf := ''<ol id="n1" class="numbered-list" start="1"><li>one</li></ol><hr id="d"/><ol id="n2" class="numbered-list" start="1"><li>two</li></ol>''\<rparr>) \<and>
   CurrBlocks (NewConverter\<lparr>ListNo := 1, Buf := ''<ol id="n1" class="numbered-list" start="1"><li>one</li></ol><hr id="d"/><ol id="n2" class="numbered-list" start="1"><li>two</li></ol>''\<rparr>)
     = CurrBlocks NewConverter \<and>
   CurrBlockIdx (NewConverter\<lparr>ListNo := 1, Buf := ''<ol id="n1" class="numbered-list" start="1"><li>one</li></ol><hr id="d"/><ol id="n2" class="numbered-list" start="1"><li>two</li></ol>''\<rparr>)
     = CurrBlockIdx NewConverter \<and>
   overrideKeeps False False (exampleEnv None) \<and>
   (\<exists>sts.
      length sts = 4 \<and>
      sts ! 0 = NewConverter\<lparr>CurrBlocks := Content brokenItems\<rparr> \<and>
      RenderBlock (exampleEnv None) [brokenItems]
        (Some (simpleBlock ''n1'' BlockNumberedList [\<lparr>SpanText = ''one'', Attrs = []\<rparr>] []))
        ((sts ! 0)\<lparr>CurrBlockIdx := 0\<rparr>) = Returns (sts ! 1) \<and>
      CurrBlocks (sts ! 1) = Content brokenItems \<and> CurrBlockIdx (sts ! 1) = 0 \<and>
      RenderBlock (exampleEnv None) [brokenItems] (Some (simpleBlock ''d'' BlockDivider [] []))
        ((sts ! 1)\<lparr>CurrBlockIdx := 1\<rparr>) = Returns (sts ! 2) \<and>
      CurrBlocks (sts ! 2) = Content brokenItems \<and> CurrBlockIdx (sts ! 2) = 1 \<and>
      RenderBlock (exampleEnv None) [brokenItems]
        (Some (simpleBlock ''n2'' BlockNumberedList [\<lparr>SpanText = ''two'', Attrs = []\<rparr>] []))
        ((sts ! 2)\<lparr>CurrBlockIdx := 2\<rparr>) = Returns (sts ! 3) \<and>
      CurrBlocks (sts ! 3) = Content brokenItems \<and> CurrBlockIdx (sts ! 3) = 2 \<and>
      NewConverter\<lparr>ListNo := 1, Buf := ''<ol id="n1" class="numbered-list" start="1"><li>one</li></ol><hr id="d"/><ol id="n2" class="numbered-list" start="1"><li>two</li></ol>''\<rparr>
        = (sts ! 3)\<lparr>CurrBlockIdx := CurrBlockIdx NewConverter,
                      CurrBlocks := CurrBlocks NewConverter\<rparr>)\<close>
proof -
  let ?env = "exampleEnv None"
  let ?n1 = "simpleBlock ''n1'' BlockNumberedList [\<lparr>SpanText = ''one'', Attrs = []\<rparr>] []"
  let ?n2 = "simpleBlock ''n2'' BlockNumberedList [\<lparr>SpanText = ''two'', Attrs = []\<rparr>] []"
  let ?d = "simpleBlock ''d'' BlockDivider [] []"
  let ?Xb = "NewConverter\<lparr>ListNo := 1, Buf := ''<ol id=\"n1\" class=\"numbered-list\" start=\"1\"><li>one</li></ol><hr id=\"d\"/><ol id=\"n2\" class=\"numbered-list\" start=\"1\"><li>two</li></ol>''\<rparr>"
  have ok: "overrideKeeps False False ?env" by (rule exampleEnv_hooks)
  have contentb: "Content brokenItems = [Some ?n1, Some ?d, Some ?n2]"
    by (simp add: brokenItems_def simpleBlock_def)
  have noindent: "indentOpen brokenItems = []" "indentClose brokenItems = []"
    by (simp_all add: indentOpen_def indentClose_def needsIndent_def brokenItems_def
          simpleBlock_def)
  have p0: "Printf [] c = c" for c by (simp add: Printf_def)
  note restore = RenderChildren_restores_siblings
    [where env = ?env and parents = "[]" and block = brokenItems and c = NewConverter and c' = ?Xb,
     THEN conjunct1, THEN mp, OF brokenItems_run]
  from RenderChildren_restores_siblings
    [where env = ?env and parents = "[]" and block = brokenItems and c = NewConverter and c' = ?Xb,
     THEN conjunct2, THEN mp, OF ok, THEN iffD1, OF brokenItems_run]
  obtain sts where
    len: "length sts = length (Content brokenItems) + 1"
    and first: "sts ! 0 = (Printf (indentOpen brokenItems) NewConverter)
                            \<lparr>CurrBlocks := Content brokenItems\<rparr>"
    and step: "\<And>i. i < length (Content brokenItems) \<Longrightarrow> \<exists>child.
            Content brokenItems ! i = Some child \<and>
            CurrBlocks (sts ! i) = Content brokenItems \<and>
            RenderBlock ?env [brokenItems] (Some child) ((sts ! i)\<lparr>CurrBlockIdx := int i\<rparr>)
              = Returns (sts ! Suc i) \<and>
            CurrBlocks (sts ! Suc i) = Content brokenItems \<and> CurrBlockIdx (sts ! Suc i) = int i"
    and last: "?Xb = Printf (indentClose brokenItems)
                ((sts ! length (Content brokenItems))
                   \<lparr>CurrBlockIdx := CurrBlockIdx NewConverter,
                      CurrBlocks := CurrBlocks NewConverter\<rparr>)"
    by blast
  from len have len': "length sts = 4" by (simp add: contentb)
  from first have first': "sts ! 0 = NewConverter\<lparr>CurrBlocks := Content brokenItems\<rparr>"
    by (simp only: noindent p0)
  from last have last': "?Xb = (sts ! 3)\<lparr>CurrBlockIdx := CurrBlockIdx NewConverter,
                                        CurrBlocks := CurrBlocks NewConverter\<rparr>"
    by (simp add: noindent p0 contentb numeral_3_eq_3)
  from step [of 0] have s0:
    "RenderBlock ?env [brokenItems] (Some ?n1) ((sts ! 0)\<lparr>CurrBlockIdx := 0\<rparr>) = Returns (sts ! 1)"
    "CurrBlocks (sts ! 1) = Content brokenItems" "CurrBlockIdx (sts ! 1) = 0"
    by (auto simp: contentb)
  from step [of 1] have s1:
    "RenderBlock ?env [brokenItems] (Some ?d) ((sts ! 1)\<lparr>CurrBlockIdx := 1\<rparr>) = Returns (sts ! 2)"
    "CurrBlocks (sts ! 2) = Content brokenItems" "CurrBlockIdx (sts ! 2) = 1"
    by (auto simp: contentb numeral_2_eq_2)
  from step [of 2] have s2:
    "RenderBlock ?env [brokenItems] (Some ?n2) ((sts ! 2)\<lparr>CurrBlockIdx := 2\<rparr>) = Returns (sts ! 3)"
    "CurrBlocks (sts ! 3) = Content brokenItems" "CurrBlockIdx (sts ! 3) = 2"
    by (auto simp: contentb numeral_2_eq_2 numeral_3_eq_3)
  from len' first' s0 s1 s2 last'
  have chain: "\<exists>sts.
      length sts = 4 \<and>
      sts ! 0 = NewConverter\<lparr>CurrBlocks := Content brokenItems\<rparr> \<and>
      RenderBlock ?env [brokenItems] (Some ?n1) ((sts ! 0)\<lparr>CurrBlockIdx := 0\<rparr>) = Returns (sts ! 1) \<and>
      CurrBlocks (sts ! 1) = Content brokenItems \<and> CurrBlockIdx (sts ! 1) = 0 \<and>
      RenderBlock ?env [brokenItems] (Some ?d) ((sts ! 1)\<lparr>CurrBlockIdx := 1\<rparr>) = Returns (sts ! 2) \<and>
      CurrBlocks (sts ! 2) = Content brokenItems \<and> CurrBlockIdx (sts ! 2) = 1 \<and>
      RenderBlock ?env [brokenItems] (Some ?n2) ((sts ! 2)\<lparr>CurrBlockIdx := 2\<rparr>) = Returns (sts ! 3) \<and>
      CurrBlocks (sts ! 3) = Content brokenItems \<and> CurrBlockIdx (sts ! 3) = 2 \<and>
      ?Xb = (sts ! 3)\<lparr>CurrBlockIdx := CurrBlockIdx NewConverter,
                       CurrBlocks := CurrBlocks NewConverter\<rparr>"
    by blast
  from brokenItems_run restore ok chain show ?thesis by (intro conjI) simp_all
qed

lemma EscapeHTML_tags:
  "EscapeHTML ''tags'' = ''tags''" "EscapeHTML ''Tags'' = ''Tags''"
  "EscapeHTML ''A'' = ''A''" "EscapeHTML ''B'' = ''B''" "EscapeHTML ''C'' = ''C''"
  "EscapeHTML ''A,B,C'' = ''A,B,C''"
  by (simp_all add: EscapeHTML_def htmlEscapeString_def htmlEscapeChar_def HasPrefix_def)

lemma tagsBlock_run:
  \<open>RenderCollectionView tagsEnv [] tagsBlock NewConverter =
     Returns (Printf (''<div id="cv" class="collection-content"><h4 class="collection-title">DB</h4><table class="collection-content"><thead><tr><th>Tags</th></tr></thead><tbody><tr id="r"><td class="cell-tags"><span class="selected-value">C</span><span class="selected-value">B</span><span class="selected-value">A</span></td></tr>'' @ [CHR 0x0A] @ ''</tbody></table></div>'') NewConverter)\<close>
  by (simp add: RenderCollectionView_def tagsBlock_def tagsView_def tagsEnv_def exampleEnv_def
        Let_def andThen_def GetInlineContent_def PushNewBuffer_def PopBuffer_def Printf_def
        RenderInline_def NewConverter_def multiSelectValues_rev selectedValue_def
        EscapeHTML_tags)

theorem multi_select_cell_reversed_witness:
  \<open>RenderCollectionView tagsEnv [] tagsBlock NewConverter =
     Returns (Printf (''<div id="cv" class="collection-content"><h4 class="collection-title">DB</h4><table class="collection-content"><thead><tr><th>Tags</th></tr></thead><tbody><tr id="r"><td class="cell-tags"><span class="selected-value">C</span><span class="selected-value">B</span><span class="selected-value">A</span></td></tr>'' @ [CHR 0x0A] @ ''</tbody></table></div>'') NewConverter) \<and>
   isMultiSelect tagsView \<lparr>Property = ''tags''\<rparr> \<and>
   cellValue tagsEnv NewConverter \<lparr>RowID = ''r'', RowProperties = Map.empty, RowTitle = []\<rparr>
     \<lparr>Property = ''tags''\<rparr> = ''A,B,C'' \<and>
   (\<exists>cells.
      length cells = 1 \<and> length (cells ! 0) = 1 \<and>
      ''<div id="cv" class="collection-content"><h4 class="collection-title">DB</h4><table class="collection-content"><thead><tr><th>Tags</th></tr></thead><tbody><tr id="r"><td class="cell-tags"><span class="selected-value">C</span><span class="selected-value">B</span><span class="selected-value">A</span></td></tr>'' @ [CHR 0x0A] @ ''</tbody></table></div>''
        = tableHTML tagsBlock tagsView [\<lparr>Property = ''tags''\<rparr>]
            [\<lparr>RowID = ''r'', RowProperties = Map.empty, RowTitle = []\<rparr>] cells \<and>
      cells ! 0 ! 0 = ''<span class="selected-value">C</span><span class="selected-value">B</span><span class="selected-value">A</span>'')\<close>
proof -
  let ?col = "\<lparr>Property = ''tags''\<rparr>"
  let ?row = "\<lparr>RowID = ''r'', RowProperties = Map.empty, RowTitle = []\<rparr>"
  let ?fmt = "\<lparr>TableProperties = [?col]\<rparr>"
  let ?out = "''<div id=\"cv\" class=\"collection-content\"><h4 class=\"collection-title\">DB</h4><table class=\"collection-content\"><thead><tr><th>Tags</th></tr></thead><tbody><tr id=\"r\"><td class=\"cell-tags\"><span class=\"selected-value\">C</span><span class=\"selected-value\">B</span><span class=\"selected-value\">A</span></td></tr>'' @ [CHR 0x0A] @ ''</tbody></table></div>''"
  have multi: "isMultiSelect tagsView ?col" by (simp add: isMultiSelect_def tagsView_def)
  have val: "cellValue tagsEnv NewConverter ?row ?col = ''A,B,C''"
    by (simp add: cellValue_def tagsEnv_def exampleEnv_def inlineHTML_def RenderInlines_def
          RenderInline_def Printf_def EscapeHTML_tags)
  have h: "CollectionViews tagsBlock = tagsView # [] \<and> Format (ViewOf tagsView) = Some ?fmt \<and>
           RenderCollectionView tagsEnv [] tagsBlock NewConverter = Returns (Printf ?out NewConverter)"
    using tagsBlock_run by (simp add: tagsBlock_def tagsView_def)
  have rows: "CollectionRows tagsView = [?row]" by (simp add: tagsView_def)
  have cols: "TableProperties ?fmt = [?col]" by simp
  note T = multi_select_cell_reversed
    [where block = tagsBlock and viewInfo = tagsView and others = "[]" and format = ?fmt
       and env = tagsEnv and parents = "[]" and c = NewConverter and c' = "Printf ?out NewConverter",
     THEN mp, OF h]
  from T [THEN conjunct1] obtain cells where
    len: "length cells = length (CollectionRows tagsView)"
    and lens: "\<forall>i<length (CollectionRows tagsView). length (cells ! i) = length (TableProperties ?fmt)"
    and out: "Printf ?out NewConverter
                = Printf (tableHTML tagsBlock tagsView (TableProperties ?fmt)
                            (CollectionRows tagsView) cells) NewConverter"
    and cell: "\<forall>i<length (CollectionRows tagsView). \<forall>j<length (TableProperties ?fmt).
            isMultiSelect tagsView (TableProperties ?fmt ! j) \<longrightarrow>
              cells ! i ! j =
                concat (map selectedValue (filter (\<lambda>e. e \<noteq> [])
                  (rev (Split (cellValue tagsEnv NewConverter (CollectionRows tagsView ! i)
                                 (TableProperties ?fmt ! j)) CHR '',''))))"
    by blast
  from len have l1: "length cells = 1" by (simp add: rows)
  from lens have l2: "length (cells ! 0) = 1" by (simp add: rows)
  from out have o: "?out = tableHTML tagsBlock tagsView [?col] [?row] cells"
    by (simp add: Printf_def NewConverter_def rows)
  from cell multi val
  have c00: "cells ! 0 ! 0 = ''<span class=\"selected-value\">C</span><span class=\"selected-value\">B</span><span class=\"selected-value\">A</span>''"
    by (simp add: rows selectedValue_def EscapeHTML_tags)
  from l1 l2 o c00
  have "\<exists>cells.
      length cells = 1 \<and> length (cells ! 0) = 1 \<and>
      ?out = tableHTML tagsBlock tagsView [?col] [?row] cells \<and>
      cells ! 0 ! 0 = ''<span class=\"selected-value\">C</span><span class=\"selected-value\">B</span><span class=\"selected-value\">A</span>''"
    by blast
  with tagsBlock_run multi val show ?thesis by (intro conjI)
qed

theorem RenderEquation_falls_back_witness:
  \<open>UseKatexToRenderEquation (NewConverter\<lparr>UseKatexToRenderEquation := True\<rparr>) \<and>
   RunKatex ((exampleEnv (Some equationBlock))\<lparr>LookPath := (\<lambda>_. Some ''/usr/bin/katex'')\<rparr>)
     ''/usr/bin/katex'' ''x<y'' = WaitFails \<and>
   RenderEquation ((exampleEnv (Some equationBlock))\<lparr>LookPath := (\<lambda>_. Some ''/usr/bin/katex'')\<rparr>)
     equationBlock (NewConverter\<lparr>UseKatexToRenderEquation := True\<rparr>)
     = Printf ''<figure id="eq" class="equation">x&lt;y</figure>''
         (NewConverter\<lparr>UseKatexToRenderEquation := True\<rparr>) \<and>
   ToHTML ((exampleEnv (Some equationBlock))\<lparr>LookPath := (\<lambda>_. Some ''/usr/bin/katex'')\<rparr>)
     (NewConverter\<lparr>UseKatexToRenderEquation := True\<rparr>)
     = Returns (Inr ''<figure id="eq" class="equation">x&lt;y</figure>'',
                NewConverter\<lparr>UseKatexToRenderEquation := True, KatexPath := ''/usr/bin/katex''\<rparr>) \<and>
   ToHTML (exampleEnv (Some equationBlock)) (NewConverter\<lparr>UseKatexToRenderEquation := True\<rparr>)
     = Returns (Inl KatexNotLocated, NewConverter\<lparr>UseKatexToRenderEquation := True\<rparr>) \<and>
   detectKatex (exampleEnv (Some equationBlock)) (NewConverter\<lparr>UseKatexToRenderEquation := True\<rparr>)
     = Inl KatexNotLocated\<close>
proof -
  let ?base = "exampleEnv (Some equationBlock)"
  let ?env = "?base\<lparr>LookPath := (\<lambda>_. Some ''/usr/bin/katex'')\<rparr>"
  let ?conv = "NewConverter\<lparr>UseKatexToRenderEquation := True\<rparr>"
  let ?found = "NewConverter\<lparr>UseKatexToRenderEquation := True, KatexPath := ''/usr/bin/katex''\<rparr>"
  have u: "UseKatexToRenderEquation ?conv" by simp
  have run: "\<And>path s. RunKatex ?env path s = WaitFails" by (simp add: exampleEnv_def)
  have f1: "\<forall>html. RunKatex ?env (KatexPath ?conv) (TextSpansToString ?env (InlineContent equationBlock))
              \<noteq> Exits html"
    by (simp only: run) simp
  have f2: "\<forall>path html. RunKatex ?env path (TextSpansToString ?env (InlineContent equationBlock))
              \<noteq> Exits html"
    by (simp only: run) simp
  have d: "detectKatex ?env ?conv = Inr ?found"
    by (simp add: detectKatex_def NewConverter_def exampleEnv_def)
  have root: "Root ?env = Some equationBlock" by (simp add: exampleEnv_def)
  have t: "Type equationBlock = BlockEquation" by (simp add: equationBlock_def simpleBlock_def)
  have hook: "RenderBlockOverride ?env = None" by (simp add: exampleEnv_def)
  have raw: "rawEquation ?env ?conv equationBlock = ''<figure id=\"eq\" class=\"equation\">x&lt;y</figure>''"
    by (simp add: rawEquation_def inlineHTML_def RenderInlines_def RenderInline_def Printf_def
          equationBlock_def simpleBlock_def EscapeHTML_examples)
  have failing: "ToHTML ?base ?conv = Returns (Inl KatexNotLocated, ?conv)"
    by (simp add: ToHTML_def detectKatex_def NewConverter_def exampleEnv_def)
  note T = RenderEquation_falls_back
    [where c = ?conv and env = ?env and block = equationBlock and ?c1.0 = ?found]
  note E = RenderEquation_falls_back
    [where c = ?conv and env = ?base and err = KatexNotLocated and c' = ?conv,
     THEN conjunct2, THEN conjunct1, THEN mp, OF failing, THEN conjunct2]
  from T [THEN conjunct1, THEN mp, OF conjI [OF u f1], THEN conjunct1]
  have e1: "RenderEquation ?env equationBlock ?conv
              = Printf ''<figure id=\"eq\" class=\"equation\">x&lt;y</figure>'' ?conv"
    by (simp only: raw)
  have whole: "UseKatexToRenderEquation ?conv \<and> detectKatex ?env ?conv = Inr ?found \<and>
    Root ?env = Some equationBlock \<and> Type equationBlock = BlockEquation \<and>
    RenderBlockOverride ?env = None \<and>
    (\<forall>path html. RunKatex ?env path (TextSpansToString ?env (InlineContent equationBlock))
                    \<noteq> Exits html)"
    using u d root t hook f2 by (intro conjI)
  from T [THEN conjunct2, THEN conjunct2, THEN mp, OF whole]
  have e2: "ToHTML ?env ?conv = Returns (Inr ''<figure id=\"eq\" class=\"equation\">x&lt;y</figure>'', ?found)"
    by (simp only: raw)
  from E have e3: "detectKatex ?base ?conv = Inl KatexNotLocated" by simp
  have r: "RunKatex ?env ''/usr/bin/katex'' ''x<y'' = WaitFails" by (rule run)
  from u r e1 e2 failing e3 show ?thesis by (intro conjI)
qed


end
